theory Spec2Isabelle
  imports Complex_Main "HOL-Library.Log_Nat" "HOL-Library.Multiset"
begin

section \<open>Numbers: IEEE-754 binary64 arithmetic as JavaScript performs it\<close>

text \<open>
  A JavaScript \<^verbatim>\<open>number\<close> is a binary64 value.  A finite one is modelled by the rational
  it denotes; every arithmetic operator rounds the exact result to the nearest value with a
  53-bit significand, ties to even (\<open>fl\<close>).  The exponent range is taken unbounded, so the
  model agrees with the machine wherever no overflow or underflow occurs; \<^verbatim>\<open>NaN\<close>,
  the infinities and the sign of zero are outside the model.
\<close>

definition pow2 :: "int \<Rightarrow> rat" where
  "pow2 k = (if 0 \<le> k then 2 ^ nat k else 1 / 2 ^ nat (- k))"

text \<open>The binary exponent of a non-zero value: \<open>pow2 (expo x) \<le> \<bar>x\<bar> < pow2 (expo x + 1)\<close>.\<close>

definition expo :: "rat \<Rightarrow> int" where
  "expo x = (if 1 \<le> \<bar>x\<bar> then bitlen \<lfloor>\<bar>x\<bar>\<rfloor> - 1
             else - bitlen (\<lceil>1 / \<bar>x\<bar>\<rceil> - 1))"

definition round_half_even :: "rat \<Rightarrow> int" where
  "round_half_even q =
     (let f = \<lfloor>q\<rfloor>; r = q - of_int f
      in if r < 1 / 2 then f else if 1 / 2 < r then f + 1
         else if even f then f else f + 1)"

definition fl :: "rat \<Rightarrow> rat" where
  "fl x = (if x = 0 then 0
           else let e = expo x - 52
                in sgn x * of_int (round_half_even (\<bar>x\<bar> / pow2 e)) * pow2 e)"

definition js_mul :: "rat \<Rightarrow> rat \<Rightarrow> rat" where
  "js_mul a b = fl (a * b)"

definition js_add :: "rat \<Rightarrow> rat \<Rightarrow> rat" where
  "js_add a b = fl (a + b)"

definition js_sub :: "rat \<Rightarrow> rat \<Rightarrow> rat" where
  "js_sub a b = fl (a - b)"

definition js_div :: "rat \<Rightarrow> rat \<Rightarrow> rat" where
  "js_div a b = fl (a / b)"

text \<open>
  \<^verbatim>\<open>roundToTwoDecimals(value) = parseFloat(value.toFixed(2))\<close>.
  \<^verbatim>\<open>toFixed(2)\<close> takes the integer \<open>n\<close> with \<open>n / 100\<close> closest to the magnitude of the
  value, the larger one on a tie, and prints it with two decimals behind the sign;
  at \<open>10\<^sup>2\<^sup>1\<close> and above it prints the number itself.  \<^verbatim>\<open>parseFloat\<close> reads the
  decimal back as the nearest binary64 value.
\<close>

definition roundToTwoDecimals :: "rat \<Rightarrow> rat" where
  "roundToTwoDecimals x =
     (if 10 ^ 21 \<le> \<bar>x\<bar> then x
      else fl (sgn x * of_int \<lfloor>\<bar>x\<bar> * 100 + 1 / 2\<rfloor> / 100))"

text \<open>\<^verbatim>\<open>safeAdd(a, b) = roundToTwoDecimals((a * 100 + b * 100) / 100)\<close>\<close>

definition safeAdd :: "rat \<Rightarrow> rat \<Rightarrow> rat" where
  "safeAdd a b = roundToTwoDecimals (js_div (js_add (js_mul a 100) (js_mul b 100)) 100)"

text \<open>
  The formula as the specification words it: scale to cents, sum, round to two decimals,
  then divide by 100.
\<close>

definition addCurrency_spec :: "rat \<Rightarrow> rat \<Rightarrow> rat" where
  "addCurrency_spec a b =
     js_div (roundToTwoDecimals (js_add (js_mul a 100) (js_mul b 100))) 100"

text \<open>The binary64 value of the decimal with \<open>n\<close> hundredths (\<open>n\<close> cents).\<close>

definition cents :: "int \<Rightarrow> rat" where
  "cents n = fl (of_int n / 100)"


section \<open>Strings and dates\<close>

text \<open>
  \<^verbatim>\<open>String.prototype.toLowerCase\<close> on the ASCII letters; any other character is left as
  it is.
\<close>

definition lower_char :: "char \<Rightarrow> char" where
  "lower_char c =
     (case map_of (zip ''ABCDEFGHIJKLMNOPQRSTUVWXYZ'' ''abcdefghijklmnopqrstuvwxyz'') c of
        Some l \<Rightarrow> l
      | None \<Rightarrow> c)"

definition toLowerCase :: "string \<Rightarrow> string" where
  "toLowerCase s = map lower_char s"

text \<open>
  \<^verbatim>\<open>new Date(s).getTime()\<close> belongs to the host.  It is the parameter \<open>parse\<close> of every
  function that reads a date: \<open>Some t\<close> is the instant in milliseconds since the epoch,
  \<open>None\<close> is an invalid date (\<^verbatim>\<open>NaN\<close>).  A reading of the clock through
  \<^verbatim>\<open>new Date().toISOString()\<close> is an argument of the operation that takes it.
\<close>

type_synonym date_parser = "string \<Rightarrow> int option"


section \<open>The donor and donation data model\<close>

datatype error = Error string

datatype donation_type = Bits | Subscription | Tip | Local

record IndividualDonation =
  amount :: rat
  timestamp :: string
  donationType :: "donation_type option"
  subTier :: "string option"

record DonationData =
  name :: string
  individual_donations :: "IndividualDonation list"
  total_amount :: rat
  total_donations :: int

record BaseTotal =
  overall_amount :: rat
  donation_count :: int

text \<open>\<^verbatim>\<open>StreamElementsResult\<close> and \<^verbatim>\<open>ProcessedData\<close>: donors and the overall total.\<close>

record ProcessedData =
  donations :: "DonationData list"
  overall_total :: BaseTotal

text \<open>
  \<^verbatim>\<open>LocalDonationData\<close>: \<^verbatim>\<open>{ data: { donations, overall_total, metadata: { lastUpdated } } }\<close>,
  with the two wrapper objects flattened.
\<close>

record LocalDonationData = ProcessedData +
  metadata_lastUpdated :: string


section \<open>The persisted document\<close>

text \<open>
  A JSON value as the store holds it and as a freshly normalised payload is built.
  An object is the list of its own properties, in insertion order.
\<close>

datatype jsval =
    JUndefined
  | JNull
  | JBool bool
  | JNum rat
  | JStr string
  | JArr "jsval list"
  | JObj "(string \<times> jsval) list"

text \<open>One source's entry of the goal state: \<^verbatim>\<open>{ lastUpdated, lastGoalReset, data }\<close>.\<close>

record source_entry =
  lastUpdated :: "string option"
  lastGoalReset :: "string option"
  data :: "jsval option"

text \<open>
  The document at \<^verbatim>\<open>/goal\<close>.  A field is \<open>None\<close> where the property is absent:
  pushing to a child path of a document that does not exist yet creates one that has only
  that child.
\<close>

record goal_state =
  uuid :: "jsval option"
  config :: "jsval option"
  overlayInstance :: "jsval option"
  createdAt :: "string option"
  updatedAt :: "string option"
  streamElements :: "source_entry option"
  extraLife :: "source_entry option"
  localDonations :: "LocalDonationData option"

text \<open>The store: the document at \<^verbatim>\<open>/goal\<close>, or nothing.  Reads and writes never fail.\<close>

type_synonym db = "goal_state option"

definition empty_goal :: goal_state where
  "empty_goal = \<lparr> uuid = None, config = None, overlayInstance = None, createdAt = None,
     updatedAt = None, streamElements = None, extraLife = None, localDonations = None \<rparr>"

definition getGoalData :: "db \<Rightarrow> goal_state option" where
  "getGoalData d = d"

text \<open>\<^verbatim>\<open>getData('/goal/localDonations')\<close> throws when the path is missing; the caller gets \<^verbatim>\<open>undefined\<close>.\<close>

definition getLocalDonations :: "db \<Rightarrow> LocalDonationData option" where
  "getLocalDonations d = (case d of None \<Rightarrow> None | Some g \<Rightarrow> localDonations g)"

text \<open>\<^verbatim>\<open>push('/goal/localDonations', x)\<close>\<close>

definition push_localDonations :: "LocalDonationData \<Rightarrow> db \<Rightarrow> db" where
  "push_localDonations x d =
     Some ((case d of None \<Rightarrow> empty_goal | Some g \<Rightarrow> g) \<lparr> localDonations := Some x \<rparr>)"


section \<open>The local ledger\<close>

text \<open>\<^verbatim>\<open>Array.prototype.findIndex\<close>, with \<open>None\<close> for \<open>-1\<close>.\<close>

fun findIndex :: "('a \<Rightarrow> bool) \<Rightarrow> 'a list \<Rightarrow> nat option" where
  "findIndex P [] = None"
| "findIndex P (x # xs) =
     (if P x then Some 0 else map_option Suc (findIndex P xs))"

text \<open>\<^verbatim>\<open>xs.splice(i, 1)\<close>\<close>

definition splice1 :: "nat \<Rightarrow> 'a list \<Rightarrow> 'a list" where
  "splice1 i xs = take i xs @ drop (Suc i) xs"

definition emptyLocalData :: "string \<Rightarrow> LocalDonationData" where
  "emptyLocalData now =
     \<lparr> donations = [], overall_total = \<lparr> overall_amount = 0, donation_count = 0 \<rparr>,
       metadata_lastUpdated = now \<rparr>"

text \<open>\<^verbatim>\<open>resetLocalData()\<close>; \<open>now\<close> is the clock reading stored as \<^verbatim>\<open>lastUpdated\<close>.\<close>

definition resetLocalData :: "string \<Rightarrow> db \<Rightarrow> (error + unit) \<times> db" where
  "resetLocalData now d = (Inr (), push_localDonations (emptyLocalData now) d)"

definition sameName :: "string \<Rightarrow> DonationData \<Rightarrow> bool" where
  "sameName n donor \<longleftrightarrow> toLowerCase (name donor) = toLowerCase n"

definition resetUserDonations ::
  "string \<Rightarrow> string \<Rightarrow> db \<Rightarrow> (error + LocalDonationData) \<times> db" where
  "resetUserDonations userName now d =
     (case getLocalDonations d of
        None \<Rightarrow> (Inl (Error ''No local donation data found''), d)
      | Some cur \<Rightarrow>
          (case findIndex (sameName userName) (donations cur) of
             None \<Rightarrow> (Inl (Error ''Donor not found''), d)
           | Some donorIndex \<Rightarrow>
               let donor = donations cur ! donorIndex;
                   new = cur \<lparr>
                     donations := splice1 donorIndex (donations cur),
                     overall_total := \<lparr>
                       overall_amount = roundToTwoDecimals
                         (js_sub (overall_amount (overall_total cur)) (total_amount donor)),
                       donation_count =
                         donation_count (overall_total cur) - total_donations donor \<rparr>,
                     metadata_lastUpdated := now \<rparr>
               in (Inr new, push_localDonations new d)))"

text \<open>
  \<^verbatim>\<open>Math.abs(new Date(a).getTime() - new Date(b).getTime()) < ms\<close>: false as soon as one
  of the two dates is invalid.
\<close>

definition timeDiff_less :: "date_parser \<Rightarrow> string \<Rightarrow> string \<Rightarrow> int \<Rightarrow> bool" where
  "timeDiff_less parse a b ms =
     (case (parse a, parse b) of (Some x, Some y) \<Rightarrow> \<bar>x - y\<bar> < ms | _ \<Rightarrow> False)"

definition isDuplicate ::
  "date_parser \<Rightarrow> string \<Rightarrow> IndividualDonation \<Rightarrow> LocalDonationData \<Rightarrow> bool" where
  "isDuplicate parse donorName newDonation cur =
     list_ex (\<lambda>donor. sameName donorName donor \<and>
        list_ex (\<lambda>d. amount d = amount newDonation \<and>
                   timeDiff_less parse (timestamp d) (timestamp newDonation) 5000)
          (individual_donations donor))
       (donations cur)"

text \<open>The three assignments that book a donation on its donor.\<close>

definition addToDonor :: "IndividualDonation \<Rightarrow> DonationData \<Rightarrow> DonationData" where
  "addToDonor nd donor =
     donor \<lparr> individual_donations := individual_donations donor @ [nd],
             total_amount := safeAdd (total_amount donor) (amount nd),
             total_donations := total_donations donor + 1 \<rparr>"

text \<open>
  \<^verbatim>\<open>updateLocalDonation({ name, amount })\<close>.  \<open>now\<close> is the reading taken for the
  donation's timestamp, \<open>now'\<close> the later one stored as \<^verbatim>\<open>lastUpdated\<close>.  The
  result \<open>Inr None\<close> is \<^verbatim>\<open>null\<close>.
\<close>

definition updateLocalDonation ::
  "date_parser \<Rightarrow> string \<Rightarrow> rat \<Rightarrow> string \<Rightarrow> string \<Rightarrow> db
     \<Rightarrow> (error + LocalDonationData option) \<times> db" where
  "updateLocalDonation parse donorName donationAmount now now' d =
     (if donationAmount \<le> 0 then (Inl (Error ''Donation amount must be greater than 0''), d)
      else
        let cur = (case getLocalDonations d of Some c \<Rightarrow> c | None \<Rightarrow> emptyLocalData now);
            newDonation = \<lparr> amount = roundToTwoDecimals donationAmount, timestamp = now,
                            donationType = Some Local, subTier = None \<rparr>
        in if isDuplicate parse donorName newDonation cur then (Inr None, d)
           else
             let donors =
                   (case findIndex (sameName donorName) (donations cur) of
                      Some i \<Rightarrow> (donations cur) [i := addToDonor newDonation (donations cur ! i)]
                    | None \<Rightarrow> donations cur @
                        [addToDonor newDonation
                           \<lparr> name = donorName, individual_donations = [],
                             total_amount = 0, total_donations = 0 \<rparr>]);
                 new = cur \<lparr>
                   donations := donors,
                   overall_total := \<lparr>
                     overall_amount =
                       safeAdd (overall_amount (overall_total cur)) (amount newDonation),
                     donation_count = donation_count (overall_total cur) + 1 \<rparr>,
                   metadata_lastUpdated := now' \<rparr>
             in (Inr (Some new), push_localDonations new d))"

text \<open>
  The search loop of \<^verbatim>\<open>removeLocalDonation\<close>: every donor is visited, and a donor that
  holds a donation with the timestamp overwrites the pair of indices found before.
\<close>

fun locate :: "string \<Rightarrow> nat \<Rightarrow> DonationData list \<Rightarrow> (nat \<times> nat) option \<Rightarrow> (nat \<times> nat) option"
  where
  "locate ts dIndex [] found = found"
| "locate ts dIndex (donor # rest) found =
     locate ts (Suc dIndex) rest
       (case findIndex (\<lambda>d. timestamp d = ts) (individual_donations donor) of
          Some donationIdx \<Rightarrow> Some (dIndex, donationIdx)
        | None \<Rightarrow> found)"

definition removeLocalDonation ::
  "string \<Rightarrow> string \<Rightarrow> db \<Rightarrow> (error + LocalDonationData) \<times> db" where
  "removeLocalDonation ts now d =
     (case getLocalDonations d of
        None \<Rightarrow> (Inl (Error ''No local donation data found''), d)
      | Some cur \<Rightarrow>
          (case locate ts 0 (donations cur) None of
             None \<Rightarrow> (Inl (Error ''Donation not found''), d)
           | Some (donorIndex, donationIndex) \<Rightarrow>
               let donor = donations cur ! donorIndex;
                   removedDonation = individual_donations donor ! donationIndex;
                   donor' = donor \<lparr>
                     individual_donations := splice1 donationIndex (individual_donations donor),
                     total_amount := js_sub (total_amount donor) (amount removedDonation),
                     total_donations := total_donations donor - 1 \<rparr>;
                   donors = (if individual_donations donor' = []
                             then splice1 donorIndex (donations cur)
                             else (donations cur) [donorIndex := donor']);
                   new = cur \<lparr>
                     donations := donors,
                     overall_total := \<lparr>
                       overall_amount =
                         js_sub (overall_amount (overall_total cur)) (amount removedDonation),
                       donation_count = donation_count (overall_total cur) - 1 \<rparr>,
                     metadata_lastUpdated := now \<rparr>
               in (Inr new, push_localDonations new d)))"


text \<open>A donor holds a donation with the given timestamp.\<close>

definition holds_ts :: "string \<Rightarrow> DonationData \<Rightarrow> bool" where
  "holds_ts ts donor \<longleftrightarrow> list_ex (\<lambda>x. timestamp x = ts) (individual_donations donor)"

text \<open>
  The sum of a list of amounts as the repository computes it
  (\<^verbatim>\<open>reduce((sum, d) => safeAdd(sum, d.amount), 0)\<close>), and the ledger invariant: every
  donor's totals are the sum and the count of its donations, no donor is empty, and the
  overall total is the sum over the donors.
\<close>

definition sumAmounts :: "rat list \<Rightarrow> rat" where
  "sumAmounts xs = foldl safeAdd 0 xs"

definition donor_consistent :: "DonationData \<Rightarrow> bool" where
  "donor_consistent donor \<longleftrightarrow>
     total_amount donor = sumAmounts (map amount (individual_donations donor)) \<and>
     total_donations donor = int (length (individual_donations donor)) \<and>
     individual_donations donor \<noteq> []"

definition ledger_consistent :: "LocalDonationData \<Rightarrow> bool" where
  "ledger_consistent L \<longleftrightarrow>
     list_all donor_consistent (donations L) \<and>
     overall_amount (overall_total L) = sumAmounts (map total_amount (donations L)) \<and>
     donation_count (overall_total L) = sum_list (map total_donations (donations L))"


section \<open>Deep comparison of stored and new data\<close>

text \<open>\<^verbatim>\<open>!v\<close> is false: the value is truthy.\<close>

fun truthy :: "jsval \<Rightarrow> bool" where
  "truthy JUndefined = False"
| "truthy JNull = False"
| "truthy (JBool b) = b"
| "truthy (JNum n) = (n \<noteq> 0)"
| "truthy (JStr s) = (s \<noteq> [])"
| "truthy (JArr xs) = True"
| "truthy (JObj kvs) = True"

fun is_primitive :: "jsval \<Rightarrow> bool" where
  "is_primitive (JArr xs) = False"
| "is_primitive (JObj kvs) = False"
| "is_primitive v = True"

text \<open>
  \<^verbatim>\<open>a === b\<close> between a value read from the store and a value of a freshly built
  payload: equal primitives.  Two objects or arrays are never the same reference there;
  where a reference is shared, the structural branches below answer \<open>True\<close> as well
  (lemma \<open>isEqual_same\<close>).
\<close>

definition strict_eq :: "jsval \<Rightarrow> jsval \<Rightarrow> bool" where
  "strict_eq a b \<longleftrightarrow> is_primitive a \<and> a = b"

fun is_string :: "jsval \<Rightarrow> bool" where
  "is_string (JStr s) = True"
| "is_string v = False"

fun is_array :: "jsval \<Rightarrow> bool" where
  "is_array (JArr xs) = True"
| "is_array v = False"

text \<open>\<^verbatim>\<open>typeof v === 'object'\<close>\<close>

fun is_object :: "jsval \<Rightarrow> bool" where
  "is_object (JArr xs) = True"
| "is_object (JObj kvs) = True"
| "is_object JNull = True"
| "is_object v = False"

fun getTime :: "date_parser \<Rightarrow> jsval \<Rightarrow> int option" where
  "getTime parse (JStr s) = parse s"
| "getTime parse v = None"

fun elems :: "jsval \<Rightarrow> jsval list" where
  "elems (JArr xs) = xs"
| "elems v = []"

text \<open>The decimal numeral of an array index, as \<^verbatim>\<open>Object.keys\<close> of an array lists it.\<close>

definition digit_char :: "nat \<Rightarrow> char" where
  "digit_char n = ''0123456789'' ! n"

fun show_nat :: "nat \<Rightarrow> string" where
  "show_nat n = (if n < 10 then [digit_char n] else show_nat (n div 10) @ [digit_char (n mod 10)])"

text \<open>\<^verbatim>\<open>Object.keys(v)\<close> and \<^verbatim>\<open>v[k]\<close>, own properties only.\<close>

fun keys :: "jsval \<Rightarrow> string list" where
  "keys (JObj kvs) = map fst kvs"
| "keys (JArr xs) = map show_nat [0..<length xs]"
| "keys v = []"

fun get_prop :: "jsval \<Rightarrow> string \<Rightarrow> jsval" where
  "get_prop (JObj kvs) k = (case map_of kvs k of Some v \<Rightarrow> v | None \<Rightarrow> JUndefined)"
| "get_prop (JArr xs) k =
     (if k = ''length'' then JNum (of_nat (length xs))
      else case find (\<lambda>i. show_nat i = k) [0..<length xs] of
             Some i \<Rightarrow> xs ! i
           | None \<Rightarrow> JUndefined)"
| "get_prop v k = JUndefined"

text \<open>
  \<^verbatim>\<open>isEqual(obj1, obj2)\<close>, branch by branch: identity, a falsy operand, two
  strings that both are valid dates, two arrays, two objects, anything else.
\<close>

function isEqual :: "date_parser \<Rightarrow> jsval \<Rightarrow> jsval \<Rightarrow> bool" where
  "isEqual parse obj1 obj2 =
     (if strict_eq obj1 obj2 then True
      else if \<not> truthy obj1 \<or> \<not> truthy obj2 then False
      else if is_string obj1 \<and> is_string obj2 \<and>
              getTime parse obj1 \<noteq> None \<and> getTime parse obj2 \<noteq> None
        then getTime parse obj1 = getTime parse obj2
      else if is_array obj1 \<and> is_array obj2 then
        (if length (elems obj1) \<noteq> length (elems obj2) then False
         else list_all (\<lambda>index. isEqual parse (elems obj1 ! index) (elems obj2 ! index))
                [0..<length (elems obj1)])
      else if is_object obj1 \<and> is_object obj2 then
        (if length (keys obj1) \<noteq> length (keys obj2) then False
         else list_all (\<lambda>key. isEqual parse (get_prop obj1 key) (get_prop obj2 key))
                (keys obj1))
      else strict_eq obj1 obj2)"
  by pat_completeness auto
termination
proof (relation "measure (\<lambda>(parse, obj1, obj2). size obj1)", goal_cases)
  case 1
  then show ?case by simp
next
  case (2 parse obj1 obj2 index)
  then obtain xs where xs: "obj1 = JArr xs" by (cases obj1) auto
  with 2 have "xs ! index \<in> set xs" by simp
  then have "size (xs ! index) < Suc (size_list size xs)"
    by (simp add: less_Suc_eq_le size_list_estimation')
  with xs show ?case by simp
next
  case (3 parse obj1 obj2 key)
  have "size (get_prop obj1 key) < size obj1"
  proof (cases obj1)
    case (JObj kvs)
    with 3 have "map_of kvs key \<noteq> None" by (simp add: map_of_eq_None_iff)
    then obtain x where x: "map_of kvs key = Some x" by auto
    then have "(key, x) \<in> set kvs" by (rule map_of_SomeD)
    then have "size x < Suc (size_list (size_prod (\<lambda>_. 0) size) kvs)"
      by (induction kvs) auto
    with JObj x show ?thesis by simp
  next
    case (JArr xs)
    have "size (get_prop (JArr xs) key) < Suc (size_list size xs)"
    proof (cases "key = ''length''")
      case True
      then show ?thesis by simp
    next
      case False
      show ?thesis
      proof (cases "find (\<lambda>i. show_nat i = key) [0..<length xs]")
        case None
        with False show ?thesis by simp
      next
        case (Some i)
        then have "i < length xs" by (auto simp: find_Some_iff)
        then have "xs ! i \<in> set xs" by simp
        then have "size (xs ! i) < Suc (size_list size xs)"
          by (simp add: less_Suc_eq_le size_list_estimation')
        with False Some show ?thesis by simp
      qed
    qed
    with JArr show ?thesis by simp
  qed (use 3 in simp_all)
  then show ?case by simp
qed

declare isEqual.simps [simp del]


section \<open>The merge engine\<close>

datatype source = SrcStreamElements | SrcExtraLife

definition get_source :: "source \<Rightarrow> goal_state \<Rightarrow> source_entry option" where
  "get_source src g = (case src of SrcStreamElements \<Rightarrow> streamElements g | SrcExtraLife \<Rightarrow> extraLife g)"

definition set_source :: "source \<Rightarrow> source_entry \<Rightarrow> goal_state \<Rightarrow> goal_state" where
  "set_source src e g =
     (case src of SrcStreamElements \<Rightarrow> g \<lparr> streamElements := Some e \<rparr>
                | SrcExtraLife \<Rightarrow> g \<lparr> extraLife := Some e \<rparr>)"

text \<open>
  \<^verbatim>\<open>updateGoalData(data)\<close>: \<open>now\<close> is the reading for \<^verbatim>\<open>createdAt\<close> of a
  document that did not exist, \<open>now'\<close> the one stamped as \<^verbatim>\<open>updatedAt\<close>.  The
  combined totals that the function adds up before the write are not stored.  The local
  ledger entry is copied as it is.
\<close>

definition updateGoalData :: "string \<Rightarrow> string \<Rightarrow> goal_state \<Rightarrow> db \<Rightarrow> db" where
  "updateGoalData now now' newState d =
     (let currentState =
            (case getGoalData d of
               Some s \<Rightarrow> s
             | None \<Rightarrow> empty_goal \<lparr> uuid := uuid newState, config := config newState,
                          overlayInstance := overlayInstance newState,
                          createdAt := Some now \<rparr>);
          s1 = (case config newState of
                  Some c \<Rightarrow> if truthy c then currentState \<lparr> config := Some c \<rparr>
                            else currentState
                | None \<Rightarrow> currentState);
          s2 = (case streamElements newState of
                  Some e \<Rightarrow> s1 \<lparr> streamElements := Some
                             \<lparr> lastUpdated = lastUpdated e, lastGoalReset = lastGoalReset e,
                               data = data e \<rparr> \<rparr>
                | None \<Rightarrow> s1);
          s3 = (case extraLife newState of
                  Some e \<Rightarrow> s2 \<lparr> extraLife := Some
                             \<lparr> lastUpdated = lastUpdated e, lastGoalReset = None,
                               data = data e \<rparr> \<rparr>
                | None \<Rightarrow> s2);
          s4 = (case localDonations newState of
                  Some l \<Rightarrow> s3 \<lparr> localDonations := Some l \<rparr>
                | None \<Rightarrow> s3)
      in Some (s4 \<lparr> updatedAt := Some now' \<rparr>))"

text \<open>
  \<^verbatim>\<open>syncExternalData(source, newData)\<close>: \<open>now\<close> is the reading stored as the
  entry's \<^verbatim>\<open>lastUpdated\<close>.  The result is the returned boolean and the store.
\<close>

definition syncExternalData ::
  "date_parser \<Rightarrow> source \<Rightarrow> jsval \<Rightarrow> string \<Rightarrow> string \<Rightarrow> db \<Rightarrow> bool \<times> db" where
  "syncExternalData parse src newData now now' d =
     (case getGoalData d of
        None \<Rightarrow> (False, d)
      | Some goalState \<Rightarrow>
          let currentData = (case get_source src goalState of Some e \<Rightarrow> data e | None \<Rightarrow> None);
              lastReset = (case get_source src goalState of
                             Some e \<Rightarrow> lastGoalReset e | None \<Rightarrow> None)
          in if (case currentData of Some c \<Rightarrow> truthy c \<and> isEqual parse c newData
                                   | None \<Rightarrow> False)
             then (False, d)
             else (True,
                   updateGoalData now now'
                     (set_source src
                        \<lparr> lastUpdated = Some now, lastGoalReset = lastReset,
                          data = Some newData \<rparr> goalState) d))"

text \<open>A well-formed value: the keys of every object are distinct.\<close>

fun wf_json :: "jsval \<Rightarrow> bool" where
  "wf_json (JArr xs) = list_all wf_json xs"
| "wf_json (JObj kvs) = (distinct (map fst kvs) \<and> list_all (\<lambda>kv. wf_json (snd kv)) kvs)"
| "wf_json v = True"

text \<open>
  Deep equality as the specification words it: the same structure, the properties of an
  object in any order, and two strings equal when they are the same or both parse as valid
  dates of the same instant.
\<close>

fun deep_equal :: "date_parser \<Rightarrow> jsval \<Rightarrow> jsval \<Rightarrow> bool" where
  "deep_equal parse (JStr s) b =
     (case b of
        JStr t \<Rightarrow> s = t \<or> (case (parse s, parse t) of (Some x, Some y) \<Rightarrow> x = y | _ \<Rightarrow> False)
      | _ \<Rightarrow> False)"
| "deep_equal parse (JArr xs) b =
     (case b of JArr ys \<Rightarrow> list_all2 (deep_equal parse) xs ys | _ \<Rightarrow> False)"
| "deep_equal parse (JObj kvs) b =
     (case b of
        JObj kvs' \<Rightarrow>
          set (map fst kvs) = set (map fst kvs') \<and>
          list_all (\<lambda>kv. case map_of kvs' (fst kv) of
                            Some v' \<Rightarrow> deep_equal parse (snd kv) v'
                          | None \<Rightarrow> False) kvs
      | _ \<Rightarrow> False)"
| "deep_equal parse a b = (a = b)"

text \<open>A payload is an object.\<close>

fun is_payload :: "jsval \<Rightarrow> bool" where
  "is_payload (JObj kvs) = True"
| "is_payload v = False"


section \<open>The fundraising-platform normalizer\<close>

text \<open>A donation as the fundraising platform's normalizer stores it.\<close>

record ExtraLifeDonation =
  el_amount :: rat
  displayName :: string
  message :: string
  donationID :: string
  createdDateUTC :: string
  eventID :: string

text \<open>
  A donation as the platform returns it; the display name and the message may be missing.
\<close>

record raw_donation =
  raw_amount :: rat
  raw_displayName :: "string option"
  raw_message :: "string option"
  raw_donationID :: string
  raw_createdDateUTC :: string
  raw_eventID :: string

text \<open>
  The participant summary of the platform. A number that is missing from the reply is
  \<open>None\<close>.
\<close>

record participant =
  p_sumDonations :: "rat option"
  p_fundraisingGoal :: "rat option"
  p_eventID :: string

text \<open>\<^verbatim>\<open>ProcessedExtraLifeData\<close>, with the fields of \<^verbatim>\<open>metadata\<close> prefixed.\<close>

record ProcessedExtraLifeData =
  sumDonations :: rat
  fundraisingGoal :: rat
  el_donations :: "ExtraLifeDonation list"
  newDonations :: "ExtraLifeDonation list option"
  meta_lastUpdated :: string
  meta_participantId :: string
  meta_eventID :: string

text \<open>
  The outcome of a request: the request or the decoding of the reply throws, the status is
  not a success, or the reply carries the decoded body.
\<close>

datatype 'a response = NetworkError | HttpError | HttpOk 'a

text \<open>
  \<^verbatim>\<open>Array.prototype.sort\<close> with a comparator is a stable sort.  It is modelled by
  insertion, \<open>le a b\<close> standing for a comparator result that is not positive; every
  stable sort gives the same list when the comparator is a consistent order, and a
  permutation of the input in any case.
\<close>

fun insert_by :: "('a \<Rightarrow> 'a \<Rightarrow> bool) \<Rightarrow> 'a \<Rightarrow> 'a list \<Rightarrow> 'a list" where
  "insert_by le x [] = [x]"
| "insert_by le x (y # ys) = (if le x y then x # y # ys else y # insert_by le x ys)"

definition sort_by :: "('a \<Rightarrow> 'a \<Rightarrow> bool) \<Rightarrow> 'a list \<Rightarrow> 'a list" where
  "sort_by le xs = foldr (insert_by le) xs []"

text \<open>
  The comparator \<^verbatim>\<open>new Date(b).getTime() - new Date(a).getTime()\<close>: with an invalid
  date the difference is \<^verbatim>\<open>NaN\<close>, which the sort takes for zero.
\<close>

definition newest_first :: "date_parser \<Rightarrow> string \<Rightarrow> string \<Rightarrow> bool" where
  "newest_first parse a b =
     (case (parse a, parse b) of (Some ta, Some tb) \<Rightarrow> tb - ta \<le> 0 | _ \<Rightarrow> True)"

text \<open>\<^verbatim>\<open>v || dflt\<close> on an optional string and on an optional number.\<close>

definition or_default :: "string option \<Rightarrow> string \<Rightarrow> string" where
  "or_default v dflt = (case v of Some s \<Rightarrow> if s = [] then dflt else s | None \<Rightarrow> dflt)"

definition normalise_donation :: "raw_donation \<Rightarrow> ExtraLifeDonation" where
  "normalise_donation donation =
     \<lparr> el_amount = raw_amount donation,
       displayName = or_default (raw_displayName donation) ''Anonymous'',
       message = or_default (raw_message donation) [],
       donationID = raw_donationID donation,
       createdDateUTC = raw_createdDateUTC donation,
       eventID = raw_eventID donation \<rparr>"

definition number_or :: "rat option \<Rightarrow> rat option \<Rightarrow> rat option" where
  "number_or v dflt = (case v of Some x \<Rightarrow> if x = 0 then dflt else Some x | None \<Rightarrow> dflt)"

text \<open>
  \<^verbatim>\<open>pollExtraLife(participantId)\<close>.  \<open>previousData\<close> is what \<^verbatim>\<open>getExtraLifeData\<close>
  read, \<open>donationGoal\<close> is \<^verbatim>\<open>goalState.config.donationGoal\<close> (\<open>None\<close> when there is
  no goal state, where reading it throws), the two responses are what the two requests
  give, \<open>now\<close> is the clock reading.  The result is the value returned and the payload
  handed to \<^verbatim>\<open>syncExternalData\<close>, if any.  When nothing is merged, \<^verbatim>\<open>donations\<close>
  and \<^verbatim>\<open>newDonations\<close> are the same array, so sorting the one sorts the other.
\<close>

definition pollExtraLife ::
  "date_parser \<Rightarrow> string option \<Rightarrow> rat option \<Rightarrow> ProcessedExtraLifeData option
     \<Rightarrow> participant response \<Rightarrow> raw_donation list response \<Rightarrow> string
     \<Rightarrow> ProcessedExtraLifeData option \<times> ProcessedExtraLifeData option" where
  "pollExtraLife parse participantId donationGoal previousData participantResponse
       donationsResponse now =
     (case participantId of
        None \<Rightarrow> (None, None)
      | Some pid \<Rightarrow>
          if pid = [] then (None, None)
          else
            let hasParticipantChanged =
                  (case previousData of
                     Some p \<Rightarrow> meta_participantId p \<noteq> pid
                   | None \<Rightarrow> False)
            in case participantResponse of
                 NetworkError \<Rightarrow> (None, None)
               | HttpError \<Rightarrow> (previousData, None)
               | HttpOk participantData \<Rightarrow>
                   if \<not> hasParticipantChanged \<and>
                      (case previousData of
                         Some p \<Rightarrow>
                           Some (sumDonations p) = p_sumDonations participantData \<and>
                           Some (fundraisingGoal p) = p_fundraisingGoal participantData \<and>
                           meta_eventID p = p_eventID participantData
                       | None \<Rightarrow> False)
                   then (previousData, None)
                   else
                     (case donationsResponse of
                        NetworkError \<Rightarrow> (None, None)
                      | HttpError \<Rightarrow> (previousData, None)
                      | HttpOk fetched \<Rightarrow>
                          (case number_or (p_fundraisingGoal participantData) donationGoal of
                             None \<Rightarrow> (None, None)
                           | Some goal \<Rightarrow>
                               let validDonations =
                                     filter (\<lambda>donation. eventID donation = p_eventID participantData)
                                       (map normalise_donation fetched);
                                   le = (\<lambda>a b. newest_first parse (createdDateUTC a) (createdDateUTC b));
                                   processedData =
                                     \<lparr> sumDonations =
                                         (case p_sumDonations participantData of
                                            Some s \<Rightarrow> s | None \<Rightarrow> 0),
                                       fundraisingGoal = goal,
                                       el_donations = [],
                                       newDonations = None,
                                       meta_lastUpdated = now,
                                       meta_participantId = pid,
                                       meta_eventID = p_eventID participantData \<rparr>;
                                   merged =
                                     (case previousData of
                                        Some p \<Rightarrow>
                                          if \<not> hasParticipantChanged then
                                            let previousValidDonations =
                                                  filter (\<lambda>donation. eventID donation =
                                                            p_eventID participantData)
                                                    (el_donations p);
                                                existingDonationIds =
                                                  set (map donationID previousValidDonations);
                                                fresh =
                                                  filter (\<lambda>donation. donationID donation
                                                            \<notin> existingDonationIds)
                                                    validDonations
                                            in Some (processedData
                                                 \<lparr> el_donations :=
                                                     sort_by le (previousValidDonations @ fresh),
                                                   newDonations :=
                                                     (if fresh \<noteq> [] then Some fresh else None) \<rparr>)
                                          else None
                                      | None \<Rightarrow> None);
                                   result =
                                     (case merged of
                                        Some r \<Rightarrow> r
                                      | None \<Rightarrow>
                                          processedData
                                            \<lparr> el_donations := sort_by le validDonations,
                                              newDonations :=
                                                (if validDonations \<noteq> []
                                                 then Some (sort_by le validDonations)
                                                 else None) \<rparr>)
                               in (Some result, Some result))))"


section \<open>The calendar\<close>

text \<open>
  The getters of \<^verbatim>\<open>Date\<close> work on local time.  Local time is taken to be UTC shifted
  by a fixed offset \<open>tz\<close> in milliseconds (no daylight-saving transitions); an instant is
  a number of milliseconds since the epoch.  The Gregorian calendar is counted day by day
  from 1 January 1970; months are numbered from 0 as \<^verbatim>\<open>getMonth\<close> does.
\<close>

definition msPerDay :: int where
  "msPerDay = 86400000"

type_synonym civil_date = "int \<times> nat \<times> nat"

definition leap_year :: "int \<Rightarrow> bool" where
  "leap_year y \<longleftrightarrow> y mod 4 = 0 \<and> (y mod 100 \<noteq> 0 \<or> y mod 400 = 0)"

definition days_in_month :: "int \<Rightarrow> nat \<Rightarrow> nat" where
  "days_in_month y m =
     (if m = 1 then (if leap_year y then 29 else 28)
      else if m = 3 \<or> m = 5 \<or> m = 8 \<or> m = 10 then 30 else 31)"

fun next_day :: "civil_date \<Rightarrow> civil_date" where
  "next_day (y, m, d) =
     (if d < days_in_month y m then (y, m, Suc d)
      else if m < 11 then (y, Suc m, 1) else (y + 1, 0, 1))"

fun prev_day :: "civil_date \<Rightarrow> civil_date" where
  "prev_day (y, m, d) =
     (if 1 < d then (y, m, d - 1)
      else if 0 < m then (y, m - 1, days_in_month y (m - 1)) else (y - 1, 11, 31))"

primrec iterate :: "nat \<Rightarrow> ('a \<Rightarrow> 'a) \<Rightarrow> 'a \<Rightarrow> 'a" where
  "iterate 0 f x = x"
| "iterate (Suc n) f x = f (iterate n f x)"

definition civil :: "int \<Rightarrow> civil_date" where
  "civil day =
     (if 0 \<le> day then iterate (nat day) next_day (1970, 0, 1)
      else iterate (nat (- day)) prev_day (1970, 0, 1))"

definition local_day :: "int \<Rightarrow> int \<Rightarrow> int" where
  "local_day tz t = (t + tz) div msPerDay"

definition getFullYear :: "int \<Rightarrow> int \<Rightarrow> int" where
  "getFullYear tz t = fst (civil (local_day tz t))"

definition getMonth :: "int \<Rightarrow> int \<Rightarrow> nat" where
  "getMonth tz t = fst (snd (civil (local_day tz t)))"

definition getDate :: "int \<Rightarrow> int \<Rightarrow> nat" where
  "getDate tz t = snd (snd (civil (local_day tz t)))"

text \<open>\<^verbatim>\<open>getDay()\<close>: 0 is Sunday; 1 January 1970 was a Thursday.\<close>

definition getDay :: "int \<Rightarrow> int \<Rightarrow> nat" where
  "getDay tz t = nat ((local_day tz t + 4) mod 7)"

definition isCurrentMonth :: "date_parser \<Rightarrow> int \<Rightarrow> string \<Rightarrow> nat \<Rightarrow> int \<Rightarrow> bool" where
  "isCurrentMonth parse tz dateStr currentMonth currentYear =
     (case parse dateStr of
        None \<Rightarrow> False
      | Some date \<Rightarrow> getMonth tz date = currentMonth \<and> getFullYear tz date = currentYear)"

text \<open>
  \<^verbatim>\<open>isCurrentWeek(dateStr)\<close>: from the local midnight that starts the Sunday of the
  current week, for seven days.
\<close>

definition isCurrentWeek :: "date_parser \<Rightarrow> int \<Rightarrow> int \<Rightarrow> string \<Rightarrow> bool" where
  "isCurrentWeek parse tz now dateStr =
     (case parse dateStr of
        None \<Rightarrow> False
      | Some date \<Rightarrow>
          let weekStart = (local_day tz now - int (getDay tz now)) * msPerDay - tz;
              weekEnd = weekStart + 7 * msPerDay
          in weekStart \<le> date \<and> date < weekEnd)"


section \<open>The tipping-platform normalizer\<close>

text \<open>The session payload of the tipping platform.\<close>

record sub_event =
  sub_name :: string
  sub_tier :: "string option"
  sub_createdAt :: string

record gifted_latest =
  gift_name :: string
  gift_tier :: "string option"
  gift_sender :: string

record cheer_event =
  cheer_name :: string
  cheer_amount :: rat
  cheer_createdAt :: string

datatype tip_value = TipString string | TipNumber rat

record tip_event =
  tip_name :: string
  tip_amount :: tip_value
  tip_createdAt :: string

record se_session =
  subscriber_recent :: "sub_event list option"
  subscriber_gifted_latest :: "gifted_latest option"
  cheer_recent :: "cheer_event list option"
  tip_recent :: "tip_event list option"
  cheer_goal :: "rat option"
  subscriber_goal :: "rat option"
  tip_goal :: "rat option"

record subscription_values =
  prime :: rat
  tier1 :: rat
  tier2 :: rat
  tier3 :: rat

datatype summary_type = Monthly | Weekly

record StreamElementsConfig =
  subscriptionValues :: subscription_values
  bitsValue :: rat
  summaryType :: "summary_type option"

text \<open>
  The previously processed data as the function reads it: \<^verbatim>\<open>previousData?.donations\<close>
  and \<^verbatim>\<open>previousData?.localDonations\<close>.
\<close>

record previous_data =
  prev_donations :: "DonationData list option"
  prev_localDonations :: "LocalDonationData option"

text \<open>
  What the host provides to the normalizer: the date parser, the offset of local time,
  the current instant (\<^verbatim>\<open>new Date()\<close> inside \<^verbatim>\<open>isCurrentWeek\<close>) and
  \<^verbatim>\<open>parseFloat\<close>.
\<close>

record host =
  host_parse :: date_parser
  host_tz :: int
  host_now :: int
  host_parseFloat :: "string \<Rightarrow> rat"

definition isInCurrentPeriod ::
  "host \<Rightarrow> StreamElementsConfig \<Rightarrow> nat \<Rightarrow> int \<Rightarrow> string \<Rightarrow> bool" where
  "isInCurrentPeriod h cfg currentMonth currentYear ts =
     (case summaryType cfg of
        Some Weekly \<Rightarrow> isCurrentWeek (host_parse h) (host_tz h) (host_now h) ts
      | _ \<Rightarrow> isCurrentMonth (host_parse h) (host_tz h) ts currentMonth currentYear)"

text \<open>
  The first statement of \<^verbatim>\<open>processStreamElementsData\<close>: the previous donors, each with
  the donations of the current period only, without the donors that keep none.
\<close>

definition keepCurrent :: "(string \<Rightarrow> bool) \<Rightarrow> DonationData \<Rightarrow> DonationData" where
  "keepCurrent inPeriod donor =
     donor \<lparr> individual_donations :=
               filter (\<lambda>d. inPeriod (timestamp d)) (individual_donations donor) \<rparr>"

definition cleanedDonors :: "(string \<Rightarrow> bool) \<Rightarrow> previous_data option \<Rightarrow> DonationData list" where
  "cleanedDonors inPeriod previousData =
     (case previousData of
        None \<Rightarrow> []
      | Some p \<Rightarrow>
          (case prev_donations p of
             None \<Rightarrow> []
           | Some ds \<Rightarrow>
               filter (\<lambda>donor. individual_donations donor \<noteq> [])
                 (map (keepCurrent inPeriod) ds)))"

text \<open>The loop that recalculates the totals of the remaining donors and the overall total.\<close>

definition recalculate :: "DonationData \<Rightarrow> DonationData" where
  "recalculate donor =
     donor \<lparr> total_amount :=
               roundToTwoDecimals
                 (foldl (\<lambda>sum d. safeAdd sum (amount d)) 0 (individual_donations donor)),
             total_donations := int (length (individual_donations donor)) \<rparr>"

definition addToOverall :: "BaseTotal \<Rightarrow> DonationData \<Rightarrow> BaseTotal" where
  "addToOverall t donor =
     \<lparr> overall_amount = safeAdd (overall_amount t) (total_amount donor),
       donation_count = donation_count t + total_donations donor \<rparr>"

definition startingResult :: "(string \<Rightarrow> bool) \<Rightarrow> previous_data option \<Rightarrow> ProcessedData" where
  "startingResult inPeriod previousData =
     (let ds = map recalculate (cleanedDonors inPeriod previousData)
      in \<lparr> donations = ds,
           overall_total =
             foldl addToOverall \<lparr> overall_amount = 0, donation_count = 0 \<rparr> ds \<rparr>)"

text \<open>
  The helper \<^verbatim>\<open>addDonation\<close>.  A donor that is not in the result yet is created from
  the local donor of the same name, if there is one, and is appended even when the
  donation turns out to be a duplicate.
\<close>

definition truthy_string :: "string option \<Rightarrow> string option" where
  "truthy_string v = (case v of Some s \<Rightarrow> if s = [] then None else Some s | None \<Rightarrow> None)"

definition addDonation ::
  "previous_data option \<Rightarrow> string \<Rightarrow> rat \<Rightarrow> string \<Rightarrow> donation_type \<Rightarrow> string option
     \<Rightarrow> ProcessedData \<Rightarrow> ProcessedData" where
  "addDonation previousData donorName amt ts donationKind tier seResult =
     (let found = findIndex (sameName donorName) (donations seResult);
          localDonor =
            (case previousData of
               None \<Rightarrow> None
             | Some p \<Rightarrow>
                 (case prev_localDonations p of
                    None \<Rightarrow> None
                  | Some l \<Rightarrow> find (sameName donorName) (donations l)));
          created =
            \<lparr> name = donorName,
              individual_donations =
                (case localDonor of Some l \<Rightarrow> individual_donations l | None \<Rightarrow> []),
              total_amount =
                roundToTwoDecimals (case localDonor of Some l \<Rightarrow> total_amount l | None \<Rightarrow> 0),
              total_donations =
                (case localDonor of Some l \<Rightarrow> total_donations l | None \<Rightarrow> 0) \<rparr>;
          ds = (case found of Some i \<Rightarrow> donations seResult
                            | None \<Rightarrow> donations seResult @ [created]);
          i = (case found of Some i \<Rightarrow> i | None \<Rightarrow> length (donations seResult));
          donor = ds ! i;
          duplicate = list_ex (\<lambda>d. amount d = amt \<and> timestamp d = ts)
                        (individual_donations donor)
      in if duplicate then seResult \<lparr> donations := ds \<rparr>
         else
           let numericAmount = roundToTwoDecimals amt;
               donor' = donor \<lparr>
                 individual_donations := individual_donations donor @
                   [\<lparr> amount = numericAmount, timestamp = ts,
                      donationType = Some donationKind, subTier = truthy_string tier \<rparr>],
                 total_amount := safeAdd (total_amount donor) numericAmount,
                 total_donations := total_donations donor + 1 \<rparr>
           in seResult \<lparr>
                donations := ds [i := donor'],
                overall_total := \<lparr>
                  overall_amount =
                    safeAdd (overall_amount (overall_total seResult)) numericAmount,
                  donation_count = donation_count (overall_total seResult) + 1 \<rparr> \<rparr>)"

definition subValueOf :: "subscription_values \<Rightarrow> string option \<Rightarrow> rat" where
  "subValueOf subValues tier =
     (if tier = Some ''2000'' then tier2 subValues
      else if tier = Some ''3000'' then tier3 subValues
      else if tier = Some ''prime'' then prime subValues
      else tier1 subValues)"

definition processSubscriber ::
  "(string \<Rightarrow> bool) \<Rightarrow> previous_data option \<Rightarrow> subscription_values \<Rightarrow> gifted_latest option
     \<Rightarrow> ProcessedData \<times> rat \<Rightarrow> sub_event \<Rightarrow> ProcessedData \<times> rat" where
  "processSubscriber inPeriod previousData subValues latestGifted st sub =
     (if inPeriod (sub_createdAt sub) then
        let subValue = subValueOf subValues (sub_tier sub);
            isGifted = (case latestGifted of
                          None \<Rightarrow> False
                        | Some g \<Rightarrow> gift_name g = sub_name sub \<and> gift_tier g = sub_tier sub);
            donorName = (case latestGifted of
                           Some g \<Rightarrow> if isGifted then gift_sender g else sub_name sub
                         | None \<Rightarrow> sub_name sub)
        in (addDonation previousData donorName subValue (sub_createdAt sub) Subscription
              (sub_tier sub) (fst st),
            js_add (snd st) subValue)
      else st)"

definition processCheer ::
  "(string \<Rightarrow> bool) \<Rightarrow> previous_data option \<Rightarrow> rat
     \<Rightarrow> ProcessedData \<times> rat \<Rightarrow> cheer_event \<Rightarrow> ProcessedData \<times> rat" where
  "processCheer inPeriod previousData bits st cheer =
     (if inPeriod (cheer_createdAt cheer) then
        let cheerValue = js_mul (cheer_amount cheer) bits
        in (addDonation previousData (cheer_name cheer) cheerValue (cheer_createdAt cheer) Bits
              None (fst st),
            js_add (snd st) cheerValue)
      else st)"

definition processTip ::
  "(string \<Rightarrow> bool) \<Rightarrow> previous_data option \<Rightarrow> (string \<Rightarrow> rat)
     \<Rightarrow> ProcessedData \<times> rat \<Rightarrow> tip_event \<Rightarrow> ProcessedData \<times> rat" where
  "processTip inPeriod previousData parseFloat st tip =
     (if inPeriod (tip_createdAt tip) then
        let tipValue = (case tip_amount tip of
                          TipString s \<Rightarrow> parseFloat s
                        | TipNumber n \<Rightarrow> n)
        in (addDonation previousData (tip_name tip) tipValue (tip_createdAt tip) Tip
              None (fst st),
            js_add (snd st) tipValue)
      else st)"

text \<open>The shortfall against a period summary goes to the overall amount only.\<close>

definition patchShortfall :: "rat \<Rightarrow> rat \<Rightarrow> ProcessedData \<Rightarrow> ProcessedData" where
  "patchShortfall goal reconstructed seResult =
     (if reconstructed < goal then
        seResult \<lparr> overall_total := (overall_total seResult) \<lparr>
          overall_amount :=
            js_add (overall_amount (overall_total seResult)) (js_sub goal reconstructed) \<rparr> \<rparr>
      else seResult)"

definition sortDonations :: "date_parser \<Rightarrow> DonationData \<Rightarrow> DonationData" where
  "sortDonations parse donor =
     donor \<lparr> individual_donations :=
       sort_by (\<lambda>a b. newest_first parse (timestamp a) (timestamp b))
         (individual_donations donor) \<rparr>"

definition sortResult :: "date_parser \<Rightarrow> ProcessedData \<Rightarrow> ProcessedData" where
  "sortResult parse seResult =
     seResult \<lparr> donations :=
       sort_by (\<lambda>a b. total_amount b - total_amount a \<le> 0)
         (map (sortDonations parse) (donations seResult)) \<rparr>"

definition list_or_empty :: "'a list option \<Rightarrow> 'a list" where
  "list_or_empty v = (case v of Some xs \<Rightarrow> xs | None \<Rightarrow> [])"

text \<open>
  \<^verbatim>\<open>processStreamElementsData(seData, previousData, currentMonth, currentYear, config)\<close>
\<close>

definition processStreamElementsData ::
  "host \<Rightarrow> se_session \<Rightarrow> previous_data option \<Rightarrow> nat \<Rightarrow> int \<Rightarrow> StreamElementsConfig
     \<Rightarrow> ProcessedData" where
  "processStreamElementsData h seData previousData currentMonth currentYear cfg =
     (let subValues = subscriptionValues cfg;
          bits = bitsValue cfg;
          inPeriod = isInCurrentPeriod h cfg currentMonth currentYear;
          seResult0 = startingResult inPeriod previousData;
          (seResult1, subscriberTotal) =
            foldl (processSubscriber inPeriod previousData subValues
                     (subscriber_gifted_latest seData))
              (seResult0, 0) (list_or_empty (subscriber_recent seData));
          (seResult2, cheerTotal) =
            foldl (processCheer inPeriod previousData bits)
              (seResult1, 0) (list_or_empty (cheer_recent seData));
          (seResult3, tipTotal) =
            foldl (processTip inPeriod previousData (host_parseFloat h))
              (seResult2, 0) (list_or_empty (tip_recent seData));
          cheerGoal = (case cheer_goal seData of Some a \<Rightarrow> js_mul a bits | None \<Rightarrow> 0);
          subscriberGoal =
            (case subscriber_goal seData of Some a \<Rightarrow> js_mul a (tier1 subValues) | None \<Rightarrow> 0);
          tipGoal = (case tip_goal seData of Some a \<Rightarrow> a | None \<Rightarrow> 0)
      in sortResult (host_parse h)
           (patchShortfall tipGoal tipTotal
              (patchShortfall subscriberGoal subscriberTotal
                 (patchShortfall cheerGoal cheerTotal seResult3))))"

text \<open>
  What a poll of the tipping platform stores and returns
  (\<^verbatim>\<open>ProcessedStreamElementsData\<close>): the object
  \<^verbatim>\<open>{ current, metadata: { month, year, lastUpdated } }\<close> that \<^verbatim>\<open>pollStreamElements\<close>
  builds around the processed data.  The optional property \<^verbatim>\<open>localDonations\<close> of the
  type is never set.
\<close>

record ProcessedStreamElementsData =
  current :: ProcessedData
  meta_month :: nat
  meta_year :: int
  se_lastUpdated :: string

text \<open>
  These objects as values, with their own properties in the order of the object literals.
  A donation has the property \<^verbatim>\<open>subTier\<close> only when a tier was given.
\<close>

definition kind_name :: "donation_type \<Rightarrow> string" where
  "kind_name k =
     (case k of Bits \<Rightarrow> ''bits'' | Subscription \<Rightarrow> ''subscription'' | Tip \<Rightarrow> ''tip''
              | Local \<Rightarrow> ''local'')"

definition json_of_donation :: "IndividualDonation \<Rightarrow> jsval" where
  "json_of_donation x =
     JObj ([(''amount'', JNum (amount x)), (''timestamp'', JStr (timestamp x))] @
           (case donationType x of Some k \<Rightarrow> [(''donationType'', JStr (kind_name k))]
                                 | None \<Rightarrow> []) @
           (case subTier x of Some t \<Rightarrow> [(''subTier'', JStr t)] | None \<Rightarrow> []))"

definition json_of_donor :: "DonationData \<Rightarrow> jsval" where
  "json_of_donor donor =
     JObj [(''name'', JStr (name donor)),
           (''individual_donations'', JArr (map json_of_donation (individual_donations donor))),
           (''total_amount'', JNum (total_amount donor)),
           (''total_donations'', JNum (of_int (total_donations donor)))]"

definition json_of_processed :: "ProcessedData \<Rightarrow> jsval" where
  "json_of_processed r =
     JObj [(''donations'', JArr (map json_of_donor (donations r))),
           (''overall_total'',
            JObj [(''amount'', JNum (overall_amount (overall_total r))),
                  (''donation_count'', JNum (of_int (donation_count (overall_total r))))])]"

definition json_of_stored :: "ProcessedStreamElementsData \<Rightarrow> jsval" where
  "json_of_stored p =
     JObj [(''current'', json_of_processed (current p)),
           (''metadata'',
            JObj [(''month'', JNum (of_nat (meta_month p))),
                  (''year'', JNum (of_int (meta_year p))),
                  (''lastUpdated'', JStr (se_lastUpdated p))])]"

text \<open>
  \<^verbatim>\<open>pollStreamElements\<close> hands the stored object itself to
  \<^verbatim>\<open>processStreamElementsData\<close> as \<^verbatim>\<open>previousData\<close>.  The function reads
  \<^verbatim>\<open>previousData?.donations\<close> and \<^verbatim>\<open>previousData?.localDonations\<close>; the stored
  object has neither property, its donors are at \<^verbatim>\<open>current.donations\<close>, so both reads
  give \<^verbatim>\<open>undefined\<close>.
\<close>

definition previousData_of :: "ProcessedStreamElementsData \<Rightarrow> previous_data" where
  "previousData_of p = \<lparr> prev_donations = None, prev_localDonations = None \<rparr>"

text \<open>
  The statements of \<^verbatim>\<open>pollStreamElements\<close> after the reset check.  \<open>previousData\<close> is
  what \<^verbatim>\<open>getStreamElementsData\<close> read, \<open>cfg\<close> is
  \<^verbatim>\<open>goalState.config.streamElements\<close>, \<open>response\<close> is what the request for the
  session gives, \<open>now\<close> is the reading \<^verbatim>\<open>new Date()\<close> and \<open>nowISO\<close> its ISO
  string.  The result is the value returned and the payload handed to
  \<^verbatim>\<open>syncExternalData\<close>, if any.
\<close>

definition pollStreamElements_data ::
  "host \<Rightarrow> StreamElementsConfig \<Rightarrow> ProcessedStreamElementsData option
     \<Rightarrow> se_session response \<Rightarrow> int \<Rightarrow> string
     \<Rightarrow> ProcessedStreamElementsData option \<times> ProcessedStreamElementsData option" where
  "pollStreamElements_data h cfg previousData response now nowISO =
     (case response of
        NetworkError \<Rightarrow> (None, None)
      | HttpError \<Rightarrow> (previousData, None)
      | HttpOk currentData \<Rightarrow>
          let processedData =
                processStreamElementsData h currentData (map_option previousData_of previousData)
                  (getMonth (host_tz h) now) (getFullYear (host_tz h) now) cfg
          in if (case previousData of
                   Some p \<Rightarrow> isEqual (host_parse h) (json_of_processed (current p))
                                (json_of_processed processedData)
                 | None \<Rightarrow> False)
             then (previousData, None)
             else
               let finalData =
                     \<lparr> current = processedData,
                       meta_month = getMonth (host_tz h) now,
                       meta_year = getFullYear (host_tz h) now,
                       se_lastUpdated = nowISO \<rparr>
               in (Some finalData, Some finalData))"


section \<open>The periodic goal reset\<close>

text \<open>\<^verbatim>\<open>getData\<close> and \<^verbatim>\<open>push\<close> at \<^verbatim>\<open>/goal/streamElements/lastGoalReset\<close>.\<close>

definition read_lastGoalReset :: "db \<Rightarrow> string option" where
  "read_lastGoalReset d =
     (case d of
        None \<Rightarrow> None
      | Some g \<Rightarrow> (case streamElements g of None \<Rightarrow> None | Some e \<Rightarrow> lastGoalReset e))"

definition push_lastGoalReset :: "string \<Rightarrow> db \<Rightarrow> db" where
  "push_lastGoalReset stamp d =
     (let g = (case d of None \<Rightarrow> empty_goal | Some g \<Rightarrow> g);
          e = (case streamElements g of
                 None \<Rightarrow> \<lparr> lastUpdated = None, lastGoalReset = None, data = None \<rparr>
               | Some e \<Rightarrow> e)
      in Some (g \<lparr> streamElements := Some (e \<lparr> lastGoalReset := Some stamp \<rparr>) \<rparr>))"

text \<open>
  \<^verbatim>\<open>resetGoalValuesIfNeeded(channelId, jwtToken, summaryType)\<close>.  \<open>now\<close> is the instant
  read at the start, \<open>stamp\<close> the reading stored after the call, \<open>putOk\<close> whether the
  request to the platform succeeds.  The result says whether the call was issued, whether
  the function throws, and gives the store.
\<close>

definition boundary_day :: "int \<Rightarrow> summary_type \<Rightarrow> int \<Rightarrow> bool" where
  "boundary_day tz summary now =
     (case summary of Weekly \<Rightarrow> getDay tz now = 0 | Monthly \<Rightarrow> getDate tz now = 1)"

definition shouldReset :: "date_parser \<Rightarrow> int \<Rightarrow> summary_type \<Rightarrow> int \<Rightarrow> db \<Rightarrow> bool" where
  "shouldReset parse tz summary now d =
     (case read_lastGoalReset d of
        None \<Rightarrow> True
      | Some s \<Rightarrow>
          boundary_day tz summary now \<and>
          (case parse s of None \<Rightarrow> True | Some lastReset \<Rightarrow> getDate tz lastReset \<noteq> getDate tz now))"

definition resetGoalValuesIfNeeded ::
  "date_parser \<Rightarrow> int \<Rightarrow> summary_type \<Rightarrow> int \<Rightarrow> string \<Rightarrow> bool \<Rightarrow> db
     \<Rightarrow> bool \<times> (error + unit) \<times> db" where
  "resetGoalValuesIfNeeded parse tz summary now stamp putOk d =
     (if shouldReset parse tz summary now d then
        (if putOk then (True, Inr (), push_lastGoalReset stamp d)
         else (True, Inl (Error ''Failed to reset goals''), d))
      else (False, Inr (), d))"

text \<open>
  One poll of the tipping platform.  After the reset check the rest of
  \<^verbatim>\<open>pollStreamElements\<close> either ends without a write or hands a payload to
  \<^verbatim>\<open>syncExternalData\<close>: \<open>p_sync\<close> is that payload with the two clock readings of the
  write.  The result says whether the reset call was issued.
\<close>

record poll =
  p_now :: int
  p_stamp :: string
  p_putOk :: bool
  p_sync :: "(jsval \<times> string \<times> string) option"

definition pollStreamElements ::
  "date_parser \<Rightarrow> int \<Rightarrow> summary_type \<Rightarrow> poll \<Rightarrow> db \<Rightarrow> bool \<times> db" where
  "pollStreamElements parse tz summary p d =
     (case getGoalData d of
        None \<Rightarrow> (False, d)
      | Some goalState \<Rightarrow>
          (case resetGoalValuesIfNeeded parse tz summary (p_now p) (p_stamp p) (p_putOk p) d of
             (issued, Inl err, d') \<Rightarrow> (issued, d')
           | (issued, Inr u, d') \<Rightarrow>
               (case p_sync p of
                  None \<Rightarrow> (issued, d')
                | Some (payload, now, now') \<Rightarrow>
                    (issued, snd (syncExternalData parse SrcStreamElements payload now now' d')))))"

text \<open>A sequence of polls, and the flags of the polls that issued the reset call.\<close>

fun run_polls ::
  "date_parser \<Rightarrow> int \<Rightarrow> summary_type \<Rightarrow> db \<Rightarrow> poll list \<Rightarrow> bool list \<times> db" where
  "run_polls parse tz summary d [] = ([], d)"
| "run_polls parse tz summary d (p # ps) =
     (let (issued, d') = pollStreamElements parse tz summary p d;
          (rest, d'') = run_polls parse tz summary d' ps
      in (issued # rest, d''))"

text \<open>
  The clock does not run backwards: every poll starts at or after \<open>lo\<close> and after the
  poll before it has taken its last reading, and its stamp is a date not before its start.
\<close>

fun clock_ok :: "date_parser \<Rightarrow> int \<Rightarrow> poll list \<Rightarrow> bool" where
  "clock_ok parse lo [] = True"
| "clock_ok parse lo (p # ps) =
     (lo \<le> p_now p \<and>
      (case parse (p_stamp p) of None \<Rightarrow> False | Some t \<Rightarrow> p_now p \<le> t \<and> clock_ok parse t ps))"

text \<open>Two instants of the same week (from Sunday), or of the same month of the same year.\<close>

definition week_index :: "int \<Rightarrow> int \<Rightarrow> int" where
  "week_index tz t = (local_day tz t + 4) div 7"

definition same_period :: "int \<Rightarrow> summary_type \<Rightarrow> int \<Rightarrow> int \<Rightarrow> bool" where
  "same_period tz summary s t =
     (case summary of
        Weekly \<Rightarrow> week_index tz s = week_index tz t
      | Monthly \<Rightarrow> getMonth tz s = getMonth tz t \<and> getFullYear tz s = getFullYear tz t)"

text \<open>Notions for the proofs about the calendar and the guard.\<close>

definition valid_date :: "civil_date \<Rightarrow> bool" where
  "valid_date c = (case c of (y, m, d) \<Rightarrow> m < 12 \<and> 1 \<le> d \<and> d \<le> days_in_month y m)"

definition month_index :: "civil_date \<Rightarrow> int" where
  "month_index c = (case c of (y, m, d) \<Rightarrow> 12 * y + int m)"

definition day_of_month :: "int \<Rightarrow> nat" where
  "day_of_month D = snd (snd (civil D))"

definition boundary_of_day :: "summary_type \<Rightarrow> int \<Rightarrow> bool" where
  "boundary_of_day summary D =
     (case summary of Weekly \<Rightarrow> (D + 4) mod 7 = 0 | Monthly \<Rightarrow> day_of_month D = 1)"

definition has_record :: "db \<Rightarrow> bool" where
  "has_record d \<longleftrightarrow> read_lastGoalReset d \<noteq> None"

definition reset_on_day :: "date_parser \<Rightarrow> int \<Rightarrow> int \<Rightarrow> db \<Rightarrow> bool" where
  "reset_on_day parse tz D d \<longleftrightarrow>
     (case read_lastGoalReset d of
        None \<Rightarrow> False
      | Some r \<Rightarrow> (case parse r of None \<Rightarrow> False | Some t \<Rightarrow> getDate tz t = day_of_month D))"

definition blocked :: "date_parser \<Rightarrow> int \<Rightarrow> summary_type \<Rightarrow> int \<Rightarrow> db \<Rightarrow> bool" where
  "blocked parse tz summary D d \<longleftrightarrow>
     has_record d \<and> (boundary_of_day summary D \<longrightarrow> reset_on_day parse tz D d)"


section \<open>Sample data\<close>

text \<open>A date parser that knows the timestamps of the examples.\<close>

definition sample_parse :: date_parser where
  "sample_parse s =
     (if s = ''2024-03-01T12:00:00.000Z'' then Some 1709294400000
      else if s = ''2024-03-01T12:00:00Z'' then Some 1709294400000
      else if s = ''2024-03-01T12:00:03.000Z'' then Some 1709294403000
      else if s = ''2024-03-01T12:00:10.000Z'' then Some 1709294410000
      else None)"

definition local_donation :: "rat \<Rightarrow> string \<Rightarrow> IndividualDonation" where
  "local_donation a ts =
     \<lparr> amount = a, timestamp = ts, donationType = Some Local, subTier = None \<rparr>"

text \<open>Grace gave 25.00 once, Ada gave 15.00 once.\<close>

definition grace_ledger :: LocalDonationData where
  "grace_ledger =
     \<lparr> donations =
         [\<lparr> name = ''Grace'',
            individual_donations = [local_donation 25 ''2024-03-01T12:00:00.000Z''],
            total_amount = 25, total_donations = 1 \<rparr>,
          \<lparr> name = ''Ada'',
            individual_donations = [local_donation 15 ''2024-03-01T12:00:03.000Z''],
            total_amount = 15, total_donations = 1 \<rparr>],
       overall_total = \<lparr> overall_amount = 40, donation_count = 2 \<rparr>,
       metadata_lastUpdated = ''2024-03-01T12:00:03.000Z'' \<rparr>"

definition grace_db :: db where
  "grace_db = Some (empty_goal \<lparr> localDonations := Some grace_ledger \<rparr>)"

definition stored_donations :: "db \<Rightarrow> IndividualDonation list" where
  "stored_donations d =
     (case getLocalDonations d of
        None \<Rightarrow> []
      | Some cur \<Rightarrow> concat (map individual_donations (donations cur)))"

definition zero_ledger :: LocalDonationData where
  "zero_ledger =
     \<lparr> donations =
         [\<lparr> name = ''Ada'',
            individual_donations = [local_donation 0 ''2024-03-01T12:00:00.000Z''],
            total_amount = 0, total_donations = 1 \<rparr>],
       overall_total = \<lparr> overall_amount = 0, donation_count = 1 \<rparr>,
       metadata_lastUpdated = ''2024-03-01T12:00:00.000Z'' \<rparr>"

definition ada_ledger1 :: LocalDonationData where
  "ada_ledger1 =
     \<lparr> donations =
         [\<lparr> name = ''Ada'',
            individual_donations = [local_donation (cents 10) ''2024-03-01T12:00:00.000Z''],
            total_amount = cents 10, total_donations = 1 \<rparr>],
       overall_total = \<lparr> overall_amount = cents 10, donation_count = 1 \<rparr>,
       metadata_lastUpdated = ''2024-03-01T12:00:00.000Z'' \<rparr>"

definition ada_ledger :: LocalDonationData where
  "ada_ledger =
     \<lparr> donations =
         [\<lparr> name = ''Ada'',
            individual_donations = [local_donation (cents 10) ''2024-03-01T12:00:00.000Z'',
                                    local_donation (cents 20) ''2024-03-01T12:00:10.000Z''],
            total_amount = cents 30, total_donations = 2 \<rparr>],
       overall_total = \<lparr> overall_amount = cents 30, donation_count = 2 \<rparr>,
       metadata_lastUpdated = ''2024-03-01T12:00:10.000Z'' \<rparr>"

definition ada_ledger' :: LocalDonationData where
  "ada_ledger' =
     \<lparr> donations =
         [\<lparr> name = ''Ada'',
            individual_donations = [local_donation (cents 20) ''2024-03-01T12:00:10.000Z''],
            total_amount = 7205759403792793 / 36028797018963968, total_donations = 1 \<rparr>],
       overall_total = \<lparr> overall_amount = 7205759403792793 / 36028797018963968,
                         donation_count = 1 \<rparr>,
       metadata_lastUpdated = ''2024-03-01T12:00:10.000Z'' \<rparr>"

definition db_of :: "LocalDonationData \<Rightarrow> db" where
  "db_of L = Some (empty_goal \<lparr> localDonations := Some L \<rparr>)"

definition ada25_ledger :: LocalDonationData where
  "ada25_ledger =
     \<lparr> donations =
         [\<lparr> name = ''Ada'',
            individual_donations = [local_donation 25 ''2024-03-01T12:00:00.000Z''],
            total_amount = 25, total_donations = 1 \<rparr>],
       overall_total = \<lparr> overall_amount = 25, donation_count = 1 \<rparr>,
       metadata_lastUpdated = ''2024-03-01T12:00:00.000Z'' \<rparr>"

text \<open>Grace gave 25.00 and 15.00, Ada gave 10.00.\<close>

definition grace2_ledger :: LocalDonationData where
  "grace2_ledger =
     \<lparr> donations =
         [\<lparr> name = ''Grace'',
            individual_donations = [local_donation 25 ''2024-03-01T12:00:00.000Z'',
                                    local_donation 15 ''2024-03-01T12:00:03.000Z''],
            total_amount = 40, total_donations = 2 \<rparr>,
          \<lparr> name = ''Ada'',
            individual_donations = [local_donation 10 ''2024-03-01T12:00:10.000Z''],
            total_amount = 10, total_donations = 1 \<rparr>],
       overall_total = \<lparr> overall_amount = 50, donation_count = 3 \<rparr>,
       metadata_lastUpdated = ''2024-03-01T12:00:10.000Z'' \<rparr>"

text \<open>
  A stored tipping-platform entry, and a new payload that lists the same properties in
  another order and writes the same instant in another format.
\<close>

definition stored_payload :: jsval where
  "stored_payload =
     JObj [(''current'',
            JObj [(''donations'', JArr []),
                  (''overall_total'',
                   JObj [(''amount'', JNum 0), (''donation_count'', JNum 0)])]),
           (''metadata'',
            JObj [(''month'', JNum 2), (''year'', JNum 2024),
                  (''lastUpdated'', JStr ''2024-03-01T12:00:00.000Z'')])]"

definition new_payload :: jsval where
  "new_payload =
     JObj [(''metadata'',
            JObj [(''lastUpdated'', JStr ''2024-03-01T12:00:00Z''),
                  (''month'', JNum 2), (''year'', JNum 2024)]),
           (''current'',
            JObj [(''overall_total'',
                   JObj [(''donation_count'', JNum 0), (''amount'', JNum 0)]),
                  (''donations'', JArr [])])]"

definition stored_entry :: source_entry where
  "stored_entry =
     \<lparr> lastUpdated = Some ''2024-03-01T12:00:00.000Z'',
       lastGoalReset = Some ''2024-03-01T12:00:00.000Z'',
       data = Some stored_payload \<rparr>"

definition stored_goal :: goal_state where
  "stored_goal =
     empty_goal \<lparr> createdAt := Some ''2024-03-01T12:00:00.000Z'',
                  updatedAt := Some ''2024-03-01T12:00:00.000Z'',
                  streamElements := Some stored_entry \<rparr>"

text \<open>Stored data of participant 111, and the replies for participant 222.\<close>

definition old_participant_data :: ProcessedExtraLifeData where
  "old_participant_data =
     \<lparr> sumDonations = 50, fundraisingGoal = 1000,
       el_donations =
         [\<lparr> el_amount = 50, displayName = ''Old Donor'', message = [], donationID = ''D1'',
            createdDateUTC = ''2024-03-01T12:00:00.000Z'', eventID = ''E1'' \<rparr>],
       newDonations = None,
       meta_lastUpdated = ''2024-03-01T12:00:00.000Z'',
       meta_participantId = ''111'', meta_eventID = ''E1'' \<rparr>"

definition new_participant :: participant where
  "new_participant =
     \<lparr> p_sumDonations = Some 20, p_fundraisingGoal = Some 500, p_eventID = ''E2'' \<rparr>"

definition fetched_donations :: "raw_donation list" where
  "fetched_donations =
     [\<lparr> raw_amount = 20, raw_displayName = Some ''New Donor'', raw_message = None,
        raw_donationID = ''D2'', raw_createdDateUTC = ''2024-03-01T12:00:03.000Z'',
        raw_eventID = ''E2'' \<rparr>,
      \<lparr> raw_amount = 5, raw_displayName = None, raw_message = None,
        raw_donationID = ''D0'', raw_createdDateUTC = ''2024-03-01T12:00:00.000Z'',
        raw_eventID = ''E1'' \<rparr>]"

text \<open>
  Polls in the first days of 1970: Saturday 3 January at noon, Sunday 4 January at 00:10
  and at 00:20.
\<close>

definition epoch_parse :: date_parser where
  "epoch_parse s =
     (if s = ''1970-01-01T00:00:00.000Z'' then Some 0
      else if s = ''1970-01-03T12:00:01.000Z'' then Some 216001000
      else if s = ''1970-01-04T00:10:01.000Z'' then Some 259801000
      else if s = ''1970-01-04T00:20:01.000Z'' then Some 260401000
      else None)"

definition saturday_noon :: poll where
  "saturday_noon =
     \<lparr> p_now = 216000000, p_stamp = ''1970-01-03T12:00:01.000Z'', p_putOk = True,
       p_sync = None \<rparr>"

definition sunday_first :: poll where
  "sunday_first =
     \<lparr> p_now = 259800000, p_stamp = ''1970-01-04T00:10:01.000Z'', p_putOk = True,
       p_sync = None \<rparr>"

definition sunday_second :: poll where
  "sunday_second =
     \<lparr> p_now = 260400000, p_stamp = ''1970-01-04T00:20:01.000Z'', p_putOk = True,
       p_sync = None \<rparr>"

definition thursday_db :: db where
  "thursday_db =
     Some (empty_goal \<lparr> streamElements := Some
       \<lparr> lastUpdated = None, lastGoalReset = Some ''1970-01-01T00:00:00.000Z'',
         data = None \<rparr> \<rparr>)"

definition fresh_db :: db where
  "fresh_db = Some empty_goal"

text \<open>
  The tipping platform in January 1970: Ada tips 5.00 on Monday 5 January; polls on that
  Monday at 10:05 and on Tuesday 6 January at 10:00, the second with a session whose lists
  are empty.  30 December 1969 is in another month and another week.
\<close>

definition january_parse :: date_parser where
  "january_parse s =
     (if s = ''1969-12-30T10:00:00.000Z'' then Some (- 136800000)
      else if s = ''1970-01-05T10:00:00.000Z'' then Some 381600000
      else if s = ''1970-01-05T10:05:00.000Z'' then Some 381900000
      else if s = ''1970-01-06T10:00:00.000Z'' then Some 468000000
      else None)"

definition january_host :: "int \<Rightarrow> host" where
  "january_host now =
     \<lparr> host_parse = january_parse, host_tz = 0, host_now = now, host_parseFloat = (\<lambda>s. 0) \<rparr>"

definition tip_config :: "summary_type \<Rightarrow> StreamElementsConfig" where
  "tip_config summary =
     \<lparr> subscriptionValues = \<lparr> prime = 5, tier1 = 5, tier2 = 10, tier3 = 25 \<rparr>,
       bitsValue = 1, summaryType = Some summary \<rparr>"

definition ada_tip_session :: se_session where
  "ada_tip_session =
     \<lparr> subscriber_recent = Some [], subscriber_gifted_latest = None, cheer_recent = Some [],
       tip_recent = Some [\<lparr> tip_name = ''Ada'', tip_amount = TipNumber 5,
                            tip_createdAt = ''1970-01-05T10:00:00.000Z'' \<rparr>],
       cheer_goal = Some 0, subscriber_goal = Some 0, tip_goal = Some 5 \<rparr>"

definition quiet_session :: se_session where
  "quiet_session =
     \<lparr> subscriber_recent = Some [], subscriber_gifted_latest = None, cheer_recent = Some [],
       tip_recent = Some [], cheer_goal = Some 0, subscriber_goal = Some 0,
       tip_goal = Some 0 \<rparr>"

definition ada_tip :: IndividualDonation where
  "ada_tip = \<lparr> amount = 5, timestamp = ''1970-01-05T10:00:00.000Z'',
               donationType = Some Tip, subTier = None \<rparr>"

definition ada_stored :: ProcessedStreamElementsData where
  "ada_stored =
     \<lparr> current =
         \<lparr> donations = [\<lparr> name = ''Ada'', individual_donations = [ada_tip],
                          total_amount = 5, total_donations = 1 \<rparr>],
           overall_total = \<lparr> overall_amount = 5, donation_count = 1 \<rparr> \<rparr>,
       meta_month = 0, meta_year = 1970, se_lastUpdated = ''1970-01-05T10:05:00.000Z'' \<rparr>"

definition old_tip :: IndividualDonation where
  "old_tip = \<lparr> amount = 7, timestamp = ''1969-12-30T10:00:00.000Z'',
               donationType = Some Tip, subTier = None \<rparr>"

definition mixed_donors :: "DonationData list" where
  "mixed_donors =
     [\<lparr> name = ''Bob'', individual_donations = [old_tip],
        total_amount = 7, total_donations = 1 \<rparr>,
      \<lparr> name = ''Ada'', individual_donations = [old_tip, ada_tip],
        total_amount = 12, total_donations = 2 \<rparr>]"

section \<open>Evaluation of the arithmetic on numerals\<close>

lemma bitlen_numeral_simps:
  "bitlen 1 = 1"
  "bitlen (numeral Num.One) = 1"
  "bitlen (numeral (Num.Bit0 n)) = bitlen (numeral n) + 1"
  "bitlen (numeral (Num.Bit1 n)) = bitlen (numeral n) + 1"
proof -
  show "bitlen 1 = 1" by (simp add: bitlen_alt_def)
  show "bitlen (numeral Num.One) = 1" by (simp add: bitlen_alt_def)
  show "bitlen (numeral (Num.Bit0 n)) = bitlen (numeral n) + 1"
    by (subst compute_bitlen) simp
  show "bitlen (numeral (Num.Bit1 n)) = bitlen (numeral n) + 1"
    by (subst compute_bitlen) simp
qed

lemma floor_rat_numeral_simps:
  "\<lfloor>numeral a / numeral b :: rat\<rfloor> = numeral a div numeral b"
  "\<lfloor>1 / numeral b :: rat\<rfloor> = 1 div numeral b"
  "\<lceil>numeral a / numeral b :: rat\<rceil> = - (- numeral a div numeral b)"
  "\<lceil>1 / numeral b :: rat\<rceil> = - (- 1 div numeral b)"
proof -
  show "\<lfloor>numeral a / numeral b :: rat\<rfloor> = numeral a div numeral b"
    using floor_divide_of_int_eq[of "numeral a" "numeral b", where ?'a = rat] by simp
  show "\<lfloor>1 / numeral b :: rat\<rfloor> = 1 div numeral b"
    using floor_divide_of_int_eq[of 1 "numeral b", where ?'a = rat] by simp
  show "\<lceil>numeral a / numeral b :: rat\<rceil> = - (- numeral a div numeral b)"
    using floor_divide_of_int_eq[of "- numeral a" "numeral b", where ?'a = rat]
    by (simp add: ceiling_def)
  show "\<lceil>1 / numeral b :: rat\<rceil> = - (- 1 div numeral b)"
    using floor_divide_of_int_eq[of "- 1" "numeral b", where ?'a = rat]
    by (simp add: ceiling_def)
qed

lemmas fl_eval = fl_def expo_def round_half_even_def pow2_def Let_def bitlen_numeral_simps
  floor_rat_numeral_simps

lemmas js_eval = js_add_def js_sub_def js_mul_def js_div_def roundToTwoDecimals_def
  safeAdd_def


section \<open>Currency addition\<close>

lemma c7_left: "safeAdd (1 / 8) 0 = cents 13"
  by (simp add: js_eval fl_eval cents_def)

lemma c7_right: "addCurrency_spec (1 / 8) 0 = 1 / 8"
  by (simp add: addCurrency_spec_def js_eval fl_eval)

text \<open>
  At \<open>a = 0.125\<close>, \<open>b = 0\<close> the cents are 12.5.  The code divides by 100 and then
  rounds 0.125 to 0.13; the formula of the specification rounds 12.5 (to 12.5) and then
  divides, which gives 0.125.
\<close>

theorem safeAdd_spec_formula_counterexample:
  "safeAdd (1 / 8) 0 = cents 13 \<and> addCurrency_spec (1 / 8) 0 = 1 / 8 \<and>
   safeAdd (1 / 8) 0 \<noteq> addCurrency_spec (1 / 8) 0"
  by (simp add: c7_left c7_right) (simp add: cents_def fl_eval)

lemma floor_half_bounds:
  fixes y :: rat
  shows "\<bar>of_int \<lfloor>y + 1 / 2\<rfloor> - y\<bar> \<le> 1 / 2"
  by linarith

lemma roundToTwoDecimals_cents:
  assumes "\<bar>q\<bar> < 10 ^ 21"
  shows "\<exists>k. roundToTwoDecimals q = cents k \<and> \<bar>of_int k - 100 * q\<bar> \<le> 1 / 2"
proof -
  let ?n = "\<lfloor>\<bar>q\<bar> * 100 + 1 / 2\<rfloor>"
  let ?k = "(if q < 0 then - ?n else ?n)"
  have n: "\<bar>of_int ?n - \<bar>q\<bar> * 100\<bar> \<le> 1 / 2" by (rule floor_half_bounds)
  have "sgn q * of_int ?n = of_int ?k"
    by (cases "q = 0") (auto simp: sgn_if floor_rat_numeral_simps)
  with assms have "roundToTwoDecimals q = cents ?k"
    by (simp add: roundToTwoDecimals_def cents_def)
  moreover from n have "\<bar>of_int ?k - 100 * q\<bar> \<le> 1 / 2"
    by (auto simp: abs_if split: if_splits)
  ultimately show ?thesis by blast
qed

text \<open>
  Claim C7, amended.  \<^verbatim>\<open>safeAdd(a, b)\<close> scales both operands to cents, sums them,
  divides the sum by 100 and rounds the quotient to two decimals: below \<open>10\<^sup>2\<^sup>1\<close> the
  result is the binary64 value of a whole number of cents that is within half a cent of
  the quotient.
\<close>

theorem safeAdd_rounds_the_quotient:
  "safeAdd a b = roundToTwoDecimals (js_div (js_add (js_mul a 100) (js_mul b 100)) 100) \<and>
   (\<bar>js_div (js_add (js_mul a 100) (js_mul b 100)) 100\<bar> < 10 ^ 21 \<longrightarrow>
      (\<exists>k. safeAdd a b = cents k \<and>
         \<bar>of_int k - 100 * js_div (js_add (js_mul a 100) (js_mul b 100)) 100\<bar> \<le> 1 / 2))"
  using roundToTwoDecimals_cents[of "js_div (js_add (js_mul a 100) (js_mul b 100)) 100"]
  by (simp add: safeAdd_def)

text \<open>The theorem at \<open>a = 0.125\<close>, \<open>b = 0\<close>.\<close>

theorem safeAdd_rounds_the_quotient_witness:
  "\<bar>js_div (js_add (js_mul (1 / 8) 100) (js_mul 0 100)) 100\<bar> < 10 ^ 21 \<and>
   safeAdd (1 / 8) 0 = roundToTwoDecimals (js_div (js_add (js_mul (1 / 8) 100) (js_mul 0 100)) 100) \<and>
   (\<exists>k. safeAdd (1 / 8) 0 = cents k \<and>
      \<bar>of_int k - 100 * js_div (js_add (js_mul (1 / 8) 100) (js_mul 0 100)) 100\<bar> \<le> 1 / 2)"
proof -
  have h: "\<bar>js_div (js_add (js_mul (1 / 8) 100) (js_mul 0 100)) 100\<bar> < 10 ^ 21"
    by (simp add: js_eval fl_eval)
  from safeAdd_rounds_the_quotient[of "1 / 8" 0] h show ?thesis by blast
qed


section \<open>Rounding error of the arithmetic, and sums of two-decimal amounts\<close>

lemma pow2_powi: "pow2 k = 2 powi k"
  by (simp add: pow2_def power_int_def power_one_over inverse_eq_divide)

lemma pow2_pos: "0 < pow2 k"
  by (simp add: pow2_powi)

lemma pow2_diff: "pow2 (a - b) = pow2 a / pow2 b"
  by (simp add: pow2_powi power_int_diff)

lemma pow2_53: "pow2 53 = 2 ^ 53" "pow2 52 = 2 ^ 52"
  by (simp_all add: pow2_def)

lemma expo_lower:
  assumes "x \<noteq> 0"
  shows "pow2 (expo x) \<le> \<bar>x\<bar>"
proof (cases "1 \<le> \<bar>x\<bar>")
  case True
  then have f: "0 < \<lfloor>\<bar>x\<bar>\<rfloor>" by simp
  from bitlen_bounds[OF f] have b: "2 ^ nat (bitlen \<lfloor>\<bar>x\<bar>\<rfloor> - 1) \<le> \<lfloor>\<bar>x\<bar>\<rfloor>" by simp
  from f have "1 \<le> bitlen \<lfloor>\<bar>x\<bar>\<rfloor>" by (simp add: bitlen_alt_def)
  then have "pow2 (expo x) = 2 ^ nat (bitlen \<lfloor>\<bar>x\<bar>\<rfloor> - 1)"
    using True by (simp add: expo_def pow2_def)
  also have "\<dots> = of_int (2 ^ nat (bitlen \<lfloor>\<bar>x\<bar>\<rfloor> - 1))" by simp
  also from b have "\<dots> \<le> of_int \<lfloor>\<bar>x\<bar>\<rfloor>" by (rule of_int_le_iff[THEN iffD2])
  also have "\<dots> \<le> \<bar>x\<bar>" by (rule of_int_floor_le)
  finally show ?thesis .
next
  case False
  with assms have x: "0 < \<bar>x\<bar>" "\<bar>x\<bar> < 1" by simp_all
  let ?c = "\<lceil>1 / \<bar>x\<bar>\<rceil>"
  from x have "1 < 1 / \<bar>x\<bar>" by (simp add: field_simps)
  then have c: "0 < ?c - 1" by (simp add: less_ceiling_iff)
  from bitlen_bounds[OF c] have b: "?c - 1 < 2 ^ nat (bitlen (?c - 1))" by simp
  from c have bl: "1 \<le> bitlen (?c - 1)" by (simp add: bitlen_alt_def)
  from b have ci: "?c \<le> 2 ^ nat (bitlen (?c - 1))" by simp
  have "1 / \<bar>x\<bar> \<le> of_int ?c" by (rule le_of_int_ceiling)
  also from ci have "(of_int ?c :: rat) \<le> of_int (2 ^ nat (bitlen (?c - 1)))"
    by (simp only: of_int_le_iff)
  also have "\<dots> = 2 ^ nat (bitlen (?c - 1))" by simp
  finally have "1 / \<bar>x\<bar> \<le> 2 ^ nat (bitlen (?c - 1))" .
  with x have "1 / 2 ^ nat (bitlen (?c - 1)) \<le> \<bar>x\<bar>"
    by (simp add: field_simps)
  moreover from bl False have "pow2 (expo x) = 1 / 2 ^ nat (bitlen (?c - 1))"
    by (simp add: expo_def pow2_def)
  ultimately show ?thesis by simp
qed

lemma round_half_even_error: "\<bar>of_int (round_half_even q) - q\<bar> \<le> 1 / 2"
proof -
  have "of_int \<lfloor>q\<rfloor> \<le> q" "q < of_int \<lfloor>q\<rfloor> + 1" by linarith+
  then show ?thesis
    by (auto simp: round_half_even_def Let_def abs_le_iff)
qed

lemma fl_error: "\<bar>fl x - x\<bar> \<le> \<bar>x\<bar> / 2 ^ 53"
proof (cases "x = 0")
  case True
  then show ?thesis by (simp add: fl_def)
next
  case False
  let ?e = "expo x - 52"
  let ?N = "of_int (round_half_even (\<bar>x\<bar> / pow2 ?e)) :: rat"
  have p: "0 < pow2 ?e" by (rule pow2_pos)
  have fl: "fl x = sgn x * ?N * pow2 ?e"
    using False by (simp add: fl_def Let_def)
  have "fl x - x = sgn x * ?N * pow2 ?e - sgn x * \<bar>x\<bar>"
    by (simp only: fl sgn_mult_abs)
  also have "\<dots> = sgn x * (?N * pow2 ?e - \<bar>x\<bar>)"
    by (simp add: algebra_simps)
  finally have "\<bar>fl x - x\<bar> = \<bar>sgn x * (?N * pow2 ?e - \<bar>x\<bar>)\<bar>"
    by simp
  also have "\<dots> = \<bar>?N * pow2 ?e - \<bar>x\<bar>\<bar>"
    using False by (simp add: abs_mult abs_sgn_eq)
  also have "\<dots> = \<bar>?N - \<bar>x\<bar> / pow2 ?e\<bar> * pow2 ?e"
  proof -
    have "?N * pow2 ?e - \<bar>x\<bar> = (?N - \<bar>x\<bar> / pow2 ?e) * pow2 ?e"
      using p by (simp add: field_simps)
    then show ?thesis using p by (simp add: abs_mult)
  qed
  also have "\<dots> \<le> 1 / 2 * pow2 ?e"
    using round_half_even_error[of "\<bar>x\<bar> / pow2 ?e"] p by (intro mult_right_mono) simp_all
  also have "\<dots> = pow2 (expo x) / 2 ^ 53"
    using pow2_diff[of "expo x" 52] by (simp add: pow2_53)
  also have "\<dots> \<le> \<bar>x\<bar> / 2 ^ 53"
    using expo_lower[OF False] by (simp add: divide_right_mono)
  finally show ?thesis .
qed

lemma fl_zero: "fl 0 = 0"
  by (simp add: fl_def)

lemma cents_zero: "cents 0 = 0"
  by (simp add: cents_def fl_zero)

lemma fl_near: "x - \<bar>x\<bar> / 9007199254740992 \<le> fl x \<and> fl x \<le> x + \<bar>x\<bar> / 9007199254740992"
proof -
  have "\<bar>fl x - x\<bar> \<le> \<bar>x\<bar> / 2 ^ 53" by (rule fl_error)
  then have "\<bar>fl x - x\<bar> \<le> \<bar>x\<bar> / 9007199254740992" by simp
  then show ?thesis unfolding abs_le_iff by linarith
qed

text \<open>One rounding of a value known to lie within \<open>d\<close> of \<open>c\<close>.\<close>

lemma fl_within:
  assumes "c - d \<le> x \<and> x \<le> c + d" and "\<bar>c\<bar> \<le> A"
  shows "c - (d + (A + d) / 9007199254740992) \<le> fl x \<and>
         fl x \<le> c + (d + (A + d) / 9007199254740992)"
proof -
  define e where "e = \<bar>x\<bar>"
  define g where "g = A + d"
  have f: "x - e / 9007199254740992 \<le> fl x \<and> fl x \<le> x + e / 9007199254740992"
    unfolding e_def by (rule fl_near)
  from assms have "e \<le> g" unfolding e_def g_def by linarith
  with f assms(1) show ?thesis unfolding g_def[symmetric] by linarith
qed

text \<open>Scaling a two-decimal amount to cents: \<^verbatim>\<open>a * 100\<close>.\<close>

lemma scaled_near:
  fixes M :: rat
  assumes "\<bar>M\<bar> \<le> A"
  shows "M - 3 * A / 9007199254740992 \<le> fl (fl (M / 100) * 100) \<and>
         fl (fl (M / 100) * 100) \<le> M + 3 * A / 9007199254740992"
proof -
  define a where "a = fl (M / 100)"
  define b where "b = a * 100"
  define d where "d = A / 9007199254740992"
  from assms have A0: "0 \<le> A" by linarith
  have "\<bar>M / 100\<bar> = \<bar>M\<bar> / 100" by simp
  with fl_near[of "M / 100"] have "M / 100 - \<bar>M\<bar> / 100 / 9007199254740992 \<le> a \<and>
      a \<le> M / 100 + \<bar>M\<bar> / 100 / 9007199254740992"
    unfolding a_def by simp
  with assms have b: "M - d \<le> b \<and> b \<le> M + d"
    unfolding b_def d_def by linarith
  from b assms have f: "M - (d + (A + d) / 9007199254740992) \<le> fl b \<and>
      fl b \<le> M + (d + (A + d) / 9007199254740992)"
    by (rule fl_within)
  have "(A + d) / 9007199254740992 = A / 9007199254740992 + d / 9007199254740992"
    by (rule add_divide_distrib)
  with f A0 show ?thesis unfolding b_def a_def d_def by linarith
qed

text \<open>The argument of the final rounding: \<^verbatim>\<open>(a * 100 + b * 100) / 100\<close>.\<close>

lemma quotient_near:
  fixes M N :: rat
  assumes "\<bar>M\<bar> + \<bar>N\<bar> \<le> A"
  shows "(M + N) - 7 * A / 9007199254740992
           \<le> fl (fl (fl (fl (M / 100) * 100) + fl (fl (N / 100) * 100)) / 100) * 100 \<and>
         fl (fl (fl (fl (M / 100) * 100) + fl (fl (N / 100) * 100)) / 100) * 100
           \<le> (M + N) + 7 * A / 9007199254740992"
proof -
  define x where "x = fl (fl (M / 100) * 100)"
  define y where "y = fl (fl (N / 100) * 100)"
  define t where "t = x + y"
  define s where "s = fl t"
  define q where "q = fl (s / 100)"
  define K where "K = M + N"
  define m n where "m = \<bar>M\<bar>" and "n = \<bar>N\<bar>"
  define d where "d = 3 * A / 9007199254740992"
  define d' where "d' = 5 * A / 9007199254740992"
  have mn: "0 \<le> m" "0 \<le> n" "m + n \<le> A" using assms by (simp_all add: m_def n_def)
  then have A0: "0 \<le> A" by linarith
  have KA: "\<bar>K\<bar> \<le> A" using assms unfolding K_def by linarith
  have x: "M - 3 * m / 9007199254740992 \<le> x \<and> x \<le> M + 3 * m / 9007199254740992"
    unfolding x_def by (rule scaled_near) (simp add: m_def)
  have y: "N - 3 * n / 9007199254740992 \<le> y \<and> y \<le> N + 3 * n / 9007199254740992"
    unfolding y_def by (rule scaled_near) (simp add: n_def)
  from x y mn have t: "K - d \<le> t \<and> t \<le> K + d"
    unfolding K_def t_def d_def by linarith
  from t KA have s: "K - (d + (A + d) / 9007199254740992) \<le> s \<and>
      s \<le> K + (d + (A + d) / 9007199254740992)"
    unfolding s_def by (rule fl_within)
  have "(A + d) / 9007199254740992 = A / 9007199254740992 + d / 9007199254740992"
    by (rule add_divide_distrib)
  with s A0 have s': "K - d' \<le> s \<and> s \<le> K + d'"
    unfolding d_def d'_def by linarith
  then have s100: "K / 100 - d' / 100 \<le> s / 100 \<and> s / 100 \<le> K / 100 + d' / 100"
    by linarith
  from KA have KA100: "\<bar>K / 100\<bar> \<le> A / 100" by simp
  from s100 KA100 have q: "K / 100 - (d' / 100 + (A / 100 + d' / 100) / 9007199254740992) \<le> q \<and>
      q \<le> K / 100 + (d' / 100 + (A / 100 + d' / 100) / 9007199254740992)"
    unfolding q_def by (rule fl_within)
  have "(A / 100 + d' / 100) / 9007199254740992
          = A / 100 / 9007199254740992 + d' / 100 / 9007199254740992"
    by (rule add_divide_distrib)
  with q A0 have "K - 7 * A / 9007199254740992 \<le> q * 100 \<and>
      q * 100 \<le> K + 7 * A / 9007199254740992"
    unfolding d'_def by linarith
  then show ?thesis unfolding q_def s_def t_def x_def y_def K_def .
qed

lemma roundToTwoDecimals_near:
  fixes q K :: rat
  assumes "K = of_int k" and "\<bar>K\<bar> \<le> A" and "A \<le> 562949953421312"
    and "K - 7 * A / 9007199254740992 \<le> q * 100 \<and> q * 100 \<le> K + 7 * A / 9007199254740992"
  shows "roundToTwoDecimals q = cents k"
proof -
  from assms(2-4) have q16: "K - 7 / 16 \<le> q * 100 \<and> q * 100 \<le> K + 7 / 16" by linarith
  from q16 assms(2,3) have "\<bar>q\<bar> < 1000000000000000000000" by linarith
  then have small: "\<not> 10 ^ 21 \<le> \<bar>q\<bar>" by simp
  consider (pos) "1 \<le> k" | (neg) "k \<le> - 1" | (zero) "k = 0" by linarith
  then show ?thesis
  proof cases
    case pos
    then have "1 \<le> K" unfolding assms(1) by simp
    with q16 have q0: "0 < q" by linarith
    have "K \<le> \<bar>q\<bar> * 100 + 1 / 2" using q16 q0 by linarith
    moreover have "\<bar>q\<bar> * 100 + 1 / 2 < K + 1" using q16 q0 by linarith
    ultimately have "\<lfloor>\<bar>q\<bar> * 100 + 1 / 2\<rfloor> = k" unfolding assms(1) by (rule floor_unique)
    moreover from q0 have "sgn q = 1" by simp
    ultimately show ?thesis using small by (simp add: roundToTwoDecimals_def cents_def)
  next
    case neg
    then have "K \<le> - 1" unfolding assms(1) by simp
    with q16 have q0: "q < 0" by linarith
    have nk: "- K = of_int (- k)" unfolding assms(1) by simp
    have "- K \<le> \<bar>q\<bar> * 100 + 1 / 2" using q16 q0 by linarith
    moreover have "\<bar>q\<bar> * 100 + 1 / 2 < - K + 1" using q16 q0 by linarith
    ultimately have "\<lfloor>\<bar>q\<bar> * 100 + 1 / 2\<rfloor> = - k" unfolding nk by (rule floor_unique)
    moreover from q0 have "sgn q = - 1" by simp
    ultimately show ?thesis using small by (simp add: roundToTwoDecimals_def cents_def)
  next
    case zero
    then have K0: "K = 0" unfolding assms(1) by simp
    have "(of_int 0 :: rat) \<le> \<bar>q\<bar> * 100 + 1 / 2" using q16 K0 by simp
    moreover have "\<bar>q\<bar> * 100 + 1 / 2 < of_int 0 + 1" using q16 K0 by simp linarith
    ultimately have "\<lfloor>\<bar>q\<bar> * 100 + 1 / 2\<rfloor> = 0" by (rule floor_unique)
    with small zero show ?thesis by (simp add: roundToTwoDecimals_def fl_zero cents_zero)
  qed
qed

lemma safeAdd_cents_exact:
  assumes "\<bar>m\<bar> + \<bar>n\<bar> \<le> 2 ^ 49"
  shows "safeAdd (cents m) (cents n) = cents (m + n)"
proof -
  define M N A :: rat where "M = of_int m" and "N = of_int n" and "A = of_int (\<bar>m\<bar> + \<bar>n\<bar>)"
  have K: "M + N = of_int (m + n)" by (simp add: M_def N_def)
  have MN: "\<bar>M\<bar> + \<bar>N\<bar> \<le> A" by (simp add: M_def N_def A_def)
  then have KA: "\<bar>M + N\<bar> \<le> A" by linarith
  from assms have "A \<le> of_int (2 ^ 49)" unfolding A_def by (simp only: of_int_le_iff)
  then have B: "A \<le> 562949953421312" by simp
  have "roundToTwoDecimals
          (fl (fl (fl (fl (M / 100) * 100) + fl (fl (N / 100) * 100)) / 100)) = cents (m + n)"
    using K KA B quotient_near[OF MN] by (rule roundToTwoDecimals_near)
  then show ?thesis
    by (simp add: safeAdd_def js_div_def js_add_def js_mul_def cents_def M_def N_def)
qed

lemma roundToTwoDecimals_cents_id:
  assumes "\<bar>m\<bar> \<le> 2 ^ 49"
  shows "roundToTwoDecimals (cents m) = cents m"
proof -
  define M A :: rat where "M = of_int m" and "A = of_int \<bar>m\<bar>"
  have MA: "\<bar>M\<bar> \<le> A" by (simp add: M_def A_def)
  then have A0: "0 \<le> A" by linarith
  from assms have "A \<le> of_int (2 ^ 49)" unfolding A_def by (simp only: of_int_le_iff)
  then have AB: "A \<le> 562949953421312" by simp
  have "\<bar>M / 100\<bar> = \<bar>M\<bar> / 100" by simp
  with fl_near[of "M / 100"] have "M / 100 - \<bar>M\<bar> / 100 / 9007199254740992 \<le> fl (M / 100) \<and>
      fl (M / 100) \<le> M / 100 + \<bar>M\<bar> / 100 / 9007199254740992"
    by simp
  with MA A0 have "M - 7 * A / 9007199254740992 \<le> fl (M / 100) * 100 \<and>
        fl (M / 100) * 100 \<le> M + 7 * A / 9007199254740992"
    by linarith
  with M_def MA AB have "roundToTwoDecimals (fl (M / 100)) = cents m"
    by (rule roundToTwoDecimals_near)
  then show ?thesis by (simp add: cents_def M_def)
qed

lemma abs_sum_list_le: "\<bar>sum_list ns\<bar> \<le> sum_list (map abs ns)" for ns :: "int list"
  by (induction ns) auto

lemma foldl_safeAdd_cents:
  assumes "\<bar>k\<bar> + sum_list (map abs ns) \<le> 2 ^ 49"
  shows "foldl safeAdd (cents k) (map cents ns) = cents (k + sum_list ns)"
  using assms
proof (induction ns arbitrary: k)
  case Nil
  then show ?case by simp
next
  case (Cons n ns)
  have r: "0 \<le> sum_list (map abs ns)" using abs_sum_list_le[of ns] by linarith
  with Cons.prems have "\<bar>k\<bar> + \<bar>n\<bar> \<le> 2 ^ 49" by simp
  then have "safeAdd (cents k) (cents n) = cents (k + n)"
    by (rule safeAdd_cents_exact)
  moreover have "\<bar>k + n\<bar> + sum_list (map abs ns) \<le> 2 ^ 49"
    using Cons.prems by simp
  then have "foldl safeAdd (cents (k + n)) (map cents ns) = cents (k + n + sum_list ns)"
    by (rule Cons.IH)
  ultimately show ?case by (simp add: add.assoc)
qed

text \<open>
  Claim C8.  Amounts with at most two decimals are the binary64 values of whole numbers of
  cents.  For amounts whose absolute values total at most \<open>2\<^sup>4\<^sup>9\<close> cents (about
  \<open>5.6 \<times> 10\<^sup>1\<^sup>2\<close> units), folding them with \<^verbatim>\<open>safeAdd\<close> from 0 gives the
  binary64 value of the exact decimal sum, rounding it once more to two decimals changes
  nothing, and every order of the amounts gives the same result.
\<close>

theorem fold_safeAdd_exact:
  assumes "sum_list (map abs ns) \<le> 2 ^ 49"
  shows "foldl safeAdd 0 (map cents ns) = cents (sum_list ns) \<and>
         roundToTwoDecimals (foldl safeAdd 0 (map cents ns)) = cents (sum_list ns) \<and>
         (\<forall>ms. mset ms = mset ns \<longrightarrow>
            foldl safeAdd 0 (map cents ms) = foldl safeAdd 0 (map cents ns))"
proof (intro conjI allI impI)
  show a: "foldl safeAdd 0 (map cents ns) = cents (sum_list ns)"
    using foldl_safeAdd_cents[of 0 ns] assms by (simp add: cents_zero)
  from assms abs_sum_list_le[of ns] have "\<bar>sum_list ns\<bar> \<le> 2 ^ 49" by linarith
  then show "roundToTwoDecimals (foldl safeAdd 0 (map cents ns)) = cents (sum_list ns)"
    by (simp add: a roundToTwoDecimals_cents_id)
  fix ms :: "int list"
  assume m: "mset ms = mset ns"
  then have "mset (map abs ms) = mset (map abs ns)" by simp
  then have "sum_list (map abs ms) = sum_list (map abs ns)"
    by (metis sum_mset_sum_list)
  moreover from m have "sum_list ms = sum_list ns"
    by (metis sum_mset_sum_list)
  ultimately have "foldl safeAdd 0 (map cents ms) = cents (sum_list ns)"
    using foldl_safeAdd_cents[of 0 ms] assms by (simp add: cents_zero)
  with a show "foldl safeAdd 0 (map cents ms) = foldl safeAdd 0 (map cents ns)" by simp
qed

text \<open>The theorem at 0.10, 0.20 and 0.07, added in two orders.\<close>

theorem fold_safeAdd_exact_witness:
  "sum_list (map abs [10, 20, 7 :: int]) \<le> 2 ^ 49 \<and>
   mset [7, 10, 20 :: int] = mset [10, 20, 7] \<and>
   foldl safeAdd 0 (map cents [10, 20, 7]) = cents 37 \<and>
   roundToTwoDecimals (foldl safeAdd 0 (map cents [10, 20, 7])) = cents 37 \<and>
   foldl safeAdd 0 (map cents [7, 10, 20]) = foldl safeAdd 0 (map cents [10, 20, 7])"
proof -
  have h2: "sum_list (map abs [10, 20, 7 :: int]) \<le> 2 ^ 49" by simp
  have h3: "mset [7, 10, 20 :: int] = mset [10, 20, 7]" by (simp add: add_mset_commute)
  have s: "sum_list [10, 20, 7 :: int] = 37" by simp
  from fold_safeAdd_exact[OF h2] h3
  have e: "foldl safeAdd 0 (map cents [10, 20, 7]) = cents (sum_list [10, 20, 7]) \<and>
        roundToTwoDecimals (foldl safeAdd 0 (map cents [10, 20, 7])) = cents (sum_list [10, 20, 7]) \<and>
        foldl safeAdd 0 (map cents [7, 10, 20]) = foldl safeAdd 0 (map cents [10, 20, 7])"
    by blast
  note e1 = e[THEN conjunct1, unfolded s]
  note e2 = e[THEN conjunct2, THEN conjunct1, unfolded s]
  note e3 = e[THEN conjunct2, THEN conjunct2]
  from h2 h3 e1 e2 e3 show ?thesis by blast
qed


section \<open>The local ledger: searching and removing\<close>

lemma findIndex_None: "findIndex P xs = None \<longleftrightarrow> (\<forall>x\<in>set xs. \<not> P x)"
  by (induction xs) auto

lemma findIndex_Some_ex: "findIndex P xs = Some k \<Longrightarrow> \<exists>x\<in>set xs. P x"
  using findIndex_None[of P xs] by auto

lemma findIndex_Some:
  "findIndex P xs = Some k \<Longrightarrow>
     \<exists>ys x zs. xs = ys @ x # zs \<and> P x \<and> (\<forall>y\<in>set ys. \<not> P y) \<and> k = length ys"
proof (induction xs arbitrary: k)
  case Nil
  then show ?case by simp
next
  case (Cons a xs)
  show ?case
  proof (cases "P a")
    case True
    with Cons.prems have "k = 0" by simp
    with True show ?thesis by (intro exI[of _ "[]"] exI[of _ a] exI[of _ xs]) simp
  next
    case False
    with Cons.prems obtain k' where k': "findIndex P xs = Some k'" "k = Suc k'"
      by auto
    from Cons.IH[OF k'(1)] obtain ys x zs where
      "xs = ys @ x # zs" "P x" "\<forall>y\<in>set ys. \<not> P y" "k' = length ys" by blast
    with False k' show ?thesis
      by (intro exI[of _ "a # ys"] exI[of _ x] exI[of _ zs]) simp
  qed
qed

lemma holds_ts_iff: "holds_ts ts donor \<longleftrightarrow> (\<exists>x\<in>set (individual_donations donor). timestamp x = ts)"
  by (simp add: holds_ts_def list_ex_iff)

lemma locate_None:
  "locate ts i ds found = None \<longleftrightarrow> found = None \<and> (\<forall>donor\<in>set ds. \<not> holds_ts ts donor)"
  by (induction ds arbitrary: i found)
     (auto simp: holds_ts_iff findIndex_None split: option.splits dest: findIndex_Some_ex)

lemma locate_Some:
  "locate ts i ds found = Some (j, k) \<Longrightarrow>
     (found = Some (j, k) \<and> (\<forall>donor\<in>set ds. \<not> holds_ts ts donor)) \<or>
     (\<exists>before donor after. ds = before @ donor # after \<and> j = i + length before \<and>
        findIndex (\<lambda>d. timestamp d = ts) (individual_donations donor) = Some k \<and>
        (\<forall>donor\<in>set after. \<not> holds_ts ts donor))"
proof (induction ds arbitrary: i found)
  case Nil
  then show ?case by simp
next
  case (Cons a ds)
  let ?f = "case findIndex (\<lambda>d. timestamp d = ts) (individual_donations a) of
          Some donationIdx \<Rightarrow> Some (i, donationIdx) | None \<Rightarrow> found"
  from Cons.prems have "locate ts (Suc i) ds ?f = Some (j, k)" by simp
  from Cons.IH[OF this] show ?case
  proof
    assume A: "?f = Some (j, k) \<and> (\<forall>donor\<in>set ds. \<not> holds_ts ts donor)"
    show ?thesis
    proof (cases "findIndex (\<lambda>d. timestamp d = ts) (individual_donations a)")
      case None
      with A have "found = Some (j, k)" by simp
      moreover from None have "\<not> holds_ts ts a" by (simp add: findIndex_None holds_ts_iff)
      ultimately show ?thesis using A by simp
    next
      case (Some k')
      with A have "j = i" "k' = k" by simp_all
      with Some A show ?thesis
        by (intro disjI2 exI[of _ "[]"] exI[of _ a] exI[of _ ds]) simp
    qed
  next
    assume "\<exists>before donor after. ds = before @ donor # after \<and> j = Suc i + length before \<and>
        findIndex (\<lambda>d. timestamp d = ts) (individual_donations donor) = Some k \<and>
        (\<forall>donor\<in>set after. \<not> holds_ts ts donor)"
    then obtain before donor after where
      "ds = before @ donor # after" "j = Suc i + length before"
      "findIndex (\<lambda>d. timestamp d = ts) (individual_donations donor) = Some k"
      "\<forall>donor\<in>set after. \<not> holds_ts ts donor" by blast
    then show ?thesis
      by (intro disjI2 exI[of _ "a # before"] exI[of _ donor] exI[of _ after]) simp
  qed
qed

lemma splice1_append: "splice1 (length ys) (ys @ x # zs) = ys @ zs"
  by (simp add: splice1_def)

lemma removeLocalDonation_missing:
  assumes "getLocalDonations d = Some cur"
    and "\<forall>donor\<in>set (donations cur). \<not> holds_ts ts donor"
  shows "removeLocalDonation ts now d = (Inl (Error ''Donation not found''), d)"
proof -
  from assms(2) have "locate ts 0 (donations cur) None = None" by (simp add: locate_None)
  with assms(1) show ?thesis by (simp add: removeLocalDonation_def)
qed

lemma removeLocalDonation_found:
  assumes cur: "getLocalDonations d = Some cur"
    and ex: "\<exists>donor\<in>set (donations cur). holds_ts ts donor"
  shows "\<exists>before donor after xs x ys.
           donations cur = before @ donor # after \<and>
           (\<forall>other\<in>set after. \<not> holds_ts ts other) \<and>
           individual_donations donor = xs @ x # ys \<and> timestamp x = ts \<and>
           (\<forall>y\<in>set xs. timestamp y \<noteq> ts) \<and>
           (let new = cur \<lparr>
                  donations := before @
                    (if xs @ ys = [] then []
                     else [donor \<lparr> individual_donations := xs @ ys,
                                   total_amount := js_sub (total_amount donor) (amount x),
                                   total_donations := total_donations donor - 1 \<rparr>]) @ after,
                  overall_total := \<lparr>
                    overall_amount = js_sub (overall_amount (overall_total cur)) (amount x),
                    donation_count = donation_count (overall_total cur) - 1 \<rparr>,
                  metadata_lastUpdated := now \<rparr>
            in removeLocalDonation ts now d = (Inr new, push_localDonations new d))"
proof -
  from ex have "locate ts 0 (donations cur) None \<noteq> None" by (simp add: locate_None)
  then obtain j k where jk: "locate ts 0 (donations cur) None = Some (j, k)" by auto
  from locate_Some[OF jk] obtain before donor after where
    ds: "donations cur = before @ donor # after" and j: "j = length before" and
    fi: "findIndex (\<lambda>d. timestamp d = ts) (individual_donations donor) = Some k" and
    after: "\<forall>other\<in>set after. \<not> holds_ts ts other" by auto
  from findIndex_Some[OF fi] obtain xs x ys where
    ids: "individual_donations donor = xs @ x # ys" and x: "timestamp x = ts" and
    xs: "\<forall>y\<in>set xs. timestamp y \<noteq> ts" and k: "k = length xs" by blast
  have "removeLocalDonation ts now d =
     (let new = cur \<lparr>
                  donations := before @
                    (if xs @ ys = [] then []
                     else [donor \<lparr> individual_donations := xs @ ys,
                                   total_amount := js_sub (total_amount donor) (amount x),
                                   total_donations := total_donations donor - 1 \<rparr>]) @ after,
                  overall_total := \<lparr>
                    overall_amount = js_sub (overall_amount (overall_total cur)) (amount x),
                    donation_count = donation_count (overall_total cur) - 1 \<rparr>,
                  metadata_lastUpdated := now \<rparr>
      in (Inr new, push_localDonations new d))"
    using cur jk ds j ids k
    by (simp add: removeLocalDonation_def Let_def splice1_append nth_append list_update_append)
  with ds after ids x xs show ?thesis
    by (intro exI[of _ before] exI[of _ donor] exI[of _ after] exI[of _ xs] exI[of _ x]
        exI[of _ ys]) (simp add: Let_def)
qed

text \<open>Reading the ledger back after a write.\<close>

lemma getLocalDonations_push: "getLocalDonations (push_localDonations x d) = Some x"
  by (simp add: getLocalDonations_def push_localDonations_def)

lemma push_localDonations_Some:
  "push_localDonations x (Some g) = Some (g \<lparr> localDonations := Some x \<rparr>)"
  by (simp add: push_localDonations_def)

lemma getLocalDonations_Some_ex: "getLocalDonations d = Some cur \<Longrightarrow> \<exists>g. d = Some g"
  by (cases d) (simp_all add: getLocalDonations_def)

text \<open>
  Claim C4.  On a stored ledger, \<^verbatim>\<open>removeLocalDonation(timestamp)\<close> fails with
  ``Donation not found'' and leaves the store as it was when no donor holds a donation
  with that timestamp.  Otherwise it takes the last donor that holds one and that donor's
  first such donation, removes the donation, subtracts its amount from the donor's total
  and from the overall total (the difference as binary64 arithmetic gives it) and one from
  both counts, drops the donor when no donation is left, and writes the ledger back: the
  store then holds the new ledger, and nothing else of the document has changed.
\<close>

theorem removeLocalDonation_spec:
  assumes "getLocalDonations d = Some cur"
  shows "((\<forall>donor\<in>set (donations cur). \<not> holds_ts ts donor) \<longrightarrow>
            removeLocalDonation ts now d = (Inl (Error ''Donation not found''), d)) \<and>
         ((\<exists>donor\<in>set (donations cur). holds_ts ts donor) \<longrightarrow>
            (\<exists>before donor after xs x ys.
               donations cur = before @ donor # after \<and>
               (\<forall>other\<in>set after. \<not> holds_ts ts other) \<and>
               individual_donations donor = xs @ x # ys \<and> timestamp x = ts \<and>
               (\<forall>y\<in>set xs. timestamp y \<noteq> ts) \<and>
               (let new = cur \<lparr>
                      donations := before @
                        (if xs @ ys = [] then []
                         else [donor \<lparr> individual_donations := xs @ ys,
                                       total_amount := fl (total_amount donor - amount x),
                                       total_donations := total_donations donor - 1 \<rparr>]) @ after,
                      overall_total := \<lparr>
                        overall_amount = fl (overall_amount (overall_total cur) - amount x),
                        donation_count = donation_count (overall_total cur) - 1 \<rparr>,
                      metadata_lastUpdated := now \<rparr>
                in removeLocalDonation ts now d = (Inr new, push_localDonations new d) \<and>
                   getLocalDonations (snd (removeLocalDonation ts now d)) = Some new \<and>
                   (\<exists>g. d = Some g \<and>
                        snd (removeLocalDonation ts now d) =
                          Some (g \<lparr> localDonations := Some new \<rparr>)))))"
proof (intro conjI impI)
  assume "\<forall>donor\<in>set (donations cur). \<not> holds_ts ts donor"
  with assms show "removeLocalDonation ts now d = (Inl (Error ''Donation not found''), d)"
    by (rule removeLocalDonation_missing)
next
  assume "\<exists>donor\<in>set (donations cur). holds_ts ts donor"
  with assms have "\<exists>before donor after xs x ys.
           donations cur = before @ donor # after \<and>
           (\<forall>other\<in>set after. \<not> holds_ts ts other) \<and>
           individual_donations donor = xs @ x # ys \<and> timestamp x = ts \<and>
           (\<forall>y\<in>set xs. timestamp y \<noteq> ts) \<and>
           (let new = cur \<lparr>
                  donations := before @
                    (if xs @ ys = [] then []
                     else [donor \<lparr> individual_donations := xs @ ys,
                                   total_amount := js_sub (total_amount donor) (amount x),
                                   total_donations := total_donations donor - 1 \<rparr>]) @ after,
                  overall_total := \<lparr>
                    overall_amount = js_sub (overall_amount (overall_total cur)) (amount x),
                    donation_count = donation_count (overall_total cur) - 1 \<rparr>,
                  metadata_lastUpdated := now \<rparr>
            in removeLocalDonation ts now d = (Inr new, push_localDonations new d))"
    by (rule removeLocalDonation_found)
  then obtain before donor after xs x ys where
    a: "donations cur = before @ donor # after"
       "\<forall>other\<in>set after. \<not> holds_ts ts other"
       "individual_donations donor = xs @ x # ys" "timestamp x = ts"
       "\<forall>y\<in>set xs. timestamp y \<noteq> ts" and
    r: "let new = cur \<lparr>
                  donations := before @
                    (if xs @ ys = [] then []
                     else [donor \<lparr> individual_donations := xs @ ys,
                                   total_amount := js_sub (total_amount donor) (amount x),
                                   total_donations := total_donations donor - 1 \<rparr>]) @ after,
                  overall_total := \<lparr>
                    overall_amount = js_sub (overall_amount (overall_total cur)) (amount x),
                    donation_count = donation_count (overall_total cur) - 1 \<rparr>,
                  metadata_lastUpdated := now \<rparr>
            in removeLocalDonation ts now d = (Inr new, push_localDonations new d)"
    by blast
  from getLocalDonations_Some_ex[OF assms] obtain g where g: "d = Some g" ..
  define new where "new = cur \<lparr>
                  donations := before @
                    (if xs @ ys = [] then []
                     else [donor \<lparr> individual_donations := xs @ ys,
                                   total_amount := fl (total_amount donor - amount x),
                                   total_donations := total_donations donor - 1 \<rparr>]) @ after,
                  overall_total := \<lparr>
                    overall_amount = fl (overall_amount (overall_total cur) - amount x),
                    donation_count = donation_count (overall_total cur) - 1 \<rparr>,
                  metadata_lastUpdated := now \<rparr>"
  from r have eq: "removeLocalDonation ts now d = (Inr new, push_localDonations new d)"
    unfolding js_sub_def Let_def new_def .
  from eq have c1: "getLocalDonations (snd (removeLocalDonation ts now d)) = Some new"
    by (simp add: getLocalDonations_push)
  from eq g have c2: "\<exists>g. d = Some g \<and>
      snd (removeLocalDonation ts now d) = Some (g \<lparr> localDonations := Some new \<rparr>)"
    by (simp add: push_localDonations_Some)
  from eq c1 c2 have
    "let new = cur \<lparr>
                  donations := before @
                    (if xs @ ys = [] then []
                     else [donor \<lparr> individual_donations := xs @ ys,
                                   total_amount := fl (total_amount donor - amount x),
                                   total_donations := total_donations donor - 1 \<rparr>]) @ after,
                  overall_total := \<lparr>
                    overall_amount = fl (overall_amount (overall_total cur) - amount x),
                    donation_count = donation_count (overall_total cur) - 1 \<rparr>,
                  metadata_lastUpdated := now \<rparr>
            in removeLocalDonation ts now d = (Inr new, push_localDonations new d) \<and>
               getLocalDonations (snd (removeLocalDonation ts now d)) = Some new \<and>
               (\<exists>g. d = Some g \<and>
                    snd (removeLocalDonation ts now d) =
                      Some (g \<lparr> localDonations := Some new \<rparr>))"
    unfolding Let_def new_def by (intro conjI)
  with a show "\<exists>before donor after xs x ys.
               donations cur = before @ donor # after \<and>
               (\<forall>other\<in>set after. \<not> holds_ts ts other) \<and>
               individual_donations donor = xs @ x # ys \<and> timestamp x = ts \<and>
               (\<forall>y\<in>set xs. timestamp y \<noteq> ts) \<and>
               (let new = cur \<lparr>
                      donations := before @
                        (if xs @ ys = [] then []
                         else [donor \<lparr> individual_donations := xs @ ys,
                                       total_amount := fl (total_amount donor - amount x),
                                       total_donations := total_donations donor - 1 \<rparr>]) @ after,
                      overall_total := \<lparr>
                        overall_amount = fl (overall_amount (overall_total cur) - amount x),
                        donation_count = donation_count (overall_total cur) - 1 \<rparr>,
                      metadata_lastUpdated := now \<rparr>
                in removeLocalDonation ts now d = (Inr new, push_localDonations new d) \<and>
                   getLocalDonations (snd (removeLocalDonation ts now d)) = Some new \<and>
                   (\<exists>g. d = Some g \<and>
                        snd (removeLocalDonation ts now d) =
                          Some (g \<lparr> localDonations := Some new \<rparr>)))"
    by blast
qed

lemma toLowerCase_Ada: "toLowerCase ''Ada'' = ''ada''" "toLowerCase ''ada'' = ''ada''"
  "toLowerCase ''Grace'' = ''grace''"
  by (simp_all add: toLowerCase_def lower_char_def)

lemma fl_0: "fl 0 = 0" by (simp add: fl_def)

lemma r2_small: "roundToTwoDecimals (1 / 256) = 0" "roundToTwoDecimals 0 = 0"
  by (simp_all add: roundToTwoDecimals_def fl_0 floor_rat_numeral_simps)

lemma safeAdd_0_0: "safeAdd 0 0 = 0"
  by (simp add: js_eval fl_0)

lemma r2_25: "roundToTwoDecimals 25 = 25" "safeAdd 0 25 = 25"
  by (simp_all add: js_eval fl_eval)

text \<open>
  Grace holds 25.00 and 15.00, Ada 10.00: removing Grace's 25.00 leaves her 15.00 and an
  overall 25.00; removing Ada's only donation removes Ada.
\<close>

lemma fl_small_ints: "fl 15 = 15" "fl 25 = 25" "fl 40 = 40"
  by (simp_all add: fl_eval)

lemma grace2_not_found:
  "\<not> list_ex (holds_ts ''2024-03-01T12:00:00Z'') (donations grace2_ledger)"
  by (simp add: grace2_ledger_def holds_ts_def local_donation_def)

lemma grace2_found:
  "list_ex (holds_ts ''2024-03-01T12:00:00.000Z'') (donations grace2_ledger)"
  by (simp add: grace2_ledger_def holds_ts_def local_donation_def)

lemma grace2_less_25:
  "removeLocalDonation ''2024-03-01T12:00:00.000Z'' ''2024-03-01T12:01:00.000Z''
       (db_of grace2_ledger) =
     (Inr \<lparr> donations =
              [\<lparr> name = ''Grace'',
                 individual_donations = [local_donation 15 ''2024-03-01T12:00:03.000Z''],
                 total_amount = 15, total_donations = 1 \<rparr>,
               \<lparr> name = ''Ada'',
                 individual_donations = [local_donation 10 ''2024-03-01T12:00:10.000Z''],
                 total_amount = 10, total_donations = 1 \<rparr>],
            overall_total = \<lparr> overall_amount = 25, donation_count = 2 \<rparr>,
            metadata_lastUpdated = ''2024-03-01T12:01:00.000Z'' \<rparr>,
      db_of \<lparr> donations =
              [\<lparr> name = ''Grace'',
                 individual_donations = [local_donation 15 ''2024-03-01T12:00:03.000Z''],
                 total_amount = 15, total_donations = 1 \<rparr>,
               \<lparr> name = ''Ada'',
                 individual_donations = [local_donation 10 ''2024-03-01T12:00:10.000Z''],
                 total_amount = 10, total_donations = 1 \<rparr>],
            overall_total = \<lparr> overall_amount = 25, donation_count = 2 \<rparr>,
            metadata_lastUpdated = ''2024-03-01T12:01:00.000Z'' \<rparr>)"
  by (simp add: removeLocalDonation_def db_of_def grace2_ledger_def getLocalDonations_def
      push_localDonations_def local_donation_def splice1_def js_sub_def Let_def fl_small_ints)

lemma grace2_less_ada:
  "removeLocalDonation ''2024-03-01T12:00:10.000Z'' ''2024-03-01T12:01:00.000Z''
       (db_of grace2_ledger) =
     (Inr \<lparr> donations =
              [\<lparr> name = ''Grace'',
                 individual_donations = [local_donation 25 ''2024-03-01T12:00:00.000Z'',
                                         local_donation 15 ''2024-03-01T12:00:03.000Z''],
                 total_amount = 40, total_donations = 2 \<rparr>],
            overall_total = \<lparr> overall_amount = 40, donation_count = 2 \<rparr>,
            metadata_lastUpdated = ''2024-03-01T12:01:00.000Z'' \<rparr>,
      db_of \<lparr> donations =
              [\<lparr> name = ''Grace'',
                 individual_donations = [local_donation 25 ''2024-03-01T12:00:00.000Z'',
                                         local_donation 15 ''2024-03-01T12:00:03.000Z''],
                 total_amount = 40, total_donations = 2 \<rparr>],
            overall_total = \<lparr> overall_amount = 40, donation_count = 2 \<rparr>,
            metadata_lastUpdated = ''2024-03-01T12:01:00.000Z'' \<rparr>)"
  by (simp add: removeLocalDonation_def db_of_def grace2_ledger_def getLocalDonations_def
      push_localDonations_def local_donation_def splice1_def js_sub_def Let_def fl_small_ints)

text \<open>
  The theorem at this ledger: a timestamp nobody holds (the same instant in another
  spelling), and the timestamp of Grace's first donation.
\<close>

theorem removeLocalDonation_spec_witness:
  "getLocalDonations (db_of grace2_ledger) = Some grace2_ledger \<and>
   \<not> list_ex (holds_ts ''2024-03-01T12:00:00Z'') (donations grace2_ledger) \<and>
   removeLocalDonation ''2024-03-01T12:00:00Z'' ''2024-03-01T12:01:00.000Z''
       (db_of grace2_ledger) =
     (Inl (Error ''Donation not found''), db_of grace2_ledger) \<and>
   list_ex (holds_ts ''2024-03-01T12:00:00.000Z'') (donations grace2_ledger) \<and>
   (\<exists>before donor after xs x ys.
      donations grace2_ledger = before @ donor # after \<and>
      \<not> list_ex (holds_ts ''2024-03-01T12:00:00.000Z'') after \<and>
      individual_donations donor = xs @ x # ys \<and>
      timestamp x = ''2024-03-01T12:00:00.000Z'' \<and>
      \<not> list_ex (\<lambda>y. timestamp y = ''2024-03-01T12:00:00.000Z'') xs \<and>
      removeLocalDonation ''2024-03-01T12:00:00.000Z'' ''2024-03-01T12:01:00.000Z''
          (db_of grace2_ledger) =
        (Inr (grace2_ledger \<lparr>
                donations := before @
                  (if xs @ ys = [] then []
                   else [donor \<lparr> individual_donations := xs @ ys,
                                 total_amount := fl (total_amount donor - amount x),
                                 total_donations := total_donations donor - 1 \<rparr>]) @ after,
                overall_total := \<lparr>
                  overall_amount =
                    fl (overall_amount (overall_total grace2_ledger) - amount x),
                  donation_count = donation_count (overall_total grace2_ledger) - 1 \<rparr>,
                metadata_lastUpdated := ''2024-03-01T12:01:00.000Z'' \<rparr>),
         snd (removeLocalDonation ''2024-03-01T12:00:00.000Z'' ''2024-03-01T12:01:00.000Z''
                (db_of grace2_ledger)))) \<and>
   removeLocalDonation ''2024-03-01T12:00:00.000Z'' ''2024-03-01T12:01:00.000Z''
       (db_of grace2_ledger) =
     (Inr \<lparr> donations =
              [\<lparr> name = ''Grace'',
                 individual_donations = [local_donation 15 ''2024-03-01T12:00:03.000Z''],
                 total_amount = 15, total_donations = 1 \<rparr>,
               \<lparr> name = ''Ada'',
                 individual_donations = [local_donation 10 ''2024-03-01T12:00:10.000Z''],
                 total_amount = 10, total_donations = 1 \<rparr>],
            overall_total = \<lparr> overall_amount = 25, donation_count = 2 \<rparr>,
            metadata_lastUpdated = ''2024-03-01T12:01:00.000Z'' \<rparr>,
      db_of \<lparr> donations =
              [\<lparr> name = ''Grace'',
                 individual_donations = [local_donation 15 ''2024-03-01T12:00:03.000Z''],
                 total_amount = 15, total_donations = 1 \<rparr>,
               \<lparr> name = ''Ada'',
                 individual_donations = [local_donation 10 ''2024-03-01T12:00:10.000Z''],
                 total_amount = 10, total_donations = 1 \<rparr>],
            overall_total = \<lparr> overall_amount = 25, donation_count = 2 \<rparr>,
            metadata_lastUpdated = ''2024-03-01T12:01:00.000Z'' \<rparr>) \<and>
   getLocalDonations
       (snd (removeLocalDonation ''2024-03-01T12:00:00.000Z'' ''2024-03-01T12:01:00.000Z''
               (db_of grace2_ledger))) =
     Some \<lparr> donations =
              [\<lparr> name = ''Grace'',
                 individual_donations = [local_donation 15 ''2024-03-01T12:00:03.000Z''],
                 total_amount = 15, total_donations = 1 \<rparr>,
               \<lparr> name = ''Ada'',
                 individual_donations = [local_donation 10 ''2024-03-01T12:00:10.000Z''],
                 total_amount = 10, total_donations = 1 \<rparr>],
            overall_total = \<lparr> overall_amount = 25, donation_count = 2 \<rparr>,
            metadata_lastUpdated = ''2024-03-01T12:01:00.000Z'' \<rparr> \<and>
   removeLocalDonation ''2024-03-01T12:00:10.000Z'' ''2024-03-01T12:01:00.000Z''
       (db_of grace2_ledger) =
     (Inr \<lparr> donations =
              [\<lparr> name = ''Grace'',
                 individual_donations = [local_donation 25 ''2024-03-01T12:00:00.000Z'',
                                         local_donation 15 ''2024-03-01T12:00:03.000Z''],
                 total_amount = 40, total_donations = 2 \<rparr>],
            overall_total = \<lparr> overall_amount = 40, donation_count = 2 \<rparr>,
            metadata_lastUpdated = ''2024-03-01T12:01:00.000Z'' \<rparr>,
      db_of \<lparr> donations =
              [\<lparr> name = ''Grace'',
                 individual_donations = [local_donation 25 ''2024-03-01T12:00:00.000Z'',
                                         local_donation 15 ''2024-03-01T12:00:03.000Z''],
                 total_amount = 40, total_donations = 2 \<rparr>],
            overall_total = \<lparr> overall_amount = 40, donation_count = 2 \<rparr>,
            metadata_lastUpdated = ''2024-03-01T12:01:00.000Z'' \<rparr>)"
proof -
  have h: "getLocalDonations (db_of grace2_ledger) = Some grace2_ledger"
    by (simp add: db_of_def getLocalDonations_def)
  note nf = grace2_not_found
  note fd = grace2_found
  from nf have a: "\<forall>donor\<in>set (donations grace2_ledger).
      \<not> holds_ts ''2024-03-01T12:00:00Z'' donor"
    unfolding list_ex_iff by blast
  from fd have b: "\<exists>donor\<in>set (donations grace2_ledger).
      holds_ts ''2024-03-01T12:00:00.000Z'' donor"
    unfolding list_ex_iff by blast
  from removeLocalDonation_spec[OF h, of "''2024-03-01T12:00:00Z''"
      "''2024-03-01T12:01:00.000Z''"] a
  have c1: "removeLocalDonation ''2024-03-01T12:00:00Z'' ''2024-03-01T12:01:00.000Z''
       (db_of grace2_ledger) = (Inl (Error ''Donation not found''), db_of grace2_ledger)"
    by blast
  from removeLocalDonation_spec[OF h, of "''2024-03-01T12:00:00.000Z''"
      "''2024-03-01T12:01:00.000Z''"] b
  have c2: "\<exists>before donor after xs x ys.
      donations grace2_ledger = before @ donor # after \<and>
      \<not> list_ex (holds_ts ''2024-03-01T12:00:00.000Z'') after \<and>
      individual_donations donor = xs @ x # ys \<and>
      timestamp x = ''2024-03-01T12:00:00.000Z'' \<and>
      \<not> list_ex (\<lambda>y. timestamp y = ''2024-03-01T12:00:00.000Z'') xs \<and>
      removeLocalDonation ''2024-03-01T12:00:00.000Z'' ''2024-03-01T12:01:00.000Z''
          (db_of grace2_ledger) =
        (Inr (grace2_ledger \<lparr>
                donations := before @
                  (if xs @ ys = [] then []
                   else [donor \<lparr> individual_donations := xs @ ys,
                                 total_amount := fl (total_amount donor - amount x),
                                 total_donations := total_donations donor - 1 \<rparr>]) @ after,
                overall_total := \<lparr>
                  overall_amount =
                    fl (overall_amount (overall_total grace2_ledger) - amount x),
                  donation_count = donation_count (overall_total grace2_ledger) - 1 \<rparr>,
                metadata_lastUpdated := ''2024-03-01T12:01:00.000Z'' \<rparr>),
         snd (removeLocalDonation ''2024-03-01T12:00:00.000Z'' ''2024-03-01T12:01:00.000Z''
                (db_of grace2_ledger)))"
    unfolding list_ex_iff Let_def by (metis snd_conv)
  have c3: "getLocalDonations
       (snd (removeLocalDonation ''2024-03-01T12:00:00.000Z'' ''2024-03-01T12:01:00.000Z''
               (db_of grace2_ledger))) =
     Some \<lparr> donations =
              [\<lparr> name = ''Grace'',
                 individual_donations = [local_donation 15 ''2024-03-01T12:00:03.000Z''],
                 total_amount = 15, total_donations = 1 \<rparr>,
               \<lparr> name = ''Ada'',
                 individual_donations = [local_donation 10 ''2024-03-01T12:00:10.000Z''],
                 total_amount = 10, total_donations = 1 \<rparr>],
            overall_total = \<lparr> overall_amount = 25, donation_count = 2 \<rparr>,
            metadata_lastUpdated = ''2024-03-01T12:01:00.000Z'' \<rparr>"
    unfolding grace2_less_25 by (simp add: db_of_def getLocalDonations_def)
  from h nf c1 fd c2 grace2_less_25 c3 grace2_less_ada show ?thesis by (intro conjI)
qed

section \<open>The local ledger: operations on a store without a ledger\<close>

text \<open>
  Claim C10.  When the store holds no local ledger, \<^verbatim>\<open>updateLocalDonation\<close> with a
  positive amount starts from a fresh empty ledger and records the donation: the store
  then holds a ledger with the donation as the single entry of a single donor, in the
  document that was there or in a new one.  \<^verbatim>\<open>removeLocalDonation\<close> and
  \<^verbatim>\<open>resetUserDonations\<close> fail with ``No local donation data found'' and leave the
  store as it was.
\<close>

theorem absent_ledger_operations:
  assumes "getLocalDonations d = None" and "0 < a"
  shows "(let nd = \<lparr> amount = roundToTwoDecimals a, timestamp = now,
                       donationType = Some Local, subTier = None \<rparr>;
              new = \<lparr> donations =
                          [\<lparr> name = n, individual_donations = [nd],
                             total_amount = safeAdd 0 (amount nd), total_donations = 1 \<rparr>],
                        overall_total =
                          \<lparr> overall_amount = safeAdd 0 (amount nd), donation_count = 1 \<rparr>,
                        metadata_lastUpdated = now' \<rparr>
          in updateLocalDonation parse n a now now' d =
               (Inr (Some new), push_localDonations new d) \<and>
             getLocalDonations (snd (updateLocalDonation parse n a now now' d)) = Some new \<and>
             snd (updateLocalDonation parse n a now now' d) =
               Some ((case d of None \<Rightarrow> empty_goal | Some g \<Rightarrow> g)
                       \<lparr> localDonations := Some new \<rparr>)) \<and>
         removeLocalDonation ts now d = (Inl (Error ''No local donation data found''), d) \<and>
         resetUserDonations u now d = (Inl (Error ''No local donation data found''), d)"
proof -
  define new where "new =
     \<lparr> donations =
         [\<lparr> name = n,
            individual_donations =
              [\<lparr> amount = roundToTwoDecimals a, timestamp = now,
                 donationType = Some Local, subTier = None \<rparr>],
            total_amount = safeAdd 0 (roundToTwoDecimals a), total_donations = 1 \<rparr>],
       overall_total =
         \<lparr> overall_amount = safeAdd 0 (roundToTwoDecimals a), donation_count = 1 \<rparr>,
       metadata_lastUpdated = now' \<rparr>"
  from assms have eq: "updateLocalDonation parse n a now now' d =
      (Inr (Some new), push_localDonations new d)"
    by (simp add: updateLocalDonation_def isDuplicate_def emptyLocalData_def addToDonor_def
        Let_def new_def)
  from eq have c1: "getLocalDonations (snd (updateLocalDonation parse n a now now' d)) = Some new"
    by (simp add: getLocalDonations_push)
  from eq have c2: "snd (updateLocalDonation parse n a now now' d) =
      Some ((case d of None \<Rightarrow> empty_goal | Some g \<Rightarrow> g) \<lparr> localDonations := Some new \<rparr>)"
    by (simp add: push_localDonations_def)
  from assms(1) have c3: "removeLocalDonation ts now d =
      (Inl (Error ''No local donation data found''), d)"
    by (simp add: removeLocalDonation_def)
  from assms(1) have c4: "resetUserDonations u now d =
      (Inl (Error ''No local donation data found''), d)"
    by (simp add: resetUserDonations_def)
  from eq c1 c2 c3 c4 show ?thesis
    unfolding Let_def new_def by simp
qed

lemma r2_third_decimal: "roundToTwoDecimals (201 / 8) = cents 2513"
  by (simp add: roundToTwoDecimals_def cents_def floor_rat_numeral_simps)

lemma safeAdd_0_2513: "safeAdd 0 (cents 2513) = cents 2513"
  using safeAdd_cents_exact[of 0 2513] by (simp add: cents_zero)

text \<open>
  The three operations on the empty store, with a donation of 25.125, which is recorded
  as 25.13.
\<close>

theorem absent_ledger_operations_witness:
  "getLocalDonations None = None \<and> (0 :: rat) < 201 / 8 \<and>
   updateLocalDonation sample_parse ''Ada'' (201 / 8) ''2024-03-01T12:00:00.000Z''
       ''2024-03-01T12:00:00.000Z'' None =
     (Inr (Some \<lparr> donations =
                   [\<lparr> name = ''Ada'',
                      individual_donations =
                        [\<lparr> amount = cents 2513, timestamp = ''2024-03-01T12:00:00.000Z'',
                           donationType = Some Local, subTier = None \<rparr>],
                      total_amount = cents 2513, total_donations = 1 \<rparr>],
                 overall_total = \<lparr> overall_amount = cents 2513, donation_count = 1 \<rparr>,
                 metadata_lastUpdated = ''2024-03-01T12:00:00.000Z'' \<rparr>),
      Some (empty_goal \<lparr> localDonations := Some
              \<lparr> donations =
                   [\<lparr> name = ''Ada'',
                      individual_donations =
                        [\<lparr> amount = cents 2513, timestamp = ''2024-03-01T12:00:00.000Z'',
                           donationType = Some Local, subTier = None \<rparr>],
                      total_amount = cents 2513, total_donations = 1 \<rparr>],
                 overall_total = \<lparr> overall_amount = cents 2513, donation_count = 1 \<rparr>,
                 metadata_lastUpdated = ''2024-03-01T12:00:00.000Z'' \<rparr> \<rparr>)) \<and>
   getLocalDonations
       (snd (updateLocalDonation sample_parse ''Ada'' (201 / 8) ''2024-03-01T12:00:00.000Z''
               ''2024-03-01T12:00:00.000Z'' None)) =
     Some \<lparr> donations =
             [\<lparr> name = ''Ada'',
                individual_donations =
                  [\<lparr> amount = cents 2513, timestamp = ''2024-03-01T12:00:00.000Z'',
                     donationType = Some Local, subTier = None \<rparr>],
                total_amount = cents 2513, total_donations = 1 \<rparr>],
           overall_total = \<lparr> overall_amount = cents 2513, donation_count = 1 \<rparr>,
           metadata_lastUpdated = ''2024-03-01T12:00:00.000Z'' \<rparr> \<and>
   removeLocalDonation ''2024-03-01T12:00:00.000Z'' ''2024-03-01T12:00:00.000Z'' None =
     (Inl (Error ''No local donation data found''), None) \<and>
   getLocalDonations
       (snd (removeLocalDonation ''2024-03-01T12:00:00.000Z'' ''2024-03-01T12:00:00.000Z''
               None)) = None \<and>
   resetUserDonations ''Ada'' ''2024-03-01T12:00:00.000Z'' None =
     (Inl (Error ''No local donation data found''), None) \<and>
   getLocalDonations (snd (resetUserDonations ''Ada'' ''2024-03-01T12:00:00.000Z'' None)) = None"
proof -
  have h: "getLocalDonations None = None" by (simp add: getLocalDonations_def)
  have p: "(0 :: rat) < 201 / 8" by simp
  note t = absent_ledger_operations[OF h p, where parse = sample_parse and n = "''Ada''"
      and now = "''2024-03-01T12:00:00.000Z''" and now' = "''2024-03-01T12:00:00.000Z''"
      and ts = "''2024-03-01T12:00:00.000Z''" and u = "''Ada''"]
  note t' = t[unfolded Let_def push_localDonations_def, simplified,
      unfolded r2_third_decimal safeAdd_0_2513]
  note u = t'[THEN conjunct1]
  note r = t'[THEN conjunct2, THEN conjunct2, THEN conjunct2, THEN conjunct1]
  note s = t'[THEN conjunct2, THEN conjunct2, THEN conjunct2, THEN conjunct2]
  have g1: "getLocalDonations
       (snd (removeLocalDonation ''2024-03-01T12:00:00.000Z'' ''2024-03-01T12:00:00.000Z''
               None)) = None"
    unfolding r by (simp add: getLocalDonations_def)
  have g2: "getLocalDonations
       (snd (resetUserDonations ''Ada'' ''2024-03-01T12:00:00.000Z'' None)) = None"
    unfolding s by (simp add: getLocalDonations_def)
  from h p u t'[THEN conjunct2, THEN conjunct1] r g1 s g2 show ?thesis by (intro conjI)
qed


section \<open>The local ledger: duplicate submissions\<close>

lemma addToDonor_name [simp]: "name (addToDonor nd donor) = name donor"
  by (simp add: addToDonor_def)

lemma sameName_addToDonor [simp]: "sameName n (addToDonor nd donor) = sameName n donor"
  by (simp add: sameName_def)

lemma duplicate_is_noop:
  assumes "0 < a" and "getLocalDonations d = Some cur"
    and "donor \<in> set (donations cur)" and "toLowerCase (name donor) = toLowerCase n"
    and "x \<in> set (individual_donations donor)" and "amount x = roundToTwoDecimals a"
    and "parse (timestamp x) = Some t" and "parse now = Some t'" and "\<bar>t - t'\<bar> < 5000"
  shows "updateLocalDonation parse n a now now' d = (Inr None, d)"
proof -
  have "isDuplicate parse n
          \<lparr> amount = roundToTwoDecimals a, timestamp = now,
            donationType = Some Local, subTier = None \<rparr> cur"
    using assms(3-9)
    by (auto simp: isDuplicate_def list_ex_iff sameName_def timeDiff_less_def
        intro!: bexI[of _ donor] bexI[of _ x])
  with assms(1,2) show ?thesis by (simp add: updateLocalDonation_def Let_def)
qed

lemma stored_after_accept:
  assumes "updateLocalDonation parse n a now now' d = (Inr (Some new), d')"
  shows "d' = push_localDonations new d \<and>
         mset (stored_donations d') =
           add_mset (local_donation (roundToTwoDecimals a) now) (mset (stored_donations d)) \<and>
         (\<exists>donor\<in>set (donations new). sameName n donor \<and>
            local_donation (roundToTwoDecimals a) now \<in> set (individual_donations donor))"
proof -
  let ?cur = "case getLocalDonations d of Some c \<Rightarrow> c | None \<Rightarrow> emptyLocalData now"
  let ?nd = "local_donation (roundToTwoDecimals a) now"
  have st: "stored_donations d = concat (map individual_donations (donations ?cur))"
    by (simp add: stored_donations_def emptyLocalData_def split: option.splits)
  from assms have pos: "0 < a" and nodup: "\<not> isDuplicate parse n ?nd ?cur"
    by (auto simp: updateLocalDonation_def Let_def local_donation_def split: if_splits)
  show ?thesis
  proof (cases "findIndex (sameName n) (donations ?cur)")
    case None
    with assms pos nodup have new: "new = ?cur \<lparr>
        donations := donations ?cur @ [addToDonor ?nd
            \<lparr> name = n, individual_donations = [], total_amount = 0, total_donations = 0 \<rparr>],
        overall_total := \<lparr>
          overall_amount = safeAdd (overall_amount (overall_total ?cur)) (amount ?nd),
          donation_count = donation_count (overall_total ?cur) + 1 \<rparr>,
        metadata_lastUpdated := now' \<rparr>" and d': "d' = push_localDonations new d"
      by (auto simp: updateLocalDonation_def Let_def local_donation_def)
    have "stored_donations d' = concat (map individual_donations (donations new))"
      by (simp add: d' stored_donations_def push_localDonations_def getLocalDonations_def)
    with new st d' show ?thesis
      by (simp add: addToDonor_def sameName_def)
  next
    case (Some i)
    from findIndex_Some[OF Some] obtain ys x zs where
      ds: "donations ?cur = ys @ x # zs" and x: "sameName n x" and i: "i = length ys" by blast
    with assms pos nodup Some have new: "new = ?cur \<lparr>
        donations := ys @ addToDonor ?nd x # zs,
        overall_total := \<lparr>
          overall_amount = safeAdd (overall_amount (overall_total ?cur)) (amount ?nd),
          donation_count = donation_count (overall_total ?cur) + 1 \<rparr>,
        metadata_lastUpdated := now' \<rparr>" and d': "d' = push_localDonations new d"
      by (auto simp: updateLocalDonation_def Let_def local_donation_def)
    have "stored_donations d' = concat (map individual_donations (donations new))"
      by (simp add: d' stored_donations_def push_localDonations_def getLocalDonations_def)
    with new st d' ds x show ?thesis
      by (simp add: addToDonor_def sameName_def)
  qed
qed

section \<open>The local ledger: the invariant of the totals\<close>

lemma cents_values:
  "cents 10 = 3602879701896397 / 36028797018963968"
  "cents 20 = 3602879701896397 / 18014398509481984"
  "cents 30 = 5404319552844595 / 18014398509481984"
  by (simp_all add: cents_def fl_eval)

lemma r2_cents:
  "roundToTwoDecimals (cents 10) = cents 10"
  "roundToTwoDecimals (cents 20) = cents 20"
  by (simp_all add: cents_values roundToTwoDecimals_def floor_rat_numeral_simps)
     (simp_all add: fl_eval)

lemma safeAdd_cents:
  "safeAdd 0 (cents 10) = cents 10"
  "safeAdd 0 (cents 20) = cents 20"
  "safeAdd 0 (cents 30) = cents 30"
  "safeAdd (cents 10) (cents 20) = cents 30"
  by (simp_all add: cents_values js_eval fl_eval)

lemma js_sub_cents:
  "js_sub (cents 30) (cents 10) = 7205759403792793 / 36028797018963968"
  by (simp add: cents_values js_sub_def fl_eval)

lemma cents_distinct: "cents 10 \<noteq> cents 20" "cents 20 \<noteq> cents 10"
  by (simp_all add: cents_values)

lemma cents_20_neq: "(7205759403792793 / 36028797018963968 :: rat) \<noteq> cents 20"
  by (simp add: cents_values)

text \<open>
  Claim C2.  Ada gives 0.10 and then 0.20: the ledger is consistent, her total is 0.30.
  Removing the donation of 0.10 computes \<^verbatim>\<open>0.3 - 0.1\<close> without rounding, so her total
  (and the overall total) becomes 0.19999999999999998 while her one remaining donation is
  0.20: after this mutation the total is not the sum of the donations.
\<close>

theorem removal_breaks_donor_total:
  "updateLocalDonation sample_parse ''Ada'' (cents 10) ''2024-03-01T12:00:00.000Z''
       ''2024-03-01T12:00:00.000Z'' None = (Inr (Some ada_ledger1), db_of ada_ledger1) \<and>
   updateLocalDonation sample_parse ''Ada'' (cents 20) ''2024-03-01T12:00:10.000Z''
       ''2024-03-01T12:00:10.000Z'' (db_of ada_ledger1) = (Inr (Some ada_ledger), db_of ada_ledger) \<and>
   ledger_consistent ada_ledger \<and>
   removeLocalDonation ''2024-03-01T12:00:00.000Z'' ''2024-03-01T12:00:10.000Z'' (db_of ada_ledger)
     = (Inr ada_ledger', db_of ada_ledger') \<and>
   \<not> ledger_consistent ada_ledger' \<and>
   map (\<lambda>donor. (total_amount donor, sum_list (map amount (individual_donations donor))))
       (donations ada_ledger') =
     [(7205759403792793 / 36028797018963968, 3602879701896397 / 18014398509481984)]"
proof -
  have pos: "0 < cents 10" "0 < cents 20" by (simp_all add: cents_values)
  have a: "updateLocalDonation sample_parse ''Ada'' (cents 10) ''2024-03-01T12:00:00.000Z''
       ''2024-03-01T12:00:00.000Z'' None = (Inr (Some ada_ledger1), db_of ada_ledger1)"
    using pos
    by (simp add: updateLocalDonation_def getLocalDonations_def emptyLocalData_def isDuplicate_def
        Let_def addToDonor_def r2_cents safeAdd_cents ada_ledger1_def db_of_def
        push_localDonations_def local_donation_def)
  have b: "updateLocalDonation sample_parse ''Ada'' (cents 20) ''2024-03-01T12:00:10.000Z''
       ''2024-03-01T12:00:10.000Z'' (db_of ada_ledger1) = (Inr (Some ada_ledger), db_of ada_ledger)"
    using pos
    by (simp add: updateLocalDonation_def getLocalDonations_def isDuplicate_def sameName_def
        Let_def addToDonor_def r2_cents safeAdd_cents ada_ledger1_def ada_ledger_def db_of_def
        push_localDonations_def local_donation_def timeDiff_less_def sample_parse_def
        cents_distinct)
  have c: "ledger_consistent ada_ledger"
    by (simp add: ledger_consistent_def donor_consistent_def ada_ledger_def sumAmounts_def
        local_donation_def safeAdd_cents)
  have d: "removeLocalDonation ''2024-03-01T12:00:00.000Z'' ''2024-03-01T12:00:10.000Z''
      (db_of ada_ledger) = (Inr ada_ledger', db_of ada_ledger')"
    by (simp add: removeLocalDonation_def getLocalDonations_def db_of_def ada_ledger_def
        ada_ledger'_def local_donation_def splice1_def Let_def js_sub_cents
        push_localDonations_def)
  have e: "\<not> ledger_consistent ada_ledger'"
    using cents_20_neq
    by (simp add: ledger_consistent_def donor_consistent_def ada_ledger'_def sumAmounts_def
        local_donation_def safeAdd_cents)
  have f: "map (\<lambda>donor. (total_amount donor, sum_list (map amount (individual_donations donor))))
       (donations ada_ledger') =
     [(7205759403792793 / 36028797018963968, 3602879701896397 / 18014398509481984)]"
    by (simp add: ada_ledger'_def local_donation_def cents_values)
  from a b c d e f show ?thesis by blast
qed

section \<open>The local ledger: duplicate submissions, continued\<close>

text \<open>
  A donation of 1/256 is stored with the rounded amount 0.  Three seconds later a
  submission with amount 0 for the same donor meets the duplicate condition, and yet the
  call does not return \<^verbatim>\<open>null\<close>: the guard on the amount comes first and throws.
\<close>

theorem duplicate_of_zero_amount_counterexample:
  "updateLocalDonation sample_parse ''Ada'' (1 / 256) ''2024-03-01T12:00:00.000Z''
       ''2024-03-01T12:00:00.000Z'' None = (Inr (Some zero_ledger), db_of zero_ledger) \<and>
   getLocalDonations (db_of zero_ledger) = Some zero_ledger \<and>
   isDuplicate sample_parse ''Ada''
     (local_donation (roundToTwoDecimals 0) ''2024-03-01T12:00:03.000Z'') zero_ledger \<and>
   updateLocalDonation sample_parse ''Ada'' 0 ''2024-03-01T12:00:03.000Z''
       ''2024-03-01T12:00:03.000Z'' (db_of zero_ledger) \<noteq> (Inr None, db_of zero_ledger)"
  by (simp add: updateLocalDonation_def getLocalDonations_def emptyLocalData_def isDuplicate_def
      Let_def addToDonor_def r2_small safeAdd_0_0 zero_ledger_def db_of_def sameName_def
      push_localDonations_def local_donation_def timeDiff_less_def sample_parse_def)

text \<open>
  Claim C3, amended.  For a positive amount: when a donor with the same case-insensitive
  name holds a donation with the same rounded amount whose timestamp is less than 5000 ms
  from the current time, \<^verbatim>\<open>updateLocalDonation\<close> returns \<^verbatim>\<open>null\<close> and leaves
  the store as it was.  Hence, when a submission has been stored, the same name and amount
  submitted again less than 5000 ms later is not stored: the two submissions store exactly
  one donation.
\<close>

theorem duplicate_submission_suppressed:
  assumes "0 < a"
  shows "(\<forall>cur donor x t t'.
            getLocalDonations d = Some cur \<and> donor \<in> set (donations cur) \<and>
            toLowerCase (name donor) = toLowerCase n \<and>
            x \<in> set (individual_donations donor) \<and> amount x = roundToTwoDecimals a \<and>
            parse (timestamp x) = Some t \<and> parse now = Some t' \<and> \<bar>t - t'\<bar> < 5000
            \<longrightarrow> updateLocalDonation parse n a now now' d = (Inr None, d)) \<and>
         (\<forall>new d1 later later' u1 u2.
            updateLocalDonation parse n a now now' d = (Inr (Some new), d1) \<and>
            parse now = Some u1 \<and> parse later = Some u2 \<and> \<bar>u1 - u2\<bar> < 5000
            \<longrightarrow> mset (stored_donations d1) =
                  add_mset (local_donation (roundToTwoDecimals a) now) (mset (stored_donations d)) \<and>
                updateLocalDonation parse n a later later' d1 = (Inr None, d1))"
proof (intro conjI allI impI)
  fix cur donor x t t'
  assume "getLocalDonations d = Some cur \<and> donor \<in> set (donations cur) \<and>
            toLowerCase (name donor) = toLowerCase n \<and>
            x \<in> set (individual_donations donor) \<and> amount x = roundToTwoDecimals a \<and>
            parse (timestamp x) = Some t \<and> parse now = Some t' \<and> \<bar>t - t'\<bar> < 5000"
  with assms show "updateLocalDonation parse n a now now' d = (Inr None, d)"
    using duplicate_is_noop by blast
next
  fix new d1 later later' u1 u2
  assume A: "updateLocalDonation parse n a now now' d = (Inr (Some new), d1) \<and>
            parse now = Some u1 \<and> parse later = Some u2 \<and> \<bar>u1 - u2\<bar> < 5000"
  from stored_after_accept[of parse n a now now' d new d1] A
  show "mset (stored_donations d1) =
          add_mset (local_donation (roundToTwoDecimals a) now) (mset (stored_donations d))"
    by blast
next
  fix new d1 later later' u1 u2
  assume A: "updateLocalDonation parse n a now now' d = (Inr (Some new), d1) \<and>
            parse now = Some u1 \<and> parse later = Some u2 \<and> \<bar>u1 - u2\<bar> < 5000"
  from stored_after_accept[of parse n a now now' d new d1] A obtain donor where
    d1: "d1 = push_localDonations new d" and donor: "donor \<in> set (donations new)"
    "sameName n donor"
    "local_donation (roundToTwoDecimals a) now \<in> set (individual_donations donor)"
    by blast
  have g: "getLocalDonations d1 = Some new"
    by (simp add: d1 push_localDonations_def getLocalDonations_def)
  show "updateLocalDonation parse n a later later' d1 = (Inr None, d1)"
    using duplicate_is_noop[OF assms g donor(1) _ donor(3), where parse = parse and t = u1
        and now = later and t' = u2 and now' = later' and n = n] donor(2) A
    by (simp add: sameName_def local_donation_def)
qed

text \<open>
  The theorem at Grace's ledger (a second 25.00 for ``GRACE'' three seconds after the
  first) and at the empty store (Ada's 25.00 submitted twice, three seconds apart).
\<close>

theorem duplicate_submission_suppressed_witness:
  "(0 :: rat) < 25 \<and>
   getLocalDonations grace_db = Some grace_ledger \<and>
   hd (donations grace_ledger) \<in> set (donations grace_ledger) \<and>
   toLowerCase (name (hd (donations grace_ledger))) = toLowerCase ''GRACE'' \<and>
   local_donation 25 ''2024-03-01T12:00:00.000Z''
     \<in> set (individual_donations (hd (donations grace_ledger))) \<and>
   amount (local_donation 25 ''2024-03-01T12:00:00.000Z'') = roundToTwoDecimals 25 \<and>
   sample_parse (timestamp (local_donation 25 ''2024-03-01T12:00:00.000Z'')) = Some 1709294400000 \<and>
   sample_parse ''2024-03-01T12:00:03.000Z'' = Some 1709294403000 \<and>
   \<bar>1709294400000 - 1709294403000 :: int\<bar> < 5000 \<and>
   updateLocalDonation sample_parse ''GRACE'' 25 ''2024-03-01T12:00:03.000Z''
     ''2024-03-01T12:00:03.000Z'' grace_db = (Inr None, grace_db) \<and>
   updateLocalDonation sample_parse ''Ada'' 25 ''2024-03-01T12:00:00.000Z''
     ''2024-03-01T12:00:00.000Z'' None = (Inr (Some ada25_ledger), db_of ada25_ledger) \<and>
   mset (stored_donations (db_of ada25_ledger)) =
     add_mset (local_donation (roundToTwoDecimals 25) ''2024-03-01T12:00:00.000Z'')
       (mset (stored_donations None)) \<and>
   updateLocalDonation sample_parse ''Ada'' 25 ''2024-03-01T12:00:03.000Z''
     ''2024-03-01T12:00:03.000Z'' (db_of ada25_ledger) = (Inr None, db_of ada25_ledger)"
proof -
  have p: "(0 :: rat) < 25" by simp
  have h1: "getLocalDonations grace_db = Some grace_ledger \<and>
   hd (donations grace_ledger) \<in> set (donations grace_ledger) \<and>
   toLowerCase (name (hd (donations grace_ledger))) = toLowerCase ''GRACE'' \<and>
   local_donation 25 ''2024-03-01T12:00:00.000Z''
     \<in> set (individual_donations (hd (donations grace_ledger))) \<and>
   amount (local_donation 25 ''2024-03-01T12:00:00.000Z'') = roundToTwoDecimals 25 \<and>
   sample_parse (timestamp (local_donation 25 ''2024-03-01T12:00:00.000Z'')) = Some 1709294400000 \<and>
   sample_parse ''2024-03-01T12:00:03.000Z'' = Some 1709294403000 \<and>
   \<bar>1709294400000 - 1709294403000 :: int\<bar> < 5000"
    by (simp add: grace_db_def getLocalDonations_def grace_ledger_def local_donation_def
        toLowerCase_def lower_char_def r2_25 sample_parse_def)
  have h2: "updateLocalDonation sample_parse ''Ada'' 25 ''2024-03-01T12:00:00.000Z''
     ''2024-03-01T12:00:00.000Z'' None = (Inr (Some ada25_ledger), db_of ada25_ledger) \<and>
     sample_parse ''2024-03-01T12:00:00.000Z'' = Some 1709294400000 \<and>
     sample_parse ''2024-03-01T12:00:03.000Z'' = Some 1709294403000 \<and>
     \<bar>1709294400000 - 1709294403000 :: int\<bar> < 5000"
    by (simp add: updateLocalDonation_def getLocalDonations_def emptyLocalData_def isDuplicate_def
        Let_def addToDonor_def r2_25 ada25_ledger_def db_of_def
        push_localDonations_def local_donation_def sample_parse_def)
  from duplicate_submission_suppressed[OF p, of grace_db "''GRACE''" sample_parse
      "''2024-03-01T12:00:03.000Z''" "''2024-03-01T12:00:03.000Z''"] h1
  have c1: "updateLocalDonation sample_parse ''GRACE'' 25 ''2024-03-01T12:00:03.000Z''
     ''2024-03-01T12:00:03.000Z'' grace_db = (Inr None, grace_db)"
    by blast
  from duplicate_submission_suppressed[OF p, of None "''Ada''" sample_parse
      "''2024-03-01T12:00:00.000Z''" "''2024-03-01T12:00:00.000Z''"] h2
  have c2: "mset (stored_donations (db_of ada25_ledger)) =
     add_mset (local_donation (roundToTwoDecimals 25) ''2024-03-01T12:00:00.000Z'')
       (mset (stored_donations None)) \<and>
   updateLocalDonation sample_parse ''Ada'' 25 ''2024-03-01T12:00:03.000Z''
     ''2024-03-01T12:00:03.000Z'' (db_of ada25_ledger) = (Inr None, db_of ada25_ledger)"
    by blast
  from p h1 h2 c1 c2 show ?thesis by blast
qed


section \<open>The merge engine: unchanged data is not written\<close>

text \<open>A value compares equal to itself without the identity test on objects and arrays.\<close>

lemma isEqual_same: "isEqual parse a a"
proof (induction a)
  case (JArr xs)
  have "isEqual parse (xs ! i) (xs ! i)" if "i < length xs" for i
    using that by (intro JArr.IH) simp
  then show ?case
    by (subst isEqual.simps) (simp add: strict_eq_def list_all_length)
next
  case (JObj kvs)
  have "isEqual parse (get_prop (JObj kvs) k) (get_prop (JObj kvs) k)"
    if "k \<in> set (map fst kvs)" for k
  proof -
    from that have "map_of kvs k \<noteq> None" by (simp add: map_of_eq_None_iff)
    then obtain v where v: "map_of kvs k = Some v" by auto
    then have "(k, v) \<in> set kvs" by (rule map_of_SomeD)
    then have "isEqual parse v v" using JObj.IH[of "(k, v)" v] by simp
    with v show ?thesis by simp
  qed
  then show ?case
    by (subst isEqual.simps) (simp add: strict_eq_def list_all_iff)
qed (subst isEqual.simps, simp add: strict_eq_def)+

lemma deep_equal_isEqual:
  assumes empty: "parse [] = None"
  shows "wf_json a \<Longrightarrow> wf_json b \<Longrightarrow> deep_equal parse a b \<Longrightarrow> isEqual parse a b"
proof (induction a arbitrary: b)
  case JUndefined
  then have "b = JUndefined" by auto
  then show ?case by (subst isEqual.simps) (simp add: strict_eq_def)
next
  case JNull
  then have "b = JNull" by auto
  then show ?case by (subst isEqual.simps) (simp add: strict_eq_def)
next
  case (JBool x)
  then have "b = JBool x" by auto
  then show ?case by (subst isEqual.simps) (simp add: strict_eq_def)
next
  case (JNum x)
  then have "b = JNum x" by auto
  then show ?case by (subst isEqual.simps) (simp add: strict_eq_def)
next
  case (JStr s)
  then obtain t where b: "b = JStr t" by (cases b) auto
  show ?case
  proof (cases "s = t")
    case True
    with b show ?thesis by (subst isEqual.simps) (simp add: strict_eq_def)
  next
    case False
    with JStr.prems b obtain x where x: "parse s = Some x" "parse t = Some x"
      by (auto split: option.splits)
    with empty have "s \<noteq> []" "t \<noteq> []" by auto
    with b x False show ?thesis
      by (subst isEqual.simps) (simp add: strict_eq_def)
  qed
next
  case (JArr xs)
  then obtain ys where b: "b = JArr ys" by (cases b) auto
  with JArr.prems have l2: "list_all2 (deep_equal parse) xs ys" by simp
  then have len: "length xs = length ys" by (rule list_all2_lengthD)
  have "isEqual parse (xs ! i) (ys ! i)" if "i < length xs" for i
  proof -
    from that have "xs ! i \<in> set xs" by simp
    moreover from JArr.prems(1) that have "wf_json (xs ! i)" by (simp add: list_all_length)
    moreover from JArr.prems(2) b that len have "wf_json (ys ! i)"
      by (simp add: list_all_length)
    moreover from l2 that have "deep_equal parse (xs ! i) (ys ! i)"
      by (simp add: list_all2_nthD)
    ultimately show ?thesis by (rule JArr.IH)
  qed
  with b len show ?case
    by (subst isEqual.simps) (simp add: strict_eq_def list_all_length)
next
  case (JObj kvs)
  then obtain kvs' where b: "b = JObj kvs'" by (cases b) auto
  from JObj.prems b have ks: "set (map fst kvs) = set (map fst kvs')"
    and each: "list_all (\<lambda>kv. case map_of kvs' (fst kv) of
                            Some v' \<Rightarrow> deep_equal parse (snd kv) v'
                          | None \<Rightarrow> False) kvs"
    and d1: "distinct (map fst kvs)" and d2: "distinct (map fst kvs')"
    and w1: "list_all (\<lambda>kv. wf_json (snd kv)) kvs"
    and w2: "list_all (\<lambda>kv. wf_json (snd kv)) kvs'"
    by simp_all
  from ks d1 d2 have len: "length kvs = length kvs'"
    by (metis distinct_card length_map)
  have "isEqual parse (get_prop (JObj kvs) k) (get_prop (JObj kvs') k)"
    if "k \<in> set (map fst kvs)" for k
  proof -
    from that obtain v where kv: "(k, v) \<in> set kvs" by auto
    with d1 have m1: "map_of kvs k = Some v" by simp
    from each kv obtain v' where m2: "map_of kvs' k = Some v'" and de: "deep_equal parse v v'"
      by (auto simp: list_all_iff split: option.splits)
    from m2 have "(k, v') \<in> set kvs'" by (rule map_of_SomeD)
    with w2 have "wf_json v'" by (auto simp: list_all_iff)
    moreover from w1 kv have "wf_json v" by (auto simp: list_all_iff)
    ultimately have "isEqual parse v v'"
      using JObj.IH[of "(k, v)" v v'] kv de by simp
    with m1 m2 show ?thesis by simp
  qed
  with b len show ?case
    by (subst isEqual.simps) (simp add: strict_eq_def list_all_iff)
qed

lemma deep_equal_payload: "deep_equal parse a b \<Longrightarrow> is_payload b \<Longrightarrow> is_payload a"
  by (cases a; cases b) auto

text \<open>
  Claim C1.  For either source: when the stored data of the source and the new payload are
  well-formed and deep-equal, \<^verbatim>\<open>syncExternalData\<close> writes nothing, the document
  (with its \<^verbatim>\<open>updatedAt\<close>) stays as it was, and the result is \<^verbatim>\<open>false\<close>.
  The empty string is no date.
\<close>

theorem sync_unchanged_is_noop:
  assumes "parse [] = None"
    and "getGoalData d = Some g" and "get_source src g = Some e" and "data e = Some cur"
    and "is_payload new" and "wf_json cur" and "wf_json new"
    and "deep_equal parse cur new"
  shows "syncExternalData parse src new now now' d = (False, d)"
proof -
  from assms(8,5) have "is_payload cur" by (rule deep_equal_payload)
  then have "truthy cur" by (cases cur) simp_all
  moreover from assms(1,6,7,8) have "isEqual parse cur new" by (rule deep_equal_isEqual)
  ultimately show ?thesis using assms(2-4) by (simp add: syncExternalData_def)
qed

text \<open>The theorem at the stored entry and the reordered payload.\<close>

theorem sync_unchanged_is_noop_witness:
  "sample_parse [] = None \<and>
   getGoalData (Some stored_goal) = Some stored_goal \<and>
   get_source SrcStreamElements stored_goal = Some stored_entry \<and>
   data stored_entry = Some stored_payload \<and>
   is_payload new_payload \<and> wf_json stored_payload \<and> wf_json new_payload \<and>
   deep_equal sample_parse stored_payload new_payload \<and>
   syncExternalData sample_parse SrcStreamElements new_payload
       ''2024-03-01T12:00:10.000Z'' ''2024-03-01T12:00:10.000Z'' (Some stored_goal) =
     (False, Some stored_goal)"
proof -
  have h: "sample_parse [] = None"
    "getGoalData (Some stored_goal) = Some stored_goal"
    "get_source SrcStreamElements stored_goal = Some stored_entry"
    "data stored_entry = Some stored_payload"
    "is_payload new_payload" "wf_json stored_payload" "wf_json new_payload"
    "deep_equal sample_parse stored_payload new_payload"
    by (auto simp: sample_parse_def getGoalData_def get_source_def stored_goal_def
        stored_entry_def stored_payload_def new_payload_def empty_goal_def)
  from sync_unchanged_is_noop[OF h, of "''2024-03-01T12:00:10.000Z''"
      "''2024-03-01T12:00:10.000Z''"] h
  show ?thesis by simp
qed


section \<open>The fundraising-platform normalizer: a switch of the participant\<close>

lemma mset_insert_by: "mset (insert_by le x xs) = add_mset x (mset xs)"
  by (induction xs) auto

lemma mset_sort_by: "mset (sort_by le xs) = mset xs"
  by (induction xs) (auto simp: sort_by_def mset_insert_by)

lemma sort_by_Nil_iff: "sort_by le xs = [] \<longleftrightarrow> xs = []"
  using mset_sort_by[of le xs] by (metis mset_zero_iff)

text \<open>
  Claim C5, amended.  When the configured participant differs from the one of the stored
  data, both requests succeed and a fundraising goal is known, the poll returns and stores
  what it would with no stored data at all: the donations are exactly the fetched
  donations of the participant's current event, all of them new, and the sum, the goal,
  the participant and the event are the fetched ones.
\<close>

theorem participant_switch_starts_afresh:
  assumes "previousData = Some prev" and "pid \<noteq> []" and "meta_participantId prev \<noteq> pid"
    and "participantResponse = HttpOk pd" and "donationsResponse = HttpOk ds"
    and "number_or (p_fundraisingGoal pd) donationGoal = Some goal"
  shows "\<exists>result.
           pollExtraLife parse (Some pid) donationGoal previousData participantResponse
             donationsResponse now = (Some result, Some result) \<and>
           pollExtraLife parse (Some pid) donationGoal None participantResponse
             donationsResponse now = (Some result, Some result) \<and>
           mset (el_donations result) =
             mset (filter (\<lambda>donation. eventID donation = p_eventID pd)
                     (map normalise_donation ds)) \<and>
           newDonations result =
             (if el_donations result = [] then None else Some (el_donations result)) \<and>
           sumDonations result = (case p_sumDonations pd of Some s \<Rightarrow> s | None \<Rightarrow> 0) \<and>
           fundraisingGoal result = goal \<and>
           meta_participantId result = pid \<and> meta_eventID result = p_eventID pd"
  using assms
  by (simp add: pollExtraLife_def Let_def mset_sort_by sort_by_Nil_iff)

text \<open>
  The stored data is of participant 111, the configured participant is 222, and the
  platform answers the participant request with an error status: the poll returns the
  stored data of participant 111, donation D1 and the sum of 50 included.
\<close>

theorem participant_switch_api_error_counterexample:
  "meta_participantId old_participant_data \<noteq> ''222'' \<and>
   pollExtraLife sample_parse (Some ''222'') (Some 1000) (Some old_participant_data)
       HttpError (HttpOk fetched_donations) ''2024-03-01T12:00:10.000Z'' =
     (Some old_participant_data, None) \<and>
   map donationID (el_donations old_participant_data) = [''D1''] \<and>
   sumDonations old_participant_data = 50"
  by (simp add: pollExtraLife_def old_participant_data_def)

text \<open>The theorem at the switch from participant 111 to participant 222.\<close>

theorem participant_switch_starts_afresh_witness:
  "Some old_participant_data = Some old_participant_data \<and> ''222'' \<noteq> [] \<and>
   meta_participantId old_participant_data \<noteq> ''222'' \<and>
   number_or (p_fundraisingGoal new_participant) (Some 1000) = Some 500 \<and>
   (\<exists>result.
      pollExtraLife sample_parse (Some ''222'') (Some 1000) (Some old_participant_data)
          (HttpOk new_participant) (HttpOk fetched_donations) ''2024-03-01T12:00:10.000Z'' =
        (Some result, Some result) \<and>
      pollExtraLife sample_parse (Some ''222'') (Some 1000) None
          (HttpOk new_participant) (HttpOk fetched_donations) ''2024-03-01T12:00:10.000Z'' =
        (Some result, Some result) \<and>
      mset (el_donations result) =
        mset (filter (\<lambda>donation. eventID donation = p_eventID new_participant)
                (map normalise_donation fetched_donations)) \<and>
      newDonations result =
        (if el_donations result = [] then None else Some (el_donations result)) \<and>
      sumDonations result =
        (case p_sumDonations new_participant of Some s \<Rightarrow> s | None \<Rightarrow> 0) \<and>
      fundraisingGoal result = 500 \<and>
      meta_participantId result = ''222'' \<and> meta_eventID result = p_eventID new_participant)"
proof -
  have h: "''222'' \<noteq> []" "meta_participantId old_participant_data \<noteq> ''222''"
    "number_or (p_fundraisingGoal new_participant) (Some 1000) = Some 500"
    by (simp_all add: old_participant_data_def new_participant_def number_or_def)
  from participant_switch_starts_afresh[OF refl h(1,2) refl refl h(3),
      of sample_parse fetched_donations "''2024-03-01T12:00:10.000Z''"] h
  show ?thesis by simp
qed

text \<open>What that poll returns: the one fetched donation of event E2.\<close>

lemma new_participant_result:
  "fst (pollExtraLife sample_parse (Some ''222'') (Some 1000) (Some old_participant_data)
          (HttpOk new_participant) (HttpOk fetched_donations) ''2024-03-01T12:00:10.000Z'') =
     Some \<lparr> sumDonations = 20, fundraisingGoal = 500,
            el_donations =
              [\<lparr> el_amount = 20, displayName = ''New Donor'', message = [],
                 donationID = ''D2'', createdDateUTC = ''2024-03-01T12:00:03.000Z'',
                 eventID = ''E2'' \<rparr>],
            newDonations =
              Some [\<lparr> el_amount = 20, displayName = ''New Donor'', message = [],
                      donationID = ''D2'', createdDateUTC = ''2024-03-01T12:00:03.000Z'',
                      eventID = ''E2'' \<rparr>],
            meta_lastUpdated = ''2024-03-01T12:00:10.000Z'',
            meta_participantId = ''222'', meta_eventID = ''E2'' \<rparr>"
  by (simp add: pollExtraLife_def old_participant_data_def new_participant_def
      fetched_donations_def number_or_def normalise_donation_def or_default_def sort_by_def
      Let_def)


section \<open>The tipping-platform normalizer: the donors of the previous poll\<close>

text \<open>The stored object has its donors at \<^verbatim>\<open>current.donations\<close> and nowhere else.\<close>

lemma stored_object_reads:
  "get_prop (json_of_stored p) ''donations'' = JUndefined"
  "get_prop (json_of_stored p) ''localDonations'' = JUndefined"
  "get_prop (get_prop (json_of_stored p) ''current'') ''donations'' =
     JArr (map json_of_donor (donations (current p)))"
  by (simp_all add: json_of_stored_def json_of_processed_def)

text \<open>The dates of the example, and the numbers of the tip.\<close>

lemma civil_4: "civil 4 = (1970, 0, 5)" "civil 5 = (1970, 0, 6)" "civil (- 2) = (1969, 11, 30)"
  by (simp_all add: civil_def eval_nat_numeral days_in_month_def leap_year_def)

lemma january_days:
  "local_day 0 381600000 = 4" "local_day 0 381900000 = 4" "local_day 0 468000000 = 5"
  "local_day 0 (- 136800000) = - 2"
  by (simp_all add: local_day_def msPerDay_def)

lemma in_january:
  "isInCurrentPeriod (january_host 468000000) (tip_config Monthly) 0 1970
     ''1970-01-05T10:00:00.000Z''"
  "isInCurrentPeriod (january_host 468000000) (tip_config Weekly) 0 1970
     ''1970-01-05T10:00:00.000Z''"
  "\<not> isInCurrentPeriod (january_host 468000000) (tip_config Monthly) 0 1970
     ''1969-12-30T10:00:00.000Z''"
  "\<not> isInCurrentPeriod (january_host 468000000) (tip_config Weekly) 0 1970
     ''1969-12-30T10:00:00.000Z''"
  by (simp_all add: isInCurrentPeriod_def tip_config_def january_host_def isCurrentMonth_def
      isCurrentWeek_def january_parse_def getMonth_def getFullYear_def getDay_def january_days
      civil_4 msPerDay_def Let_def)

lemma in_january_first:
  "isInCurrentPeriod (january_host 381900000) (tip_config Monthly) 0 1970
     ''1970-01-05T10:00:00.000Z''"
  "isInCurrentPeriod (january_host 381900000) (tip_config Weekly) 0 1970
     ''1970-01-05T10:00:00.000Z''"
  by (simp_all add: isInCurrentPeriod_def tip_config_def january_host_def isCurrentMonth_def
      isCurrentWeek_def january_parse_def getMonth_def getFullYear_def getDay_def january_days
      civil_4 msPerDay_def Let_def)

lemma january_now:
  "getMonth 0 381900000 = 0" "getFullYear 0 381900000 = 1970"
  "getMonth 0 468000000 = 0" "getFullYear 0 468000000 = 1970"
  by (simp_all add: getMonth_def getFullYear_def january_days civil_4)

lemma tip_numbers:
  "roundToTwoDecimals 5 = 5" "safeAdd 0 5 = 5" "js_add 0 5 = 5" "js_mul 0 1 = 0"
  "js_mul 0 5 = 0" "roundToTwoDecimals 0 = 0"
  by (simp_all add: js_eval fl_eval)

lemma tip_config_fields:
  "subscriptionValues (tip_config summary) = \<lparr> prime = 5, tier1 = 5, tier2 = 10, tier3 = 25 \<rparr>"
  "bitsValue (tip_config summary) = 1"
  "summaryType (tip_config summary) = Some summary"
  by (simp_all add: tip_config_def)

lemma january_host_fields:
  "host_parse (january_host now) = january_parse"
  "host_tz (january_host now) = 0"
  "host_now (january_host now) = now"
  by (simp_all add: january_host_def)

text \<open>The first poll: nothing stored yet, Ada's tip in the session.\<close>

lemma first_processed:
  "processStreamElementsData (january_host 381900000) ada_tip_session None 0 1970
     (tip_config summary) = current ada_stored"
proof -
  have p: "isInCurrentPeriod (january_host 381900000) (tip_config summary) 0 1970
     ''1970-01-05T10:00:00.000Z''"
    using in_january_first by (cases summary) simp_all
  show ?thesis
    by (simp add: processStreamElementsData_def ada_tip_session_def p startingResult_def
        cleanedDonors_def list_or_empty_def processTip_def addDonation_def Let_def
        tip_numbers truthy_string_def patchShortfall_def sortResult_def sortDonations_def
        sort_by_def ada_stored_def ada_tip_def tip_config_fields january_host_fields)
qed

text \<open>The second poll: Ada's tip stored, nothing in the session.\<close>

lemma isEqual_arrays_of_other_length:
  "length xs \<noteq> length ys \<Longrightarrow> \<not> isEqual parse (JArr xs) (JArr ys)"
  by (subst isEqual.simps) (simp add: strict_eq_def)

lemma isEqual_other_number_of_donors:
  "length (donations a) \<noteq> length (donations b) \<Longrightarrow>
     \<not> isEqual parse (json_of_processed a) (json_of_processed b)"
  by (subst isEqual.simps)
     (simp add: json_of_processed_def strict_eq_def isEqual_arrays_of_other_length)

lemma second_processed:
  "processStreamElementsData (january_host 468000000) quiet_session
     (Some (previousData_of ada_stored)) 0 1970 (tip_config summary) =
   \<lparr> donations = [], overall_total = \<lparr> overall_amount = 0, donation_count = 0 \<rparr> \<rparr>"
  by (simp add: processStreamElementsData_def quiet_session_def startingResult_def
      cleanedDonors_def previousData_of_def list_or_empty_def Let_def
      tip_numbers patchShortfall_def sortResult_def sort_by_def tip_config_fields
      january_host_fields)

lemma first_poll:
  "pollStreamElements_data (january_host 381900000) (tip_config summary) None
     (HttpOk ada_tip_session) 381900000 ''1970-01-05T10:05:00.000Z'' =
   (Some ada_stored, Some ada_stored)"
  by (simp add: pollStreamElements_data_def january_host_fields january_now first_processed)
     (simp add: ada_stored_def Let_def)

lemma second_poll:
  "pollStreamElements_data (january_host 468000000) (tip_config summary) (Some ada_stored)
     (HttpOk quiet_session) 468000000 ''1970-01-06T10:00:00.000Z'' =
   (Some \<lparr> current = \<lparr> donations = [],
                        overall_total = \<lparr> overall_amount = 0, donation_count = 0 \<rparr> \<rparr>,
           meta_month = 0, meta_year = 1970, se_lastUpdated = ''1970-01-06T10:00:00.000Z'' \<rparr>,
    Some \<lparr> current = \<lparr> donations = [],
                        overall_total = \<lparr> overall_amount = 0, donation_count = 0 \<rparr> \<rparr>,
           meta_month = 0, meta_year = 1970, se_lastUpdated = ''1970-01-06T10:00:00.000Z'' \<rparr>)"
proof -
  have "\<not> isEqual january_parse (json_of_processed (current ada_stored))
     (json_of_processed
        \<lparr> donations = [], overall_total = \<lparr> overall_amount = 0, donation_count = 0 \<rparr> \<rparr>)"
    by (rule isEqual_other_number_of_donors) (simp add: ada_stored_def)
  then show ?thesis
    by (simp add: pollStreamElements_data_def january_host_fields january_now second_processed
        Let_def)
qed

text \<open>The function handed a donor list: Bob with an old tip, Ada with an old and a new one.\<close>

lemma handed_the_donor_list:
  "processStreamElementsData (january_host 468000000) quiet_session
     (Some \<lparr> prev_donations = Some mixed_donors, prev_localDonations = None \<rparr>) 0 1970
     (tip_config summary) =
   \<lparr> donations = [\<lparr> name = ''Ada'', individual_donations = [ada_tip],
                     total_amount = 5, total_donations = 1 \<rparr>],
     overall_total = \<lparr> overall_amount = 5, donation_count = 1 \<rparr> \<rparr>"
proof -
  have p: "isInCurrentPeriod (january_host 468000000) (tip_config summary) 0 1970
       ''1970-01-05T10:00:00.000Z''"
    "\<not> isInCurrentPeriod (january_host 468000000) (tip_config summary) 0 1970
       ''1969-12-30T10:00:00.000Z''"
    using in_january by (cases summary; simp)+
  show ?thesis
    by (simp add: processStreamElementsData_def quiet_session_def startingResult_def
        cleanedDonors_def keepCurrent_def recalculate_def addToOverall_def mixed_donors_def
        old_tip_def ada_tip_def p list_or_empty_def Let_def tip_numbers patchShortfall_def
        sortResult_def sortDonations_def sort_by_def tip_config_fields january_host_fields)
qed

lemma nothing_to_start_from:
  "startingResult P (Some (previousData_of p)) =
     \<lparr> donations = [], overall_total = \<lparr> overall_amount = 0, donation_count = 0 \<rparr> \<rparr>"
  by (simp add: startingResult_def cleanedDonors_def previousData_of_def)

text \<open>
  Claim C6.  The function is meant to start from the previous donors, and does so when it
  is handed an object with a property \<^verbatim>\<open>donations\<close>: of Bob and Ada it keeps Ada with
  her tip of the current period, drops her older tip and Bob, and recomputes the totals
  (last statement of the first part).  But \<^verbatim>\<open>pollStreamElements\<close>, its only caller,
  hands it the stored object, whose donors are at \<^verbatim>\<open>current.donations\<close>.  So, for the
  monthly and the weekly period alike: the first poll stores Ada with her tip of 5.00; at
  the poll of the next day that tip is in the current period, the session no longer lists
  it, and the result has no donor and a total of 0.  In general the function starts from
  no donors at every poll, whatever is stored.
\<close>

theorem stored_donors_dropped_at_poll:
  "(\<forall>summary.
      pollStreamElements_data (january_host 381900000) (tip_config summary) None
          (HttpOk ada_tip_session) 381900000 ''1970-01-05T10:05:00.000Z'' =
        (Some ada_stored, Some ada_stored) \<and>
      isInCurrentPeriod (january_host 468000000) (tip_config summary) 0 1970
        ''1970-01-05T10:00:00.000Z'' \<and>
      \<not> isInCurrentPeriod (january_host 468000000) (tip_config summary) 0 1970
        ''1969-12-30T10:00:00.000Z'' \<and>
      pollStreamElements_data (january_host 468000000) (tip_config summary) (Some ada_stored)
          (HttpOk quiet_session) 468000000 ''1970-01-06T10:00:00.000Z'' =
        (Some \<lparr> current =
                  \<lparr> donations = [],
                    overall_total = \<lparr> overall_amount = 0, donation_count = 0 \<rparr> \<rparr>,
                meta_month = 0, meta_year = 1970,
                se_lastUpdated = ''1970-01-06T10:00:00.000Z'' \<rparr>,
         Some \<lparr> current =
                  \<lparr> donations = [],
                    overall_total = \<lparr> overall_amount = 0, donation_count = 0 \<rparr> \<rparr>,
                meta_month = 0, meta_year = 1970,
                se_lastUpdated = ''1970-01-06T10:00:00.000Z'' \<rparr>) \<and>
      processStreamElementsData (january_host 468000000) quiet_session
          (Some \<lparr> prev_donations = Some mixed_donors, prev_localDonations = None \<rparr>) 0 1970
          (tip_config summary) =
        \<lparr> donations = [\<lparr> name = ''Ada'', individual_donations = [ada_tip],
                          total_amount = 5, total_donations = 1 \<rparr>],
          overall_total = \<lparr> overall_amount = 5, donation_count = 1 \<rparr> \<rparr>) \<and>
   (\<forall>h cfg m y p.
      get_prop (json_of_stored p) ''donations'' = JUndefined \<and>
      get_prop (get_prop (json_of_stored p) ''current'') ''donations'' =
        JArr (map json_of_donor (donations (current p))) \<and>
      startingResult (isInCurrentPeriod h cfg m y) (Some (previousData_of p)) =
        \<lparr> donations = [], overall_total = \<lparr> overall_amount = 0, donation_count = 0 \<rparr> \<rparr>)"
proof (intro conjI allI)
  fix summary
  show "isInCurrentPeriod (january_host 468000000) (tip_config summary) 0 1970
        ''1970-01-05T10:00:00.000Z''"
    using in_january by (cases summary) simp_all
  show "\<not> isInCurrentPeriod (january_host 468000000) (tip_config summary) 0 1970
        ''1969-12-30T10:00:00.000Z''"
    using in_january by (cases summary) simp_all
qed (rule first_poll second_poll handed_the_donor_list nothing_to_start_from
    stored_object_reads)+


section \<open>The calendar: the first day of a week and of a month\<close>

lemma days_in_month_ge: "28 \<le> days_in_month y m"
  by (simp add: days_in_month_def)

lemma days_in_month_pos [simp]: "0 < days_in_month y m" "Suc 0 \<le> days_in_month y m"
  by (simp_all add: days_in_month_def)

lemma valid_next: "valid_date c \<Longrightarrow> valid_date (next_day c)"
  by (cases c) (auto simp: valid_date_def)

lemma valid_prev: "valid_date c \<Longrightarrow> valid_date (prev_day c)"
  by (cases c) (auto simp: valid_date_def days_in_month_def)

lemma next_prev: "valid_date c \<Longrightarrow> next_day (prev_day c) = c"
  by (cases c) (auto simp: valid_date_def days_in_month_def)

lemma valid_iterate_next: "valid_date c \<Longrightarrow> valid_date (iterate n next_day c)"
  by (induction n) (simp_all add: valid_next)

lemma valid_iterate_prev: "valid_date c \<Longrightarrow> valid_date (iterate n prev_day c)"
  by (induction n) (simp_all add: valid_prev)

lemma valid_epoch: "valid_date (1970, 0, 1)"
  by (simp add: valid_date_def days_in_month_def)

lemma valid_civil: "valid_date (civil d)"
  using valid_epoch by (auto simp: civil_def intro: valid_iterate_next valid_iterate_prev)

lemma civil_succ: "civil (d + 1) = next_day (civil d)"
proof (cases "0 \<le> d")
  case True
  then have "nat (d + 1) = Suc (nat d)" by simp
  with True show ?thesis by (simp add: civil_def)
next
  case False
  then have n: "nat (- d) = Suc (nat (- (d + 1)))" by simp
  show ?thesis
  proof (cases "d = -1")
    case True
    then show ?thesis by (simp add: civil_def days_in_month_def)
  next
    case False
    with \<open>\<not> 0 \<le> d\<close> have neg: "\<not> 0 \<le> d + 1" by simp
    have v: "valid_date (iterate (nat (- (d + 1))) prev_day (1970, 0, 1))"
      using valid_epoch by (intro valid_iterate_prev)
    from \<open>\<not> 0 \<le> d\<close> neg have "civil d = prev_day (civil (d + 1))"
      by (simp add: civil_def n del: nat_add_distrib)
    moreover from neg have "valid_date (civil (d + 1))" using v by (simp add: civil_def)
    ultimately show ?thesis by (simp add: next_prev)
  qed
qed

lemma month_index_next:
  "valid_date c \<Longrightarrow>
     month_index (next_day c) =
       month_index c + (if snd (snd (next_day c)) = 1 then 1 else 0)"
  by (cases c) (auto simp: valid_date_def month_index_def)

lemma month_index_mono_step: "month_index (civil d) \<le> month_index (civil (d + 1))"
  by (simp add: civil_succ month_index_next valid_civil)

lemma month_index_mono: "d \<le> d' \<Longrightarrow> month_index (civil d) \<le> month_index (civil d')"
proof (induction d' rule: int_ge_induct)
  case base
  then show ?case by simp
next
  case (step i)
  then show ?case using month_index_mono_step[of i] by linarith
qed

lemma first_of_month_starts_month:
  assumes "d' < d" and "snd (snd (civil d)) = 1"
  shows "month_index (civil d') < month_index (civil d)"
proof -
  have "civil d = next_day (civil (d - 1))" using civil_succ[of "d - 1"] by simp
  with assms(2) have "month_index (civil d) = month_index (civil (d - 1)) + 1"
    using month_index_next[OF valid_civil, of "d - 1"] by simp
  moreover from assms(1) have "month_index (civil d') \<le> month_index (civil (d - 1))"
    by (intro month_index_mono) simp
  ultimately show ?thesis by linarith
qed

lemma local_day_mono: "s \<le> t \<Longrightarrow> local_day tz s \<le> local_day tz t"
  by (simp add: local_day_def msPerDay_def zdiv_mono1)

lemma same_period_boundary:
  assumes "s \<le> t" and "same_period tz summary s t" and "boundary_day tz summary t"
  shows "local_day tz s = local_day tz t"
proof (cases summary)
  case Weekly
  from assms(1) have le: "local_day tz s \<le> local_day tz t" by (rule local_day_mono)
  from assms(3) Weekly have "(local_day tz t + 4) mod 7 = 0"
    by (simp add: boundary_day_def getDay_def)
  moreover from assms(2) Weekly have "(local_day tz s + 4) div 7 = (local_day tz t + 4) div 7"
    by (simp add: same_period_def week_index_def)
  ultimately show ?thesis using le by presburger
next
  case Monthly
  from assms(1) have le: "local_day tz s \<le> local_day tz t" by (rule local_day_mono)
  from assms(2) Monthly have
    "month_index (civil (local_day tz s)) = month_index (civil (local_day tz t))"
    by (cases "civil (local_day tz s)"; cases "civil (local_day tz t)")
       (simp add: same_period_def getMonth_def getFullYear_def month_index_def)
  moreover from assms(3) Monthly have "snd (snd (civil (local_day tz t))) = 1"
    by (simp add: boundary_day_def getDate_def)
  ultimately show ?thesis
    using first_of_month_starts_month[of "local_day tz s" "local_day tz t"] le
    by (cases "local_day tz s < local_day tz t") auto
qed


section \<open>The periodic goal reset: once per week or month\<close>

lemma boundary_day_local:
  "boundary_day tz summary t = boundary_of_day summary (local_day tz t)"
proof (cases summary)
  case Monthly
  then show ?thesis
    by (simp add: boundary_day_def boundary_of_day_def getDate_def day_of_month_def)
next
  case Weekly
  have "0 \<le> (local_day tz t + 4) mod 7" by simp
  then have "(nat ((local_day tz t + 4) mod 7) = 0) = ((local_day tz t + 4) mod 7 = 0)"
    by linarith
  with Weekly show ?thesis
    by (simp add: boundary_day_def boundary_of_day_def getDay_def)
qed

lemma getDate_local: "getDate tz t = day_of_month (local_day tz t)"
  by (simp add: getDate_def day_of_month_def)

lemma has_record_goal: "has_record d \<Longrightarrow> getGoalData d \<noteq> None"
  by (auto simp: has_record_def read_lastGoalReset_def getGoalData_def split: option.splits)

lemma read_push [simp]: "read_lastGoalReset (push_lastGoalReset stamp d) = Some stamp"
  by (simp add: read_lastGoalReset_def push_lastGoalReset_def Let_def)

lemma read_sync [simp]:
  "read_lastGoalReset (snd (syncExternalData parse SrcStreamElements payload now now' d)) =
     read_lastGoalReset d"
  by (auto simp: syncExternalData_def read_lastGoalReset_def getGoalData_def updateGoalData_def
      set_source_def get_source_def Let_def split: option.splits)

lemma poll_cases:
  "pollStreamElements parse tz summary p d = (issued, d') \<Longrightarrow>
     (getGoalData d = None \<and> \<not> issued \<and> d' = d) \<or>
     (getGoalData d \<noteq> None \<and> issued = shouldReset parse tz summary (p_now p) d \<and>
        read_lastGoalReset d' =
          (if issued \<and> p_putOk p then Some (p_stamp p) else read_lastGoalReset d))"
  by (auto simp: pollStreamElements_def resetGoalValuesIfNeeded_def
      split: option.splits if_splits prod.splits sum.splits)

lemma poll_blocked:
  assumes "blocked parse tz summary D d" and "local_day tz (p_now p) = D"
    and "pollStreamElements parse tz summary p d = (issued, d')"
  shows "\<not> issued \<and> blocked parse tz summary D d'"
proof -
  from assms(1) have rec: "has_record d" by (simp add: blocked_def)
  then have goal: "getGoalData d \<noteq> None" by (rule has_record_goal)
  from assms(1,2) have "\<not> shouldReset parse tz summary (p_now p) d"
    by (auto simp: blocked_def shouldReset_def has_record_def reset_on_day_def
        boundary_day_local getDate_local split: option.splits)
  with poll_cases[OF assms(3)] goal have "\<not> issued"
    and "read_lastGoalReset d' = read_lastGoalReset d" by auto
  with assms(1) show ?thesis
    by (simp add: blocked_def has_record_def reset_on_day_def)
qed

lemma poll_establishes:
  assumes "getGoalData d \<noteq> None" and "p_putOk p"
    and "parse (p_stamp p) = Some ts" and "local_day tz ts = D"
    and "local_day tz (p_now p) = D"
    and "pollStreamElements parse tz summary p d = (issued, d')"
  shows "blocked parse tz summary D d'"
proof (cases issued)
  case True
  with poll_cases[OF assms(6)] assms(1,2) have "read_lastGoalReset d' = Some (p_stamp p)"
    by auto
  with assms(3,4) show ?thesis
    by (simp add: blocked_def has_record_def reset_on_day_def getDate_local)
next
  case False
  with poll_cases[OF assms(6)] assms(1) have
    no: "\<not> shouldReset parse tz summary (p_now p) d"
    and same: "read_lastGoalReset d' = read_lastGoalReset d" by auto
  from no assms(5) have "has_record d \<and> (boundary_of_day summary D \<longrightarrow> reset_on_day parse tz D d)"
    by (auto simp: shouldReset_def has_record_def reset_on_day_def boundary_day_local
        getDate_local split: option.splits)
  with same show ?thesis
    by (simp add: blocked_def has_record_def reset_on_day_def)
qed

lemma poll_keeps_record:
  assumes "has_record d" and "pollStreamElements parse tz summary p d = (issued, d')"
  shows "has_record d' \<and> (issued \<longrightarrow> boundary_day tz summary (p_now p))"
  using poll_cases[OF assms(2)] assms(1)
  by (auto simp: has_record_def shouldReset_def split: option.splits if_splits)

lemma poll_makes_record:
  assumes "getGoalData d \<noteq> None" and "p_putOk p"
    and "pollStreamElements parse tz summary p d = (issued, d')"
  shows "has_record d'"
  using poll_cases[OF assms(3)] assms(1,2)
  by (auto simp: has_record_def shouldReset_def split: option.splits if_splits)

lemma clock_ok_nth:
  "clock_ok parse lo ps \<Longrightarrow> k < length ps \<Longrightarrow>
     lo \<le> p_now (ps ! k) \<and> (\<exists>t. parse (p_stamp (ps ! k)) = Some t \<and> p_now (ps ! k) \<le> t)"
proof (induction ps arbitrary: lo k)
  case Nil
  then show ?case by simp
next
  case (Cons p ps)
  from Cons.prems(1) obtain t where t: "lo \<le> p_now p" "parse (p_stamp p) = Some t"
    "p_now p \<le> t" "clock_ok parse t ps"
    by (auto split: option.splits)
  show ?case
  proof (cases k)
    case 0
    with t show ?thesis by simp
  next
    case (Suc k')
    with Cons.prems(2) have "k' < length ps" by simp
    from Cons.IH[OF t(4) this] t Suc show ?thesis by auto
  qed
qed

lemma run_no_goal:
  "getGoalData d = None \<Longrightarrow> k < length ps \<Longrightarrow> \<not> fst (run_polls parse tz summary d ps) ! k"
proof (induction ps arbitrary: k)
  case Nil
  then show ?case by simp
next
  case (Cons p ps)
  from Cons.prems(1) have "pollStreamElements parse tz summary p d = (False, d)"
    by (simp add: pollStreamElements_def)
  with Cons show ?case
    by (cases k) (auto simp: Let_def split: prod.splits)
qed

lemma run_has_record:
  "has_record d \<Longrightarrow> k < length ps \<Longrightarrow> fst (run_polls parse tz summary d ps) ! k \<Longrightarrow>
     boundary_day tz summary (p_now (ps ! k))"
proof (induction ps arbitrary: d k)
  case Nil
  then show ?case by simp
next
  case (Cons p ps)
  obtain issued d' where step: "pollStreamElements parse tz summary p d = (issued, d')"
    by (cases "pollStreamElements parse tz summary p d")
  from poll_keeps_record[OF Cons.prems(1) step] have rec': "has_record d'"
    and b: "issued \<longrightarrow> boundary_day tz summary (p_now p)" by simp_all
  show ?case
  proof (cases k)
    case 0
    with Cons.prems(3) step b show ?thesis by (auto simp: Let_def split: prod.splits)
  next
    case (Suc k')
    with Cons.prems(2,3) step have "k' < length ps"
      "fst (run_polls parse tz summary d' ps) ! k'"
      by (auto simp: Let_def split: prod.splits)
    from Cons.IH[OF rec' this] Suc show ?thesis by simp
  qed
qed

lemma run_blocked:
  "blocked parse tz summary D d \<Longrightarrow> clock_ok parse lo ps \<Longrightarrow> local_day tz lo = D \<Longrightarrow>
   k < length ps \<Longrightarrow> local_day tz (p_now (ps ! k)) = D \<Longrightarrow>
     \<not> fst (run_polls parse tz summary d ps) ! k"
proof (induction ps arbitrary: d lo k)
  case Nil
  then show ?case by simp
next
  case (Cons p ps)
  from Cons.prems(2) obtain t where t: "lo \<le> p_now p" "parse (p_stamp p) = Some t"
    "p_now p \<le> t" "clock_ok parse t ps"
    by (auto split: option.splits)
  obtain issued d' where step: "pollStreamElements parse tz summary p d = (issued, d')"
    by (cases "pollStreamElements parse tz summary p d")
  show ?case
  proof (cases k)
    case 0
    with Cons.prems(5) have "local_day tz (p_now p) = D" by simp
    from poll_blocked[OF Cons.prems(1) this step] 0 step show ?thesis
      by (auto simp: Let_def split: prod.splits)
  next
    case (Suc k')
    with Cons.prems(4,5) have k': "k' < length ps" and day: "local_day tz (p_now (ps ! k')) = D"
      by simp_all
    from clock_ok_nth[OF t(4) k'] have "t \<le> p_now (ps ! k')" by simp
    with t(1,3) Cons.prems(3) day have "local_day tz (p_now p) = D" "local_day tz t = D"
      using local_day_mono[of lo "p_now p" tz] local_day_mono[of "p_now p" t tz]
        local_day_mono[of t "p_now (ps ! k')" tz] by linarith+
    from poll_blocked[OF Cons.prems(1) this(1) step] have "blocked parse tz summary D d'"
      by simp
    from Cons.IH[OF this t(4) \<open>local_day tz t = D\<close> k' day] Suc step show ?thesis
      by (auto simp: Let_def split: prod.splits)
  qed
qed

lemma first_poll_blocks_period:
  assumes clock: "clock_ok parse lo (p # ps)" and ok: "p_putOk p"
    and k: "k < length ps"
    and same: "same_period tz summary (p_now p) (p_now (ps ! k))"
  shows "\<not> fst (run_polls parse tz summary d (p # ps)) ! Suc k"
proof (cases "getGoalData d = None")
  case True
  then show ?thesis using k run_no_goal[of d "Suc k" "p # ps"] by simp
next
  case False
  from clock obtain t where t: "lo \<le> p_now p" "parse (p_stamp p) = Some t"
    "p_now p \<le> t" "clock_ok parse t ps"
    by (auto split: option.splits)
  obtain issued d' where step: "pollStreamElements parse tz summary p d = (issued, d')"
    by (cases "pollStreamElements parse tz summary p d")
  have run: "fst (run_polls parse tz summary d (p # ps)) ! Suc k =
               fst (run_polls parse tz summary d' ps) ! k"
    using step by (auto simp: Let_def split: prod.splits)
  from poll_makes_record[OF False ok step] have rec: "has_record d'" .
  from clock_ok_nth[OF t(4) k] have le: "t \<le> p_now (ps ! k)" by simp
  show ?thesis
  proof (cases "boundary_day tz summary (p_now (ps ! k))")
    case False
    with run_has_record[OF rec k] run show ?thesis by auto
  next
    case True
    from t(3) le have "p_now p \<le> p_now (ps ! k)" by simp
    from same_period_boundary[OF this same True]
    have day: "local_day tz (p_now p) = local_day tz (p_now (ps ! k))" .
    with t(3) le have tday: "local_day tz t = local_day tz (p_now (ps ! k))"
      using local_day_mono[of "p_now p" t tz] local_day_mono[of t "p_now (ps ! k)" tz]
      by linarith
    from poll_establishes[OF False ok t(2) tday day step]
    have "blocked parse tz summary (local_day tz (p_now (ps ! k))) d'" .
    from run_blocked[OF this t(4) tday k] run show ?thesis by simp
  qed
qed

lemma reset_only_first_in_period:
  "clock_ok parse lo ps \<Longrightarrow> list_all p_putOk ps \<Longrightarrow> i < j \<Longrightarrow> j < length ps \<Longrightarrow>
   fst (run_polls parse tz summary d ps) ! j \<Longrightarrow>
     \<not> same_period tz summary (p_now (ps ! i)) (p_now (ps ! j))"
proof (induction ps arbitrary: lo d i j)
  case Nil
  then show ?case by simp
next
  case (Cons p ps)
  from Cons.prems(3) obtain j' where j: "j = Suc j'" by (cases j) auto
  with Cons.prems(4) have j': "j' < length ps" by simp
  from Cons.prems(1) obtain t where t: "clock_ok parse t ps"
    by (auto split: option.splits)
  obtain issued d' where step: "pollStreamElements parse tz summary p d = (issued, d')"
    by (cases "pollStreamElements parse tz summary p d")
  show ?case
  proof (cases i)
    case 0
    show ?thesis
    proof
      assume "same_period tz summary (p_now ((p # ps) ! i)) (p_now ((p # ps) ! j))"
      with 0 j have "same_period tz summary (p_now p) (p_now (ps ! j'))" by simp
      from first_poll_blocks_period[OF Cons.prems(1) _ j' this, where d = d] Cons.prems(2,5) j
      show False by simp
    qed
  next
    case (Suc i')
    with Cons.prems(3) j have "i' < j'" by simp
    moreover from Cons.prems(5) j step have "fst (run_polls parse tz summary d' ps) ! j'"
      by (auto simp: Let_def split: prod.splits)
    moreover from Cons.prems(2) have "list_all p_putOk ps" by simp
    ultimately have "\<not> same_period tz summary (p_now (ps ! i')) (p_now (ps ! j'))"
      using Cons.IH[OF t] j' by blast
    with Suc j show ?thesis by simp
  qed
qed

lemma reset_recorded:
  assumes "getGoalData d \<noteq> None" and "p_putOk p"
    and "fst (pollStreamElements parse tz summary p d)"
  shows "read_lastGoalReset (snd (pollStreamElements parse tz summary p d)) = Some (p_stamp p)"
proof -
  obtain issued d' where step: "pollStreamElements parse tz summary p d = (issued, d')"
    by (cases "pollStreamElements parse tz summary p d")
  with assms(3) have "issued" by simp
  with poll_cases[OF step] assms(1,2) step show ?thesis by auto
qed

text \<open>
  Claim C9, amended.  In a sequence of polls whose reset calls all succeed, a poll that
  issues the reset call has no earlier poll in the same week (weekly accounting) or in the
  same month (monthly accounting): the call goes out only at the first poll of a week or
  month and at most once in it, however often the polls come.  A call that is issued and
  succeeds records its stamp as \<^verbatim>\<open>lastGoalReset\<close>.
\<close>

theorem reset_issued_once_per_period:
  assumes "clock_ok parse lo polls" and "list_all p_putOk polls"
  shows "(\<forall>i j. i < j \<and> j < length polls \<and> fst (run_polls parse tz summary d polls) ! j
            \<longrightarrow> \<not> same_period tz summary (p_now (polls ! i)) (p_now (polls ! j))) \<and>
         (\<forall>p d0. getGoalData d0 \<noteq> None \<and> p_putOk p \<and>
                 fst (pollStreamElements parse tz summary p d0)
            \<longrightarrow> read_lastGoalReset (snd (pollStreamElements parse tz summary p d0)) =
                  Some (p_stamp p))"
  using reset_only_first_in_period[OF assms] reset_recorded by blast

lemma civil_small:
  "civil 0 = (1970, 0, 1)" "civil 2 = (1970, 0, 3)" "civil 3 = (1970, 0, 4)"
  by (simp_all add: civil_def days_in_month_def eval_nat_numeral)

lemma sample_days:
  "local_day 0 0 = 0" "local_day 0 216000000 = 2" "local_day 0 216001000 = 2"
  "local_day 0 259800000 = 3" "local_day 0 259801000 = 3"
  "local_day 0 260400000 = 3" "local_day 0 260401000 = 3"
  by (simp_all add: local_day_def msPerDay_def)

lemmas poll_eval = pollStreamElements_def resetGoalValuesIfNeeded_def shouldReset_def
  read_lastGoalReset_def push_lastGoalReset_def boundary_day_def getDay_def getDate_def
  getGoalData_def empty_goal_def epoch_parse_def sample_days civil_small Let_def

text \<open>
  The theorem at three polls on a store without a record: Saturday noon issues the call,
  the first poll of Sunday issues it, the second poll of Sunday does not.
\<close>

theorem reset_issued_once_per_period_witness:
  "clock_ok epoch_parse 0 [saturday_noon, sunday_first, sunday_second] \<and>
   list_all p_putOk [saturday_noon, sunday_first, sunday_second] \<and>
   fst (run_polls epoch_parse 0 Weekly fresh_db [saturday_noon, sunday_first, sunday_second]) =
     [True, True, False] \<and>
   \<not> same_period 0 Weekly (p_now ([saturday_noon, sunday_first, sunday_second] ! 0))
       (p_now ([saturday_noon, sunday_first, sunday_second] ! 1)) \<and>
   getGoalData fresh_db \<noteq> None \<and>
   fst (pollStreamElements epoch_parse 0 Weekly saturday_noon fresh_db) \<and>
   read_lastGoalReset (snd (pollStreamElements epoch_parse 0 Weekly saturday_noon fresh_db)) =
     Some (p_stamp saturday_noon)"
proof -
  have c: "clock_ok epoch_parse 0 [saturday_noon, sunday_first, sunday_second]"
    and a: "list_all p_putOk [saturday_noon, sunday_first, sunday_second]"
    by (simp_all add: saturday_noon_def sunday_first_def sunday_second_def epoch_parse_def)
  have r: "fst (run_polls epoch_parse 0 Weekly fresh_db
                  [saturday_noon, sunday_first, sunday_second]) = [True, True, False]"
    by (simp add: saturday_noon_def sunday_first_def sunday_second_def fresh_db_def poll_eval)
  have g: "getGoalData fresh_db \<noteq> None" "p_putOk saturday_noon"
    "fst (pollStreamElements epoch_parse 0 Weekly saturday_noon fresh_db)"
    by (simp_all add: saturday_noon_def fresh_db_def poll_eval)
  from reset_issued_once_per_period[OF c a, of 0 Weekly fresh_db] r
  have "\<not> same_period 0 Weekly (p_now ([saturday_noon, sunday_first, sunday_second] ! 0))
       (p_now ([saturday_noon, sunday_first, sunday_second] ! 1))"
    by (metis One_nat_def length_Cons less_Suc_eq_0_disj list.size(3) nth_Cons_0 nth_Cons_Suc
        zero_less_one)
  moreover from reset_issued_once_per_period[OF c a, of 0 Weekly fresh_db] g
  have "read_lastGoalReset (snd (pollStreamElements epoch_parse 0 Weekly saturday_noon fresh_db)) =
     Some (p_stamp saturday_noon)"
    by blast
  ultimately show ?thesis using c a r g by blast
qed

text \<open>
  The last reset was on Thursday 1 January.  The first poll of Sunday 4 January issues the
  reset call, the platform refuses it, nothing is recorded; the poll ten minutes later, in
  the same week, issues the call again.
\<close>

theorem reset_reissued_after_failure_counterexample:
  "clock_ok epoch_parse 0 [sunday_first \<lparr> p_putOk := False \<rparr>, sunday_second] \<and>
   fst (run_polls epoch_parse 0 Weekly thursday_db
          [sunday_first \<lparr> p_putOk := False \<rparr>, sunday_second]) = [True, True] \<and>
   same_period 0 Weekly (p_now sunday_first) (p_now sunday_second)"
  by (simp add: sunday_first_def sunday_second_def thursday_db_def poll_eval same_period_def
      week_index_def)

end
